theory Spec2Isabelle
  imports Main
begin

section \<open>CookShare: the REST routes over the relational schema\<close>

text \<open>
  The repository is an Express application: eight route files, each handler one
  parameterised SQL statement sent through a pooled connection (\<^verbatim>\<open>db.query\<close>),
  and the schema \<^verbatim>\<open>schema.sql\<close>. A handler is modelled as a function from the
  request and the database state to the HTTP response, the new database state and the
  list of statements it handed to the pool. The storage engine, the password primitive
  and the clock are outside the repository; what the handlers need of them is written
  out below (constraints of the schema) or taken as a parameter (\<open>env\<close>).

  The engine is taken as schema.sql declares it and in its default strict mode: NOT NULL,
  UNIQUE, CHECK and FOREIGN KEY constraints are enforced, a value that does not fit its
  column is rejected, and a rejected statement changes nothing. The texts of its errors
  follow the engine's wording, with the names it generates for the constraints.

  Strings are sequences of characters, one \<^typ>\<open>char\<close> per character in Latin-1
  coding, so that an accented letter of the Spanish messages is one element. JSON
  numbers are modelled by integers, and the values of a request body by JSON scalars.
\<close>

subsection \<open>Values of a request and of a response\<close>

text \<open>
  \<^verbatim>\<open>req.body\<close> is the object parsed by \<^verbatim>\<open>express.json()\<close>; the routes
  read flat fields from it. A field that is missing reads as \<^verbatim>\<open>undefined\<close>.

  The model covers the bodies that the API describes: flat objects whose fields hold
  JSON scalars, a number being an integer. A field that holds an array or a nested
  object (which the driver would write into the statement as a list or as column
  assignments) and a number with a fraction are outside the model, and every statement
  below about all bodies is a statement about all bodies of this kind. The parser hands
  over only the integers that a double represents; they are among the integers here.
\<close>

datatype jsval = JUndefined | JNull | JBool bool | JNum int | JStr string

type_synonym obj = "(string \<times> jsval) list"

definition field :: "obj \<Rightarrow> string \<Rightarrow> jsval" where
  "field b k = (case map_of b k of None \<Rightarrow> JUndefined | Some v \<Rightarrow> v)"

text \<open>JavaScript truthiness, as tested by \<^verbatim>\<open>!x\<close> and \<^verbatim>\<open>if (x)\<close>.\<close>

fun truthy :: "jsval \<Rightarrow> bool" where
  "truthy JUndefined = False"
| "truthy JNull = False"
| "truthy (JBool b) = b"
| "truthy (JNum n) = (n \<noteq> 0)"
| "truthy (JStr s) = (s \<noteq> [])"

datatype json = Val jsval | Arr "json list" | Obj "(string \<times> json) list"

text \<open>\<^verbatim>\<open>res.json(x)\<close> serialises an object and leaves out the properties that are undefined.\<close>

definition json_of_obj :: "obj \<Rightarrow> json" where
  "json_of_obj kvs = Obj (map (\<lambda>(k, v). (k, Val v)) (filter (\<lambda>(k, v). v \<noteq> JUndefined) kvs))"

text \<open>Object spread \<^verbatim>\<open>{ k: v, ...body }\<close>: a key of the body that is already there is overwritten in place.\<close>

fun put :: "string \<Rightarrow> jsval \<Rightarrow> obj \<Rightarrow> obj" where
  "put k v [] = [(k, v)]"
| "put k v ((k', v') # kvs) = (if k = k' then (k, v) # kvs else (k', v') # put k v kvs)"

definition spread :: "obj \<Rightarrow> obj \<Rightarrow> obj" where
  "spread init b = fold (\<lambda>(k, v) acc. put k v acc) b init"

record resp =
  status :: nat
  payload :: json

definition error_body :: "string \<Rightarrow> json" where
  "error_body m = Obj [(''error'', Val (JStr m))]"

definition mensaje_body :: "string \<Rightarrow> json" where
  "mensaje_body m = Obj [(''mensaje'', Val (JStr m))]"

definition message_body :: "string \<Rightarrow> json" where
  "message_body m = Obj [(''message'', Val (JStr m))]"

subsection \<open>The tables of schema.sql\<close>

text \<open>
  One record per table, a nullable column as an option. Date-times are points of a
  clock counted in \<^typ>\<open>nat\<close>; DECIMAL(6,2) and JSON numbers are modelled by their
  integer values.
\<close>

record usuario =
  u_id_usuario :: int
  u_nombre :: string
  u_email :: string
  u_contrasena :: string
  u_tipo_usuario :: "string option"
  u_fecha_registro :: nat

record sesion =
  s_id_sesion :: int
  s_id_usuario :: "int option"
  s_fecha_inicio :: nat
  s_fecha_cierre :: "nat option"

record categoria =
  c_id_categoria :: int
  c_nombre :: string

record receta =
  r_id_receta :: int
  r_titulo :: string
  r_descripcion :: "string option"
  r_tiempo_preparacion :: "int option"
  r_costo :: "int option"
  r_es_publica :: "int option"
  r_es_premium :: "int option"
  r_categoria_id :: "int option"
  r_autor_id :: "int option"
  r_fecha_creacion :: nat
  r_fecha_modificacion :: nat

record autor_receta =
  a_id_receta :: int
  a_id_usuario :: int
  a_rol :: "string option"
  a_permiso_modificar :: "int option"
  a_fecha_invitacion :: nat

record ingrediente =
  i_id_ingrediente :: int
  i_nombre :: string
  i_unidad_medida :: "string option"

record receta_ingrediente =
  ri_id_receta :: int
  ri_id_ingrediente :: int
  ri_cantidad :: "int option"

record paso =
  p_id_paso :: int
  p_id_receta :: "int option"
  p_numero_paso :: "int option"
  p_descripcion :: "string option"

record valoracion =
  v_id_valoracion :: int
  v_id_receta :: "int option"
  v_id_usuario :: "int option"
  v_puntuacion :: "int option"
  v_comentario :: "string option"
  v_fecha_valoracion :: nat

record suscripcion =
  su_id_suscripcion :: int
  su_id_usuario :: "int option"
  su_fecha_inicio :: nat
  su_fecha_fin :: "nat option"
  su_monto :: "int option"

text \<open>
  The database: the rows of every table in the engine's natural order, and for each
  AUTO_INCREMENT key the next value to hand out.
\<close>

record db =
  usuarios :: "usuario list"
  sesiones :: "sesion list"
  categorias :: "categoria list"
  recetas :: "receta list"
  autores_receta :: "autor_receta list"
  ingredientes :: "ingrediente list"
  receta_ingredientes :: "receta_ingrediente list"
  pasos :: "paso list"
  valoraciones :: "valoracion list"
  suscripciones :: "suscripcion list"
  next_usuario :: int
  next_sesion :: int
  next_categoria :: int
  next_receta :: int
  next_ingrediente :: int
  next_paso :: int
  next_valoracion :: int
  next_suscripcion :: int

subsection \<open>What lies outside the repository\<close>

text \<open>
  The parts of the engine and of the bcrypt library that the routes rely on but that no
  file of the repository fixes are parameters: the clock read by NOW() and
  CURRENT_TIMESTAMP, a failure of the connection (every query then rejects with the
  driver's message), the engine's reading of a text as a number or as a date-time, the
  folding of characters by the collation \<^verbatim>\<open>utf8mb4_unicode_ci\<close>, and the two
  bcrypt primitives on strings (\<open>bcrypt_hash\<close> is the hash with the salt drawn for
  this call).
\<close>

record env =
  clock :: nat
  link_down :: "string option"
  int_of_text :: "string \<Rightarrow> int option"
  key_of_text :: "string \<Rightarrow> int option"
  datetime_of_text :: "string \<Rightarrow> nat option"
  fold_char :: "char \<Rightarrow> char"
  bcrypt_hash :: "string \<Rightarrow> string"
  bcrypt_compare :: "string \<Rightarrow> string \<Rightarrow> bool"

text \<open>Equality of two texts under the collation.\<close>

definition coll_eq :: "env \<Rightarrow> string \<Rightarrow> string \<Rightarrow> bool" where
  "coll_eq E s t = (map (fold_char E) s = map (fold_char E) t)"

text \<open>
  \<^verbatim>\<open>bcrypt.hash(data, saltRounds)\<close> and \<^verbatim>\<open>bcrypt.compare(data, hash)\<close>
  throw when the data is missing or is not a string.
\<close>

definition bcrypt_hash_js :: "env \<Rightarrow> jsval \<Rightarrow> string + string" where
  "bcrypt_hash_js E v =
     (case v of
        JStr s \<Rightarrow> Inr (bcrypt_hash E s)
      | JUndefined \<Rightarrow> Inl ''data and salt arguments required''
      | JNull \<Rightarrow> Inl ''data and salt arguments required''
      | _ \<Rightarrow> Inl ''data must be a string or Buffer and salt must either be a salt string or a number of rounds'')"

definition bcrypt_compare_js :: "env \<Rightarrow> jsval \<Rightarrow> jsval \<Rightarrow> string + bool" where
  "bcrypt_compare_js E v h =
     (if v = JUndefined \<or> v = JNull \<or> h = JUndefined \<or> h = JNull
      then Inl ''data and hash arguments required''
      else (case v of
              JStr s \<Rightarrow> (case h of
                           JStr t \<Rightarrow> Inr (bcrypt_compare E s t)
                         | _ \<Rightarrow> Inl ''data and hash must be strings'')
            | _ \<Rightarrow> Inl ''data and hash must be strings''))"

subsection \<open>Placeholders: from a JavaScript value to a column\<close>

text \<open>
  The driver writes \<^verbatim>\<open>undefined\<close> and \<^verbatim>\<open>null\<close> as NULL, a boolean as
  \<^verbatim>\<open>true\<close>/\<^verbatim>\<open>false\<close> (1 and 0), a number as itself and a string as a quoted
  text. The engine, in its default strict mode, rejects a value that does not fit the
  column. Each conversion returns the engine's error text or the value to store.
\<close>

fun show_nat :: "nat \<Rightarrow> string" where
  "show_nat n = (if n < 10 then [''0123456789'' ! n]
                 else show_nat (n div 10) @ [''0123456789'' ! (n mod 10)])"

definition show_int :: "int \<Rightarrow> string" where
  "show_int i = (if i < 0 then CHR ''-'' # show_nat (nat (- i)) else show_nat (nat i))"

definition out_of_range :: "string \<Rightarrow> string" where
  "out_of_range c = ''Out of range value for column '' @ [CHR 0x27] @ c @ [CHR 0x27] @ '' at row 1''"

definition incorrect_value :: "string \<Rightarrow> string \<Rightarrow> string \<Rightarrow> string" where
  "incorrect_value ty s c =
     ''Incorrect '' @ ty @ '' value: '' @ [CHR 0x27] @ s @ [CHR 0x27] @ '' for column '' @
     [CHR 0x27] @ c @ [CHR 0x27] @ '' at row 1''"

definition too_long :: "string \<Rightarrow> string" where
  "too_long c = ''Data too long for column '' @ [CHR 0x27] @ c @ [CHR 0x27] @ '' at row 1''"

definition truncated :: "string \<Rightarrow> string" where
  "truncated c = ''Data truncated for column '' @ [CHR 0x27] @ c @ [CHR 0x27] @ '' at row 1''"

definition cannot_be_null :: "string \<Rightarrow> string" where
  "cannot_be_null c = ''Column '' @ [CHR 0x27] @ c @ [CHR 0x27] @ '' cannot be null''"

definition check_violated :: "string \<Rightarrow> string" where
  "check_violated c = ''Check constraint '' @ [CHR 0x27] @ c @ [CHR 0x27] @ '' is violated.''"

definition fk_child_fails :: "string \<Rightarrow> string" where
  "fk_child_fails c =
     ''Cannot add or update a child row: a foreign key constraint fails ('' @ c @ '')''"

definition fk_parent_fails :: "string \<Rightarrow> string" where
  "fk_parent_fails c =
     ''Cannot delete or update a parent row: a foreign key constraint fails ('' @ c @ '')''"

definition duplicate_entry :: "string \<Rightarrow> string \<Rightarrow> string" where
  "duplicate_entry s k =
     ''Duplicate entry '' @ [CHR 0x27] @ s @ [CHR 0x27] @ '' for key '' @ [CHR 0x27] @ k @ [CHR 0x27]"

definition ranged :: "int \<Rightarrow> int \<Rightarrow> string \<Rightarrow> int \<Rightarrow> string + int option" where
  "ranged lo hi c n = (if lo \<le> n \<and> n \<le> hi then Inr (Some n) else Inl (out_of_range c))"

definition num_col :: "env \<Rightarrow> int \<Rightarrow> int \<Rightarrow> string \<Rightarrow> string \<Rightarrow> jsval \<Rightarrow> string + int option" where
  "num_col E lo hi ty c v =
     (case v of
        JUndefined \<Rightarrow> Inr None
      | JNull \<Rightarrow> Inr None
      | JBool b \<Rightarrow> Inr (Some (if b then 1 else 0))
      | JNum n \<Rightarrow> ranged lo hi c n
      | JStr s \<Rightarrow> (case int_of_text E s of
                     None \<Rightarrow> Inl (incorrect_value ty s c)
                   | Some n \<Rightarrow> ranged lo hi c n))"

text \<open>INT, BOOLEAN (that is TINYINT(1)) and DECIMAL(6,2) columns.\<close>

definition int_col :: "env \<Rightarrow> string \<Rightarrow> jsval \<Rightarrow> string + int option" where
  "int_col E c v = num_col E (- 2147483648) 2147483647 ''integer'' c v"

definition bool_col :: "env \<Rightarrow> string \<Rightarrow> jsval \<Rightarrow> string + int option" where
  "bool_col E c v = num_col E (- 128) 127 ''integer'' c v"

definition dec_col :: "env \<Rightarrow> string \<Rightarrow> jsval \<Rightarrow> string + int option" where
  "dec_col E c v = num_col E (- 9999) 9999 ''decimal'' c v"

text \<open>VARCHAR(n) and TEXT columns (TEXT holds 65535 characters of this coding).\<close>

definition text_col :: "nat \<Rightarrow> string \<Rightarrow> jsval \<Rightarrow> string + string option" where
  "text_col n c v =
     (case v of
        JUndefined \<Rightarrow> Inr None
      | JNull \<Rightarrow> Inr None
      | JBool b \<Rightarrow> Inr (Some (if b then ''1'' else ''0''))
      | JNum i \<Rightarrow> (if length (show_int i) \<le> n then Inr (Some (show_int i)) else Inl (too_long c))
      | JStr s \<Rightarrow> (if length s \<le> n then Inr (Some s) else Inl (too_long c)))"

text \<open>ENUM('publico','premium'): a text names a member up to the collation, a number its position.\<close>

definition enum_col :: "env \<Rightarrow> string \<Rightarrow> jsval \<Rightarrow> string + string option" where
  "enum_col E c v =
     (case v of
        JUndefined \<Rightarrow> Inr None
      | JNull \<Rightarrow> Inr None
      | JBool b \<Rightarrow> (if b then Inr (Some ''publico'') else Inl (truncated c))
      | JNum i \<Rightarrow> (if i = 1 then Inr (Some ''publico'')
                   else if i = 2 then Inr (Some ''premium'') else Inl (truncated c))
      | JStr s \<Rightarrow> (if coll_eq E s ''publico'' then Inr (Some ''publico'')
                   else if coll_eq E s ''premium'' then Inr (Some ''premium'')
                   else Inl (truncated c)))"

text \<open>DATETIME columns: a number is read through its digits.\<close>

definition datetime_col :: "env \<Rightarrow> string \<Rightarrow> jsval \<Rightarrow> string + nat option" where
  "datetime_col E c v =
     (case v of
        JUndefined \<Rightarrow> Inr None
      | JNull \<Rightarrow> Inr None
      | JBool b \<Rightarrow> Inl (incorrect_value ''datetime'' (if b then ''1'' else ''0'') c)
      | JNum i \<Rightarrow> (case datetime_of_text E (show_int i) of
                     None \<Rightarrow> Inl (incorrect_value ''datetime'' (show_int i) c)
                   | Some t \<Rightarrow> Inr (Some t))
      | JStr s \<Rightarrow> (case datetime_of_text E s of
                     None \<Rightarrow> Inl (incorrect_value ''datetime'' s c)
                   | Some t \<Rightarrow> Inr (Some t)))"

text \<open>A NOT NULL column refuses NULL.\<close>

definition not_null :: "string \<Rightarrow> string + 'a option \<Rightarrow> string + 'a" where
  "not_null c r =
     (case r of
        Inl m \<Rightarrow> Inl m
      | Inr None \<Rightarrow> Inl (cannot_be_null c)
      | Inr (Some x) \<Rightarrow> Inr x)"

text \<open>
  A placeholder compared with an integer key (\<^verbatim>\<open>WHERE id = ?\<close>): the number it
  stands for, or nothing when it can equal no key. A path parameter is always a string.
\<close>

definition key_of :: "env \<Rightarrow> jsval \<Rightarrow> int option" where
  "key_of E v =
     (case v of
        JUndefined \<Rightarrow> None
      | JNull \<Rightarrow> None
      | JBool b \<Rightarrow> Some (if b then 1 else 0)
      | JNum n \<Rightarrow> Some n
      | JStr s \<Rightarrow> key_of_text E s)"

subsection \<open>Statements and their results\<close>

text \<open>
  What \<^verbatim>\<open>db.query\<close> resolves to: the rows of a SELECT (each row an object of
  column names and values), or the header of a write with \<^verbatim>\<open>insertId\<close> and
  \<^verbatim>\<open>affectedRows\<close> (the driver counts the rows the WHERE clause found).
\<close>

record result =
  rows :: "obj list"
  insertId :: int
  affectedRows :: nat

definition selected :: "obj list \<Rightarrow> result" where
  "selected rs = \<lparr>rows = rs, insertId = 0, affectedRows = 0\<rparr>"

definition written :: "int \<Rightarrow> nat \<Rightarrow> result" where
  "written i n = \<lparr>rows = [], insertId = i, affectedRows = n\<rparr>"

text \<open>
  A statement as the route hands it to the pool: the SQL text and the values of its
  placeholders. The outcome of a handler lists the statements it sent.
\<close>

type_synonym stmt = "string \<times> jsval list"

type_synonym answer = "string + result \<times> db"

definition andthen :: "string + 'a \<Rightarrow> ('a \<Rightarrow> string + 'b) \<Rightarrow> string + 'b" where
  "andthen r f = (case r of Inl m \<Rightarrow> Inl m | Inr x \<Rightarrow> f x)"

text \<open>Values as the driver hands them back; a DECIMAL comes back as a text.\<close>

definition jint :: "int option \<Rightarrow> jsval" where
  "jint x = (case x of None \<Rightarrow> JNull | Some i \<Rightarrow> JNum i)"

definition jtext :: "string option \<Rightarrow> jsval" where
  "jtext x = (case x of None \<Rightarrow> JNull | Some s \<Rightarrow> JStr s)"

definition jdec :: "int option \<Rightarrow> jsval" where
  "jdec x = (case x of None \<Rightarrow> JNull | Some i \<Rightarrow> JStr (show_int i @ ''.00''))"

definition jtime :: "nat \<Rightarrow> jsval" where
  "jtime t = JNum (int t)"

definition jtime_opt :: "nat option \<Rightarrow> jsval" where
  "jtime_opt x = (case x of None \<Rightarrow> JNull | Some t \<Rightarrow> jtime t)"

text \<open>A nullable foreign key refers to a key of the parent table, or is NULL.\<close>

definition refers :: "int option \<Rightarrow> int list \<Rightarrow> bool" where
  "refers k ks = (case k of None \<Rightarrow> True | Some i \<Rightarrow> i \<in> set ks)"

text \<open>\<^verbatim>\<open>col = ?\<close> on a nullable integer column.\<close>

definition eq_key :: "int option \<Rightarrow> int option \<Rightarrow> bool" where
  "eq_key c k = (case c of None \<Rightarrow> False | Some i \<Rightarrow> (case k of None \<Rightarrow> False | Some j \<Rightarrow> i = j))"

text \<open>
  \<^verbatim>\<open>text LIKE pattern\<close>: \<^verbatim>\<open>%\<close> stands for any run of characters, \<^verbatim>\<open>_\<close> for
  one character, a backslash takes the next character of the pattern literally, and any
  other character matches up to the collation.
\<close>

fun like :: "env \<Rightarrow> string \<Rightarrow> string \<Rightarrow> bool" where
  "like E [] s = (s = [])"
| "like E (p # ps) s =
     (if p = CHR ''%'' then
        like E ps s \<or> (case s of [] \<Rightarrow> False | c # cs \<Rightarrow> like E (p # ps) cs)
      else if p = CHR ''_'' then
        (case s of [] \<Rightarrow> False | c # cs \<Rightarrow> like E ps cs)
      else if p = CHR 0x5C then
        (case ps of
           [] \<Rightarrow> (case s of [] \<Rightarrow> False | c # cs \<Rightarrow> fold_char E c = fold_char E p \<and> cs = [])
         | q # qs \<Rightarrow> (case s of [] \<Rightarrow> False | c # cs \<Rightarrow> fold_char E c = fold_char E q \<and> like E qs cs))
      else
        (case s of [] \<Rightarrow> False | c # cs \<Rightarrow> fold_char E c = fold_char E p \<and> like E ps cs))"

text \<open>A placeholder used as a LIKE pattern or compared with a text column.\<close>

definition text_of :: "jsval \<Rightarrow> string option" where
  "text_of v =
     (case v of
        JUndefined \<Rightarrow> None
      | JNull \<Rightarrow> None
      | JBool b \<Rightarrow> Some (if b then ''1'' else ''0'')
      | JNum i \<Rightarrow> Some (show_int i)
      | JStr s \<Rightarrow> Some s)"

definition like_opt :: "env \<Rightarrow> string option \<Rightarrow> string option \<Rightarrow> bool" where
  "like_opt E p s =
     (case p of None \<Rightarrow> False | Some pat \<Rightarrow> (case s of None \<Rightarrow> False | Some t \<Rightarrow> like E pat t))"

text \<open>SELECT DISTINCT: every row once, at the place of its first occurrence.\<close>

fun uniq :: "'a list \<Rightarrow> 'a list" where
  "uniq [] = []"
| "uniq (x # xs) = x # filter (\<lambda>y. y \<noteq> x) (uniq xs)"

text \<open>
  \<^verbatim>\<open>db.query\<close>: when the connection is down the promise rejects with the driver's
  message; otherwise the engine runs the statement, and either rejects it with its error
  text, leaving every table as it was, or answers with a result and the new state.
\<close>

definition query :: "env \<Rightarrow> (db \<Rightarrow> answer) \<Rightarrow> db \<Rightarrow> answer" where
  "query E sem d = (case link_down E of Some m \<Rightarrow> Inl m | None \<Rightarrow> sem d)"

definition no_match :: "db \<Rightarrow> answer" where
  "no_match d = Inr (written 0 0, d)"

subsection \<open>Usuarios and Sesiones\<close>

definition usuario_row :: "usuario \<Rightarrow> obj" where
  "usuario_row u =
     [(''id_usuario'', JNum (u_id_usuario u)), (''nombre'', JStr (u_nombre u)),
      (''email'', JStr (u_email u)), (''contrasena'', JStr (u_contrasena u)),
      (''tipo_usuario'', jtext (u_tipo_usuario u)), (''fecha_registro'', jtime (u_fecha_registro u))]"

definition usuario_public_row :: "usuario \<Rightarrow> obj" where
  "usuario_public_row u =
     [(''id_usuario'', JNum (u_id_usuario u)), (''nombre'', JStr (u_nombre u)),
      (''email'', JStr (u_email u)),
      (''tipo_usuario'', jtext (u_tipo_usuario u)), (''fecha_registro'', jtime (u_fecha_registro u))]"

text \<open>SELECT id_usuario, nombre, email, tipo_usuario, fecha_registro FROM Usuarios\<close>

definition select_usuarios :: "db \<Rightarrow> answer" where
  "select_usuarios d = Inr (selected (map usuario_public_row (usuarios d)), d)"

text \<open>
  \<^verbatim>\<open>email = ?\<close>: a text placeholder is compared under the collation, a number
  with the number the engine reads from the column.
\<close>

definition email_is :: "env \<Rightarrow> jsval \<Rightarrow> usuario \<Rightarrow> bool" where
  "email_is E v u =
     (case v of
        JUndefined \<Rightarrow> False
      | JNull \<Rightarrow> False
      | JBool b \<Rightarrow> key_of_text E (u_email u) = Some (if b then 1 else 0)
      | JNum n \<Rightarrow> key_of_text E (u_email u) = Some n
      | JStr s \<Rightarrow> coll_eq E s (u_email u))"

text \<open>SELECT * FROM Usuarios WHERE email = ?\<close>

definition select_usuario_email :: "env \<Rightarrow> jsval \<Rightarrow> db \<Rightarrow> answer" where
  "select_usuario_email E email d =
     Inr (selected (map usuario_row (filter (email_is E email) (usuarios d))), d)"

text \<open>INSERT INTO Usuarios (nombre, email, contrasena, tipo_usuario) VALUES (?, ?, ?, ?)\<close>

definition insert_usuario :: "env \<Rightarrow> jsval \<Rightarrow> jsval \<Rightarrow> jsval \<Rightarrow> jsval \<Rightarrow> db \<Rightarrow> answer" where
  "insert_usuario E nombre email contrasena tipo_usuario d =
     andthen (not_null ''nombre'' (text_col 100 ''nombre'' nombre)) (\<lambda>n.
     andthen (not_null ''email'' (text_col 100 ''email'' email)) (\<lambda>e.
     andthen (not_null ''contrasena'' (text_col 255 ''contrasena'' contrasena)) (\<lambda>h.
     andthen (enum_col E ''tipo_usuario'' tipo_usuario) (\<lambda>t.
       if list_ex (\<lambda>u. coll_eq E (u_email u) e) (usuarios d)
       then Inl (duplicate_entry e ''Usuarios.email'')
       else Inr (written (next_usuario d) 1,
                 d\<lparr>usuarios := usuarios d @
                      [\<lparr>u_id_usuario = next_usuario d, u_nombre = n, u_email = e,
                        u_contrasena = h, u_tipo_usuario = t, u_fecha_registro = clock E\<rparr>],
                   next_usuario := next_usuario d + 1\<rparr>)))))"

text \<open>
  The two UPDATE statements of the users route. With a password:
  \<^verbatim>\<open>UPDATE Usuarios SET nombre = ?, email = ?, tipo_usuario = ?, contrasena = ? WHERE id_usuario = ?\<close>;
  without: \<^verbatim>\<open>UPDATE Usuarios SET nombre = ?, email = ?, tipo_usuario = ? WHERE id_usuario = ?\<close>.
  A statement that finds no row sets nothing and checks nothing.
\<close>

definition update_usuario_contrasena ::
  "env \<Rightarrow> jsval \<Rightarrow> jsval \<Rightarrow> jsval \<Rightarrow> jsval \<Rightarrow> jsval \<Rightarrow> db \<Rightarrow> answer" where
  "update_usuario_contrasena E nombre email tipo_usuario contrasena ident d =
     (case key_of E ident of
        None \<Rightarrow> no_match d
      | Some k \<Rightarrow>
          if k \<notin> set (map u_id_usuario (usuarios d)) then no_match d
          else
            andthen (not_null ''nombre'' (text_col 100 ''nombre'' nombre)) (\<lambda>n.
            andthen (not_null ''email'' (text_col 100 ''email'' email)) (\<lambda>e.
            andthen (enum_col E ''tipo_usuario'' tipo_usuario) (\<lambda>t.
            andthen (not_null ''contrasena'' (text_col 255 ''contrasena'' contrasena)) (\<lambda>h.
              if list_ex (\<lambda>u. u_id_usuario u \<noteq> k \<and> coll_eq E (u_email u) e) (usuarios d)
              then Inl (duplicate_entry e ''Usuarios.email'')
              else Inr (written 0 (length (filter (\<lambda>u. u_id_usuario u = k) (usuarios d))),
                        d\<lparr>usuarios := map (\<lambda>u. if u_id_usuario u = k
                                then u\<lparr>u_nombre := n, u_email := e, u_tipo_usuario := t, u_contrasena := h\<rparr>
                                else u) (usuarios d)\<rparr>))))))"

definition update_usuario ::
  "env \<Rightarrow> jsval \<Rightarrow> jsval \<Rightarrow> jsval \<Rightarrow> jsval \<Rightarrow> db \<Rightarrow> answer" where
  "update_usuario E nombre email tipo_usuario ident d =
     (case key_of E ident of
        None \<Rightarrow> no_match d
      | Some k \<Rightarrow>
          if k \<notin> set (map u_id_usuario (usuarios d)) then no_match d
          else
            andthen (not_null ''nombre'' (text_col 100 ''nombre'' nombre)) (\<lambda>n.
            andthen (not_null ''email'' (text_col 100 ''email'' email)) (\<lambda>e.
            andthen (enum_col E ''tipo_usuario'' tipo_usuario) (\<lambda>t.
              if list_ex (\<lambda>u. u_id_usuario u \<noteq> k \<and> coll_eq E (u_email u) e) (usuarios d)
              then Inl (duplicate_entry e ''Usuarios.email'')
              else Inr (written 0 (length (filter (\<lambda>u. u_id_usuario u = k) (usuarios d))),
                        d\<lparr>usuarios := map (\<lambda>u. if u_id_usuario u = k
                                then u\<lparr>u_nombre := n, u_email := e, u_tipo_usuario := t\<rparr>
                                else u) (usuarios d)\<rparr>)))))"

text \<open>
  DELETE FROM Usuarios WHERE id_usuario = ?. Recetas.autor_id refers to the user without
  a cascade, so an author cannot be deleted; Sesiones, Autores_Receta, Valoraciones and
  Suscripciones are declared ON DELETE CASCADE.
\<close>

definition delete_usuario :: "env \<Rightarrow> jsval \<Rightarrow> db \<Rightarrow> answer" where
  "delete_usuario E ident d =
     (case key_of E ident of
        None \<Rightarrow> no_match d
      | Some k \<Rightarrow>
          if k \<notin> set (map u_id_usuario (usuarios d)) then no_match d
          else if list_ex (\<lambda>r. r_autor_id r = Some k) (recetas d)
          then Inl (fk_parent_fails ''Recetas_ibfk_2'')
          else Inr (written 0 (length (filter (\<lambda>u. u_id_usuario u = k) (usuarios d))),
                    d\<lparr>usuarios := filter (\<lambda>u. u_id_usuario u \<noteq> k) (usuarios d),
                      sesiones := filter (\<lambda>s. s_id_usuario s \<noteq> Some k) (sesiones d),
                      autores_receta := filter (\<lambda>a. a_id_usuario a \<noteq> k) (autores_receta d),
                      valoraciones := filter (\<lambda>v. v_id_usuario v \<noteq> Some k) (valoraciones d),
                      suscripciones := filter (\<lambda>x. su_id_usuario x \<noteq> Some k) (suscripciones d)\<rparr>))"

text \<open>INSERT INTO Sesiones (id_usuario) VALUES (?)\<close>

definition insert_sesion :: "env \<Rightarrow> jsval \<Rightarrow> db \<Rightarrow> answer" where
  "insert_sesion E id_usuario d =
     andthen (int_col E ''id_usuario'' id_usuario) (\<lambda>uid.
       if \<not> refers uid (map u_id_usuario (usuarios d))
       then Inl (fk_child_fails ''Sesiones_ibfk_1'')
       else Inr (written (next_sesion d) 1,
                 d\<lparr>sesiones := sesiones d @
                      [\<lparr>s_id_sesion = next_sesion d, s_id_usuario = uid,
                        s_fecha_inicio = clock E, s_fecha_cierre = None\<rparr>],
                   next_sesion := next_sesion d + 1\<rparr>))"

text \<open>UPDATE Sesiones SET fecha_cierre = NOW() WHERE id_sesion = ? AND fecha_cierre IS NULL\<close>

definition is_open :: "env \<Rightarrow> jsval \<Rightarrow> sesion \<Rightarrow> bool" where
  "is_open E ident s = (key_of E ident = Some (s_id_sesion s) \<and> s_fecha_cierre s = None)"

definition close_sesion :: "env \<Rightarrow> jsval \<Rightarrow> db \<Rightarrow> answer" where
  "close_sesion E ident d =
     Inr (written 0 (length (filter (is_open E ident) (sesiones d))),
          d\<lparr>sesiones := map (\<lambda>s. if is_open E ident s then s\<lparr>s_fecha_cierre := Some (clock E)\<rparr> else s)
                            (sesiones d)\<rparr>)"

subsection \<open>Categorias, Ingredientes, Pasos, Valoraciones and Suscripciones\<close>

definition categoria_row :: "categoria \<Rightarrow> obj" where
  "categoria_row c = [(''id_categoria'', JNum (c_id_categoria c)), (''nombre'', JStr (c_nombre c))]"

text \<open>SELECT * FROM Categorias\<close>

definition select_categorias :: "db \<Rightarrow> answer" where
  "select_categorias d = Inr (selected (map categoria_row (categorias d)), d)"

text \<open>SELECT * FROM Categorias WHERE id_categoria = ?\<close>

definition select_categoria :: "env \<Rightarrow> jsval \<Rightarrow> db \<Rightarrow> answer" where
  "select_categoria E ident d =
     Inr (selected (map categoria_row
            (filter (\<lambda>c. key_of E ident = Some (c_id_categoria c)) (categorias d))), d)"

text \<open>INSERT INTO Categorias (nombre) VALUES (?)\<close>

definition insert_categoria :: "env \<Rightarrow> jsval \<Rightarrow> db \<Rightarrow> answer" where
  "insert_categoria E nombre d =
     andthen (not_null ''nombre'' (text_col 50 ''nombre'' nombre)) (\<lambda>n.
       Inr (written (next_categoria d) 1,
            d\<lparr>categorias := categorias d @ [\<lparr>c_id_categoria = next_categoria d, c_nombre = n\<rparr>],
              next_categoria := next_categoria d + 1\<rparr>))"

text \<open>UPDATE Categorias SET nombre=? WHERE id_categoria=?\<close>

definition update_categoria :: "env \<Rightarrow> jsval \<Rightarrow> jsval \<Rightarrow> db \<Rightarrow> answer" where
  "update_categoria E nombre ident d =
     (case key_of E ident of
        None \<Rightarrow> no_match d
      | Some k \<Rightarrow>
          if k \<notin> set (map c_id_categoria (categorias d)) then no_match d
          else
            andthen (not_null ''nombre'' (text_col 50 ''nombre'' nombre)) (\<lambda>n.
              Inr (written 0 (length (filter (\<lambda>c. c_id_categoria c = k) (categorias d))),
                   d\<lparr>categorias := map (\<lambda>c. if c_id_categoria c = k then c\<lparr>c_nombre := n\<rparr> else c)
                                       (categorias d)\<rparr>)))"

text \<open>
  DELETE FROM Categorias WHERE id_categoria=?. Recetas.categoria_id refers to the
  category without a cascade.
\<close>

definition delete_categoria :: "env \<Rightarrow> jsval \<Rightarrow> db \<Rightarrow> answer" where
  "delete_categoria E ident d =
     (case key_of E ident of
        None \<Rightarrow> no_match d
      | Some k \<Rightarrow>
          if k \<notin> set (map c_id_categoria (categorias d)) then no_match d
          else if list_ex (\<lambda>r. r_categoria_id r = Some k) (recetas d)
          then Inl (fk_parent_fails ''Recetas_ibfk_1'')
          else Inr (written 0 (length (filter (\<lambda>c. c_id_categoria c = k) (categorias d))),
                    d\<lparr>categorias := filter (\<lambda>c. c_id_categoria c \<noteq> k) (categorias d)\<rparr>))"

definition ingrediente_row :: "ingrediente \<Rightarrow> obj" where
  "ingrediente_row i =
     [(''id_ingrediente'', JNum (i_id_ingrediente i)), (''nombre'', JStr (i_nombre i)),
      (''unidad_medida'', jtext (i_unidad_medida i))]"

text \<open>SELECT * FROM Ingredientes\<close>

definition select_ingredientes :: "db \<Rightarrow> answer" where
  "select_ingredientes d = Inr (selected (map ingrediente_row (ingredientes d)), d)"

text \<open>SELECT * FROM Ingredientes WHERE id_ingrediente = ?\<close>

definition select_ingrediente :: "env \<Rightarrow> jsval \<Rightarrow> db \<Rightarrow> answer" where
  "select_ingrediente E ident d =
     Inr (selected (map ingrediente_row
            (filter (\<lambda>i. key_of E ident = Some (i_id_ingrediente i)) (ingredientes d))), d)"

text \<open>INSERT INTO Ingredientes (nombre, unidad_medida) VALUES (?, ?)\<close>

definition insert_ingrediente :: "env \<Rightarrow> jsval \<Rightarrow> jsval \<Rightarrow> db \<Rightarrow> answer" where
  "insert_ingrediente E nombre unidad_medida d =
     andthen (not_null ''nombre'' (text_col 100 ''nombre'' nombre)) (\<lambda>n.
     andthen (text_col 20 ''unidad_medida'' unidad_medida) (\<lambda>um.
       Inr (written (next_ingrediente d) 1,
            d\<lparr>ingredientes := ingredientes d @
                 [\<lparr>i_id_ingrediente = next_ingrediente d, i_nombre = n, i_unidad_medida = um\<rparr>],
              next_ingrediente := next_ingrediente d + 1\<rparr>)))"

text \<open>UPDATE Ingredientes SET nombre=?, unidad_medida=? WHERE id_ingrediente=?\<close>

definition update_ingrediente :: "env \<Rightarrow> jsval \<Rightarrow> jsval \<Rightarrow> jsval \<Rightarrow> db \<Rightarrow> answer" where
  "update_ingrediente E nombre unidad_medida ident d =
     (case key_of E ident of
        None \<Rightarrow> no_match d
      | Some k \<Rightarrow>
          if k \<notin> set (map i_id_ingrediente (ingredientes d)) then no_match d
          else
            andthen (not_null ''nombre'' (text_col 100 ''nombre'' nombre)) (\<lambda>n.
            andthen (text_col 20 ''unidad_medida'' unidad_medida) (\<lambda>um.
              Inr (written 0 (length (filter (\<lambda>i. i_id_ingrediente i = k) (ingredientes d))),
                   d\<lparr>ingredientes := map (\<lambda>i. if i_id_ingrediente i = k
                           then i\<lparr>i_nombre := n, i_unidad_medida := um\<rparr> else i) (ingredientes d)\<rparr>))))"

text \<open>DELETE FROM Ingredientes WHERE id_ingrediente=?, cascading to Receta_Ingrediente.\<close>

definition delete_ingrediente :: "env \<Rightarrow> jsval \<Rightarrow> db \<Rightarrow> answer" where
  "delete_ingrediente E ident d =
     (case key_of E ident of
        None \<Rightarrow> no_match d
      | Some k \<Rightarrow>
          if k \<notin> set (map i_id_ingrediente (ingredientes d)) then no_match d
          else Inr (written 0 (length (filter (\<lambda>i. i_id_ingrediente i = k) (ingredientes d))),
                    d\<lparr>ingredientes := filter (\<lambda>i. i_id_ingrediente i \<noteq> k) (ingredientes d),
                      receta_ingredientes :=
                        filter (\<lambda>l. ri_id_ingrediente l \<noteq> k) (receta_ingredientes d)\<rparr>))"

definition paso_row :: "paso \<Rightarrow> obj" where
  "paso_row p =
     [(''id_paso'', JNum (p_id_paso p)), (''id_receta'', jint (p_id_receta p)),
      (''numero_paso'', jint (p_numero_paso p)), (''descripcion'', jtext (p_descripcion p))]"

text \<open>
  SELECT * FROM Pasos WHERE id_receta = ? ORDER BY numero_paso: ascending, the rows
  without a number first.
\<close>

definition select_pasos_receta :: "env \<Rightarrow> jsval \<Rightarrow> db \<Rightarrow> answer" where
  "select_pasos_receta E id_receta d =
     (let ps = filter (\<lambda>p. eq_key (p_id_receta p) (key_of E id_receta)) (pasos d)
      in Inr (selected (map paso_row
                (filter (\<lambda>p. p_numero_paso p = None) ps @
                 sort_key (\<lambda>p. case p_numero_paso p of None \<Rightarrow> 0 | Some n \<Rightarrow> n) (filter (\<lambda>p. p_numero_paso p \<noteq> None) ps))), d))"

text \<open>SELECT * FROM Pasos WHERE id_paso = ?\<close>

definition select_paso :: "env \<Rightarrow> jsval \<Rightarrow> db \<Rightarrow> answer" where
  "select_paso E ident d =
     Inr (selected (map paso_row (filter (\<lambda>p. key_of E ident = Some (p_id_paso p)) (pasos d))), d)"

text \<open>INSERT INTO Pasos (id_receta, numero_paso, descripcion) VALUES (?, ?, ?)\<close>

definition insert_paso :: "env \<Rightarrow> jsval \<Rightarrow> jsval \<Rightarrow> jsval \<Rightarrow> db \<Rightarrow> answer" where
  "insert_paso E id_receta numero_paso descripcion d =
     andthen (int_col E ''id_receta'' id_receta) (\<lambda>rid.
     andthen (int_col E ''numero_paso'' numero_paso) (\<lambda>n.
     andthen (text_col 65535 ''descripcion'' descripcion) (\<lambda>t.
       if \<not> refers rid (map r_id_receta (recetas d))
       then Inl (fk_child_fails ''Pasos_ibfk_1'')
       else Inr (written (next_paso d) 1,
                 d\<lparr>pasos := pasos d @
                      [\<lparr>p_id_paso = next_paso d, p_id_receta = rid, p_numero_paso = n,
                        p_descripcion = t\<rparr>],
                   next_paso := next_paso d + 1\<rparr>))))"

text \<open>UPDATE Pasos SET numero_paso=?, descripcion=? WHERE id_paso=?\<close>

definition update_paso :: "env \<Rightarrow> jsval \<Rightarrow> jsval \<Rightarrow> jsval \<Rightarrow> db \<Rightarrow> answer" where
  "update_paso E numero_paso descripcion ident d =
     (case key_of E ident of
        None \<Rightarrow> no_match d
      | Some k \<Rightarrow>
          if k \<notin> set (map p_id_paso (pasos d)) then no_match d
          else
            andthen (int_col E ''numero_paso'' numero_paso) (\<lambda>n.
            andthen (text_col 65535 ''descripcion'' descripcion) (\<lambda>t.
              Inr (written 0 (length (filter (\<lambda>p. p_id_paso p = k) (pasos d))),
                   d\<lparr>pasos := map (\<lambda>p. if p_id_paso p = k
                           then p\<lparr>p_numero_paso := n, p_descripcion := t\<rparr> else p) (pasos d)\<rparr>))))"

text \<open>DELETE FROM Pasos WHERE id_paso=?\<close>

definition delete_paso :: "env \<Rightarrow> jsval \<Rightarrow> db \<Rightarrow> answer" where
  "delete_paso E ident d =
     (case key_of E ident of
        None \<Rightarrow> no_match d
      | Some k \<Rightarrow>
          if k \<notin> set (map p_id_paso (pasos d)) then no_match d
          else Inr (written 0 (length (filter (\<lambda>p. p_id_paso p = k) (pasos d))),
                    d\<lparr>pasos := filter (\<lambda>p. p_id_paso p \<noteq> k) (pasos d)\<rparr>))"

definition valoracion_row :: "valoracion \<Rightarrow> obj" where
  "valoracion_row v =
     [(''id_valoracion'', JNum (v_id_valoracion v)), (''id_receta'', jint (v_id_receta v)),
      (''id_usuario'', jint (v_id_usuario v)), (''puntuacion'', jint (v_puntuacion v)),
      (''comentario'', jtext (v_comentario v)), (''fecha_valoracion'', jtime (v_fecha_valoracion v))]"

text \<open>
  SELECT v.*, u.nombre as nombre_usuario FROM Valoraciones v
  JOIN Usuarios u ON v.id_usuario = u.id_usuario
  WHERE v.id_receta = ? ORDER BY v.fecha_valoracion DESC
\<close>

definition select_valoraciones_receta :: "env \<Rightarrow> jsval \<Rightarrow> db \<Rightarrow> answer" where
  "select_valoraciones_receta E id_receta d =
     Inr (selected
            (map (\<lambda>(v, u). valoracion_row v @ [(''nombre_usuario'', JStr (u_nombre u))])
               (sort_key (\<lambda>(v, u). - int (v_fecha_valoracion v))
                  (concat (map (\<lambda>v. map (\<lambda>u. (v, u))
                                  (filter (\<lambda>u. v_id_usuario v = Some (u_id_usuario u)) (usuarios d)))
                     (filter (\<lambda>v. eq_key (v_id_receta v) (key_of E id_receta)) (valoraciones d)))))), d)"

text \<open>SELECT * FROM Valoraciones WHERE id_valoracion = ?\<close>

definition select_valoracion :: "env \<Rightarrow> jsval \<Rightarrow> db \<Rightarrow> answer" where
  "select_valoracion E ident d =
     Inr (selected (map valoracion_row
            (filter (\<lambda>v. key_of E ident = Some (v_id_valoracion v)) (valoraciones d))), d)"

text \<open>The constraint of the table: CHECK (puntuacion BETWEEN 1 AND 5); it holds of NULL.\<close>

definition check_puntuacion :: "int option \<Rightarrow> bool" where
  "check_puntuacion p = (case p of None \<Rightarrow> True | Some n \<Rightarrow> 1 \<le> n \<and> n \<le> 5)"

text \<open>INSERT INTO Valoraciones (id_receta, id_usuario, puntuacion, comentario) VALUES (?, ?, ?, ?)\<close>

definition insert_valoracion :: "env \<Rightarrow> jsval \<Rightarrow> jsval \<Rightarrow> jsval \<Rightarrow> jsval \<Rightarrow> db \<Rightarrow> answer" where
  "insert_valoracion E id_receta id_usuario puntuacion comentario d =
     andthen (int_col E ''id_receta'' id_receta) (\<lambda>rid.
     andthen (int_col E ''id_usuario'' id_usuario) (\<lambda>uid.
     andthen (int_col E ''puntuacion'' puntuacion) (\<lambda>p.
     andthen (text_col 65535 ''comentario'' comentario) (\<lambda>c.
       if \<not> check_puntuacion p then Inl (check_violated ''Valoraciones_chk_1'')
       else if \<not> refers rid (map r_id_receta (recetas d))
       then Inl (fk_child_fails ''Valoraciones_ibfk_1'')
       else if \<not> refers uid (map u_id_usuario (usuarios d))
       then Inl (fk_child_fails ''Valoraciones_ibfk_2'')
       else Inr (written (next_valoracion d) 1,
                 d\<lparr>valoraciones := valoraciones d @
                      [\<lparr>v_id_valoracion = next_valoracion d, v_id_receta = rid, v_id_usuario = uid,
                        v_puntuacion = p, v_comentario = c, v_fecha_valoracion = clock E\<rparr>],
                   next_valoracion := next_valoracion d + 1\<rparr>)))))"

text \<open>UPDATE Valoraciones SET puntuacion=?, comentario=? WHERE id_valoracion=?\<close>

definition update_valoracion :: "env \<Rightarrow> jsval \<Rightarrow> jsval \<Rightarrow> jsval \<Rightarrow> db \<Rightarrow> answer" where
  "update_valoracion E puntuacion comentario ident d =
     (case key_of E ident of
        None \<Rightarrow> no_match d
      | Some k \<Rightarrow>
          if k \<notin> set (map v_id_valoracion (valoraciones d)) then no_match d
          else
            andthen (int_col E ''puntuacion'' puntuacion) (\<lambda>p.
            andthen (text_col 65535 ''comentario'' comentario) (\<lambda>c.
              if \<not> check_puntuacion p then Inl (check_violated ''Valoraciones_chk_1'')
              else Inr (written 0 (length (filter (\<lambda>v. v_id_valoracion v = k) (valoraciones d))),
                        d\<lparr>valoraciones := map (\<lambda>v. if v_id_valoracion v = k
                                then v\<lparr>v_puntuacion := p, v_comentario := c\<rparr> else v)
                                (valoraciones d)\<rparr>))))"

text \<open>DELETE FROM Valoraciones WHERE id_valoracion=?\<close>

definition delete_valoracion :: "env \<Rightarrow> jsval \<Rightarrow> db \<Rightarrow> answer" where
  "delete_valoracion E ident d =
     (case key_of E ident of
        None \<Rightarrow> no_match d
      | Some k \<Rightarrow>
          if k \<notin> set (map v_id_valoracion (valoraciones d)) then no_match d
          else Inr (written 0 (length (filter (\<lambda>v. v_id_valoracion v = k) (valoraciones d))),
                    d\<lparr>valoraciones := filter (\<lambda>v. v_id_valoracion v \<noteq> k) (valoraciones d)\<rparr>))"

definition suscripcion_row :: "suscripcion \<Rightarrow> obj" where
  "suscripcion_row x =
     [(''id_suscripcion'', JNum (su_id_suscripcion x)), (''id_usuario'', jint (su_id_usuario x)),
      (''fecha_inicio'', jtime (su_fecha_inicio x)), (''fecha_fin'', jtime_opt (su_fecha_fin x)),
      (''monto'', jdec (su_monto x))]"

text \<open>SELECT * FROM Suscripciones\<close>

definition select_suscripciones :: "db \<Rightarrow> answer" where
  "select_suscripciones d = Inr (selected (map suscripcion_row (suscripciones d)), d)"

text \<open>SELECT * FROM Suscripciones WHERE id_usuario = ?\<close>

definition select_suscripciones_usuario :: "env \<Rightarrow> jsval \<Rightarrow> db \<Rightarrow> answer" where
  "select_suscripciones_usuario E id_usuario d =
     Inr (selected (map suscripcion_row
            (filter (\<lambda>x. eq_key (su_id_usuario x) (key_of E id_usuario)) (suscripciones d))), d)"

text \<open>SELECT * FROM Suscripciones WHERE id_suscripcion = ?\<close>

definition select_suscripcion :: "env \<Rightarrow> jsval \<Rightarrow> db \<Rightarrow> answer" where
  "select_suscripcion E ident d =
     Inr (selected (map suscripcion_row
            (filter (\<lambda>x. key_of E ident = Some (su_id_suscripcion x)) (suscripciones d))), d)"

text \<open>INSERT INTO Suscripciones (id_usuario, fecha_fin, monto) VALUES (?, ?, ?)\<close>

definition insert_suscripcion :: "env \<Rightarrow> jsval \<Rightarrow> jsval \<Rightarrow> jsval \<Rightarrow> db \<Rightarrow> answer" where
  "insert_suscripcion E id_usuario fecha_fin monto d =
     andthen (int_col E ''id_usuario'' id_usuario) (\<lambda>uid.
     andthen (datetime_col E ''fecha_fin'' fecha_fin) (\<lambda>ff.
     andthen (dec_col E ''monto'' monto) (\<lambda>m.
       if \<not> refers uid (map u_id_usuario (usuarios d))
       then Inl (fk_child_fails ''Suscripciones_ibfk_1'')
       else Inr (written (next_suscripcion d) 1,
                 d\<lparr>suscripciones := suscripciones d @
                      [\<lparr>su_id_suscripcion = next_suscripcion d, su_id_usuario = uid,
                        su_fecha_inicio = clock E, su_fecha_fin = ff, su_monto = m\<rparr>],
                   next_suscripcion := next_suscripcion d + 1\<rparr>))))"

text \<open>UPDATE Suscripciones SET fecha_fin=?, monto=? WHERE id_suscripcion=?\<close>

definition update_suscripcion :: "env \<Rightarrow> jsval \<Rightarrow> jsval \<Rightarrow> jsval \<Rightarrow> db \<Rightarrow> answer" where
  "update_suscripcion E fecha_fin monto ident d =
     (case key_of E ident of
        None \<Rightarrow> no_match d
      | Some k \<Rightarrow>
          if k \<notin> set (map su_id_suscripcion (suscripciones d)) then no_match d
          else
            andthen (datetime_col E ''fecha_fin'' fecha_fin) (\<lambda>ff.
            andthen (dec_col E ''monto'' monto) (\<lambda>m.
              Inr (written 0 (length (filter (\<lambda>x. su_id_suscripcion x = k) (suscripciones d))),
                   d\<lparr>suscripciones := map (\<lambda>x. if su_id_suscripcion x = k
                           then x\<lparr>su_fecha_fin := ff, su_monto := m\<rparr> else x) (suscripciones d)\<rparr>))))"

text \<open>DELETE FROM Suscripciones WHERE id_suscripcion=?\<close>

definition delete_suscripcion :: "env \<Rightarrow> jsval \<Rightarrow> db \<Rightarrow> answer" where
  "delete_suscripcion E ident d =
     (case key_of E ident of
        None \<Rightarrow> no_match d
      | Some k \<Rightarrow>
          if k \<notin> set (map su_id_suscripcion (suscripciones d)) then no_match d
          else Inr (written 0 (length (filter (\<lambda>x. su_id_suscripcion x = k) (suscripciones d))),
                    d\<lparr>suscripciones := filter (\<lambda>x. su_id_suscripcion x \<noteq> k) (suscripciones d)\<rparr>))"

subsection \<open>Recetas\<close>

text \<open>
  The projection of the three SELECT statements on recipes: the recipe's own columns,
  the name of its category and the name of its author.
\<close>

definition receta_row :: "receta \<Rightarrow> categoria \<Rightarrow> usuario \<Rightarrow> obj" where
  "receta_row r c u =
     [(''id_receta'', JNum (r_id_receta r)), (''titulo'', JStr (r_titulo r)),
      (''descripcion'', jtext (r_descripcion r)),
      (''tiempo_preparacion'', jint (r_tiempo_preparacion r)), (''costo'', jdec (r_costo r)),
      (''es_publica'', jint (r_es_publica r)), (''es_premium'', jint (r_es_premium r)),
      (''categoria'', JStr (c_nombre c)), (''autor'', JStr (u_nombre u))]"

text \<open>
  FROM Recetas r JOIN Categorias c ON r.categoria_id = c.id_categoria
  JOIN Usuarios u ON r.autor_id = u.id_usuario: the inner joins keep a recipe once for
  every pair of a category and a user that its two references find.
\<close>

definition con_categoria :: "db \<Rightarrow> receta \<Rightarrow> categoria list" where
  "con_categoria d r = filter (\<lambda>c. r_categoria_id r = Some (c_id_categoria c)) (categorias d)"

definition con_autor :: "db \<Rightarrow> receta \<Rightarrow> usuario list" where
  "con_autor d r = filter (\<lambda>u. r_autor_id r = Some (u_id_usuario u)) (usuarios d)"

definition receta_joined :: "db \<Rightarrow> receta \<Rightarrow> obj list" where
  "receta_joined d r =
     concat (map (\<lambda>c. map (\<lambda>u. receta_row r c u) (con_autor d r)) (con_categoria d r))"

text \<open>SELECT ... FROM Recetas r JOIN Categorias c ... JOIN Usuarios u ...\<close>

definition select_recetas :: "db \<Rightarrow> answer" where
  "select_recetas d = Inr (selected (concat (map (receta_joined d) (recetas d))), d)"

text \<open>The same with WHERE r.id_receta = ?\<close>

definition select_receta :: "env \<Rightarrow> jsval \<Rightarrow> db \<Rightarrow> answer" where
  "select_receta E ident d =
     Inr (selected (concat (map (receta_joined d)
            (filter (\<lambda>r. key_of E ident = Some (r_id_receta r)) (recetas d)))), d)"

text \<open>
  LEFT JOIN Receta_Ingrediente ri ON r.id_receta = ri.id_receta
  LEFT JOIN Ingredientes i ON ri.id_ingrediente = i.id_ingrediente: the names of the
  ingredients linked to the recipe, one NULL where a left join finds nothing.
\<close>

definition nombres_de_link :: "db \<Rightarrow> receta_ingrediente \<Rightarrow> string option list" where
  "nombres_de_link d l =
     (case filter (\<lambda>i. i_id_ingrediente i = ri_id_ingrediente l) (ingredientes d) of
        [] \<Rightarrow> [None]
      | i # is \<Rightarrow> map (\<lambda>i. Some (i_nombre i)) (i # is))"

definition nombres_ingredientes :: "db \<Rightarrow> receta \<Rightarrow> string option list" where
  "nombres_ingredientes d r =
     (case filter (\<lambda>l. ri_id_receta l = r_id_receta r) (receta_ingredientes d) of
        [] \<Rightarrow> [None]
      | l # ls \<Rightarrow> concat (map (nombres_de_link d) (l # ls)))"

text \<open>
  SELECT DISTINCT ... (the same projection and inner joins, then the two left joins)
  WHERE r.titulo LIKE ? OR i.nombre LIKE ?
\<close>

definition search_recetas :: "env \<Rightarrow> jsval \<Rightarrow> jsval \<Rightarrow> db \<Rightarrow> answer" where
  "search_recetas E p1 p2 d =
     Inr (selected (uniq (concat (map (\<lambda>r.
            concat (map (\<lambda>row.
              map (\<lambda>nm. row)
                (filter (\<lambda>nm. like_opt E (text_of p1) (Some (r_titulo r)) \<or> like_opt E (text_of p2) nm)
                   (nombres_ingredientes d r)))
              (receta_joined d r)))
            (recetas d)))), d)"

text \<open>
  INSERT INTO Recetas (titulo, descripcion, tiempo_preparacion, costo, es_publica,
  es_premium, categoria_id, autor_id) VALUES (?, ?, ?, ?, ?, ?, ?, ?)
\<close>

definition insert_receta ::
  "env \<Rightarrow> jsval \<Rightarrow> jsval \<Rightarrow> jsval \<Rightarrow> jsval \<Rightarrow> jsval \<Rightarrow> jsval \<Rightarrow> jsval \<Rightarrow> jsval \<Rightarrow> db \<Rightarrow> answer" where
  "insert_receta E titulo descripcion tiempo_preparacion costo es_publica es_premium categoria_id autor_id d =
     andthen (not_null ''titulo'' (text_col 150 ''titulo'' titulo)) (\<lambda>t.
     andthen (text_col 65535 ''descripcion'' descripcion) (\<lambda>ds.
     andthen (int_col E ''tiempo_preparacion'' tiempo_preparacion) (\<lambda>tp.
     andthen (dec_col E ''costo'' costo) (\<lambda>co.
     andthen (bool_col E ''es_publica'' es_publica) (\<lambda>pu.
     andthen (bool_col E ''es_premium'' es_premium) (\<lambda>pr.
     andthen (int_col E ''categoria_id'' categoria_id) (\<lambda>cid.
     andthen (int_col E ''autor_id'' autor_id) (\<lambda>aid.
       if \<not> refers cid (map c_id_categoria (categorias d))
       then Inl (fk_child_fails ''Recetas_ibfk_1'')
       else if \<not> refers aid (map u_id_usuario (usuarios d))
       then Inl (fk_child_fails ''Recetas_ibfk_2'')
       else Inr (written (next_receta d) 1,
                 d\<lparr>recetas := recetas d @
                      [\<lparr>r_id_receta = next_receta d, r_titulo = t, r_descripcion = ds,
                        r_tiempo_preparacion = tp, r_costo = co, r_es_publica = pu,
                        r_es_premium = pr, r_categoria_id = cid, r_autor_id = aid,
                        r_fecha_creacion = clock E, r_fecha_modificacion = clock E\<rparr>],
                   next_receta := next_receta d + 1\<rparr>)))))))))"

text \<open>
  fecha_modificacion is declared ON UPDATE CURRENT_TIMESTAMP: it is stamped when the
  statement changes another column of the row.
\<close>

definition stamped :: "env \<Rightarrow> receta \<Rightarrow> receta \<Rightarrow> receta" where
  "stamped E old new = (if new = old then old else new\<lparr>r_fecha_modificacion := clock E\<rparr>)"

text \<open>
  UPDATE Recetas SET titulo=?, descripcion=?, tiempo_preparacion=?, costo=?, es_publica=?,
  es_premium=?, categoria_id=?, autor_id=? WHERE id_receta=?
\<close>

definition update_receta ::
  "env \<Rightarrow> jsval \<Rightarrow> jsval \<Rightarrow> jsval \<Rightarrow> jsval \<Rightarrow> jsval \<Rightarrow> jsval \<Rightarrow> jsval \<Rightarrow> jsval \<Rightarrow> jsval \<Rightarrow> db \<Rightarrow> answer" where
  "update_receta E titulo descripcion tiempo_preparacion costo es_publica es_premium categoria_id autor_id ident d =
     (case key_of E ident of
        None \<Rightarrow> no_match d
      | Some k \<Rightarrow>
          if k \<notin> set (map r_id_receta (recetas d)) then no_match d
          else
            andthen (not_null ''titulo'' (text_col 150 ''titulo'' titulo)) (\<lambda>t.
            andthen (text_col 65535 ''descripcion'' descripcion) (\<lambda>ds.
            andthen (int_col E ''tiempo_preparacion'' tiempo_preparacion) (\<lambda>tp.
            andthen (dec_col E ''costo'' costo) (\<lambda>co.
            andthen (bool_col E ''es_publica'' es_publica) (\<lambda>pu.
            andthen (bool_col E ''es_premium'' es_premium) (\<lambda>pr.
            andthen (int_col E ''categoria_id'' categoria_id) (\<lambda>cid.
            andthen (int_col E ''autor_id'' autor_id) (\<lambda>aid.
              if \<not> refers cid (map c_id_categoria (categorias d))
              then Inl (fk_child_fails ''Recetas_ibfk_1'')
              else if \<not> refers aid (map u_id_usuario (usuarios d))
              then Inl (fk_child_fails ''Recetas_ibfk_2'')
              else Inr (written 0 (length (filter (\<lambda>r. r_id_receta r = k) (recetas d))),
                        d\<lparr>recetas := map (\<lambda>r. if r_id_receta r = k
                                then stamped E r
                                       (r\<lparr>r_titulo := t, r_descripcion := ds,
                                          r_tiempo_preparacion := tp, r_costo := co,
                                          r_es_publica := pu, r_es_premium := pr,
                                          r_categoria_id := cid, r_autor_id := aid\<rparr>)
                                else r) (recetas d)\<rparr>))))))))))"

text \<open>
  DELETE FROM Recetas WHERE id_receta=?, cascading to Autores_Receta,
  Receta_Ingrediente, Pasos and Valoraciones.
\<close>

definition delete_receta :: "env \<Rightarrow> jsval \<Rightarrow> db \<Rightarrow> answer" where
  "delete_receta E ident d =
     (case key_of E ident of
        None \<Rightarrow> no_match d
      | Some k \<Rightarrow>
          if k \<notin> set (map r_id_receta (recetas d)) then no_match d
          else Inr (written 0 (length (filter (\<lambda>r. r_id_receta r = k) (recetas d))),
                    d\<lparr>recetas := filter (\<lambda>r. r_id_receta r \<noteq> k) (recetas d),
                      autores_receta := filter (\<lambda>a. a_id_receta a \<noteq> k) (autores_receta d),
                      receta_ingredientes := filter (\<lambda>l. ri_id_receta l \<noteq> k) (receta_ingredientes d),
                      pasos := filter (\<lambda>p. p_id_receta p \<noteq> Some k) (pasos d),
                      valoraciones := filter (\<lambda>v. v_id_receta v \<noteq> Some k) (valoraciones d)\<rparr>))"

subsection \<open>The route handlers\<close>

text \<open>
  What a handler leaves behind: the response, the database, and the statements it sent
  to the pool, in order. \<^verbatim>\<open>res.json\<close> without \<^verbatim>\<open>res.status\<close> answers 200.
  The SQL texts are those of the source, with line breaks and indentation of the template
  strings written as single spaces.
\<close>

record outcome =
  response :: resp
  store :: db
  sent :: "stmt list"

definition reply :: "nat \<Rightarrow> json \<Rightarrow> db \<Rightarrow> stmt list \<Rightarrow> outcome" where
  "reply c b d qs = \<lparr>response = \<lparr>status = c, payload = b\<rparr>, store = d, sent = qs\<rparr>"

definition json_rows :: "obj list \<Rightarrow> json" where
  "json_rows rs = Arr (map json_of_obj rs)"

paragraph \<open>routes/recetas.js\<close>

definition sql_recetas_select :: string where
  "sql_recetas_select =
     ''SELECT r.id_receta, r.titulo, r.descripcion, r.tiempo_preparacion, r.costo, r.es_publica, r.es_premium, c.nombre AS categoria, u.nombre AS autor FROM Recetas r JOIN Categorias c ON r.categoria_id = c.id_categoria JOIN Usuarios u ON r.autor_id = u.id_usuario''"

definition recetas_list :: "env \<Rightarrow> db \<Rightarrow> outcome" where
  "recetas_list E d =
     (let q = (sql_recetas_select @ '';'', [])
      in case query E select_recetas d of
           Inl m \<Rightarrow> reply 500 (error_body m) d [q]
         | Inr (r, d') \<Rightarrow> reply 200 (json_rows (rows r)) d' [q])"

definition recetas_get :: "env \<Rightarrow> string \<Rightarrow> db \<Rightarrow> outcome" where
  "recetas_get E ident d =
     (let q = (sql_recetas_select @ '' WHERE r.id_receta = ?;'', [JStr ident])
      in case query E (select_receta E (JStr ident)) d of
           Inl m \<Rightarrow> reply 500 (error_body m) d [q]
         | Inr (r, d') \<Rightarrow>
             (case rows r of
                [] \<Rightarrow> reply 404 (mensaje_body ''Receta no encontrada'') d' [q]
              | row # _ \<Rightarrow> reply 200 (json_of_obj row) d' [q]))"

definition sql_recetas_search :: string where
  "sql_recetas_search =
     ''SELECT DISTINCT r.id_receta, r.titulo, r.descripcion, r.tiempo_preparacion, r.costo, r.es_publica, r.es_premium, c.nombre AS categoria, u.nombre AS autor FROM Recetas r JOIN Categorias c ON r.categoria_id = c.id_categoria JOIN Usuarios u ON r.autor_id = u.id_usuario LEFT JOIN Receta_Ingrediente ri ON r.id_receta = ri.id_receta LEFT JOIN Ingredientes i ON ri.id_ingrediente = i.id_ingrediente WHERE r.titulo LIKE ? OR i.nombre LIKE ?;''"

definition recetas_buscar :: "env \<Rightarrow> string \<Rightarrow> db \<Rightarrow> outcome" where
  "recetas_buscar E termino d =
     (let searchTerm = JStr (''%'' @ termino @ ''%'');
          q = (sql_recetas_search, [searchTerm, searchTerm])
      in case query E (search_recetas E searchTerm searchTerm) d of
           Inl m \<Rightarrow> reply 500 (error_body m) d [q]
         | Inr (r, d') \<Rightarrow> reply 200 (json_rows (rows r)) d' [q])"

definition recetas_post :: "env \<Rightarrow> obj \<Rightarrow> db \<Rightarrow> outcome" where
  "recetas_post E body d =
     (let titulo = field body ''titulo''; descripcion = field body ''descripcion'';
          tiempo_preparacion = field body ''tiempo_preparacion''; costo = field body ''costo'';
          es_publica = field body ''es_publica''; es_premium = field body ''es_premium'';
          categoria_id = field body ''categoria_id''; autor_id = field body ''autor_id'';
          q = (''INSERT INTO Recetas (titulo, descripcion, tiempo_preparacion, costo, es_publica, es_premium, categoria_id, autor_id) VALUES (?, ?, ?, ?, ?, ?, ?, ?)'',
               [titulo, descripcion, tiempo_preparacion, costo, es_publica, es_premium, categoria_id, autor_id])
      in case query E (insert_receta E titulo descripcion tiempo_preparacion costo es_publica
                         es_premium categoria_id autor_id) d of
           Inl m \<Rightarrow> reply 500 (error_body m) d [q]
         | Inr (r, d') \<Rightarrow>
             reply 201 (json_of_obj (spread [(''id_receta'', JNum (insertId r))] body)) d' [q])"

definition recetas_put :: "env \<Rightarrow> string \<Rightarrow> obj \<Rightarrow> db \<Rightarrow> outcome" where
  "recetas_put E ident body d =
     (let titulo = field body ''titulo''; descripcion = field body ''descripcion'';
          tiempo_preparacion = field body ''tiempo_preparacion''; costo = field body ''costo'';
          es_publica = field body ''es_publica''; es_premium = field body ''es_premium'';
          categoria_id = field body ''categoria_id''; autor_id = field body ''autor_id'';
          q = (''UPDATE Recetas SET titulo=?, descripcion=?, tiempo_preparacion=?, costo=?, es_publica=?, es_premium=?, categoria_id=?, autor_id=? WHERE id_receta=?'',
               [titulo, descripcion, tiempo_preparacion, costo, es_publica, es_premium, categoria_id, autor_id, JStr ident])
      in case query E (update_receta E titulo descripcion tiempo_preparacion costo es_publica
                         es_premium categoria_id autor_id (JStr ident)) d of
           Inl m \<Rightarrow> reply 500 (error_body m) d [q]
         | Inr (r, d') \<Rightarrow> reply 200 (mensaje_body ''Receta actualizada correctamente'') d' [q])"

definition recetas_delete :: "env \<Rightarrow> string \<Rightarrow> db \<Rightarrow> outcome" where
  "recetas_delete E ident d =
     (let q = (''DELETE FROM Recetas WHERE id_receta=?'', [JStr ident])
      in case query E (delete_receta E (JStr ident)) d of
           Inl m \<Rightarrow> reply 500 (error_body m) d [q]
         | Inr (r, d') \<Rightarrow> reply 200 (mensaje_body ''Receta eliminada correctamente'') d' [q])"

paragraph \<open>routes/categorias.js\<close>

definition categorias_list :: "env \<Rightarrow> db \<Rightarrow> outcome" where
  "categorias_list E d =
     (let q = (''SELECT * FROM Categorias'', [])
      in case query E select_categorias d of
           Inl m \<Rightarrow> reply 500 (error_body m) d [q]
         | Inr (r, d') \<Rightarrow> reply 200 (json_rows (rows r)) d' [q])"

definition categorias_get :: "env \<Rightarrow> string \<Rightarrow> db \<Rightarrow> outcome" where
  "categorias_get E ident d =
     (let q = (''SELECT * FROM Categorias WHERE id_categoria = ?'', [JStr ident])
      in case query E (select_categoria E (JStr ident)) d of
           Inl m \<Rightarrow> reply 500 (error_body m) d [q]
         | Inr (r, d') \<Rightarrow>
             (case rows r of
                [] \<Rightarrow> reply 404 (mensaje_body (''Categor'' @ [CHR 0xED] @ ''a no encontrada'')) d' [q]
              | row # _ \<Rightarrow> reply 200 (json_of_obj row) d' [q]))"

definition categorias_post :: "env \<Rightarrow> obj \<Rightarrow> db \<Rightarrow> outcome" where
  "categorias_post E body d =
     (let nombre = field body ''nombre''
      in if \<not> truthy nombre
         then reply 400 (error_body (''El nombre es requerido'')) d []
         else
           (let q = (''INSERT INTO Categorias (nombre) VALUES (?)'', [nombre])
            in case query E (insert_categoria E nombre) d of
                 Inl m \<Rightarrow> reply 500 (error_body m) d [q]
               | Inr (r, d') \<Rightarrow> reply 201 (json_of_obj ([(''id'', JNum (insertId r)), (''nombre'', nombre)])) d' [q]))"

definition categorias_put :: "env \<Rightarrow> string \<Rightarrow> obj \<Rightarrow> db \<Rightarrow> outcome" where
  "categorias_put E ident body d =
     (let nombre = field body ''nombre''
      in if \<not> truthy nombre
         then reply 400 (error_body (''El nombre es requerido'')) d []
         else
           (let q = (''UPDATE Categorias SET nombre=? WHERE id_categoria=?'', [nombre, JStr ident])
            in case query E (update_categoria E nombre (JStr ident)) d of
                 Inl m \<Rightarrow> reply 500 (error_body m) d [q]
               | Inr (r, d') \<Rightarrow> reply 200 (mensaje_body (''Categor'' @ [CHR 0xED] @ ''a actualizada correctamente'')) d' [q]))"

definition categorias_delete :: "env \<Rightarrow> string \<Rightarrow> db \<Rightarrow> outcome" where
  "categorias_delete E ident d =
     (let q = (''DELETE FROM Categorias WHERE id_categoria=?'', [JStr ident])
      in case query E (delete_categoria E (JStr ident)) d of
           Inl m \<Rightarrow> reply 500 (error_body m) d [q]
         | Inr (r, d') \<Rightarrow> reply 200 (mensaje_body (''Categor'' @ [CHR 0xED] @ ''a eliminada correctamente'')) d' [q])"

paragraph \<open>routes/valoraciones.js\<close>

definition valoraciones_de_receta :: "env \<Rightarrow> string \<Rightarrow> db \<Rightarrow> outcome" where
  "valoraciones_de_receta E id_receta d =
     (let q = (''SELECT v.*, u.nombre as nombre_usuario FROM Valoraciones v JOIN Usuarios u ON v.id_usuario = u.id_usuario WHERE v.id_receta = ? ORDER BY v.fecha_valoracion DESC;'', [JStr id_receta])
      in case query E (select_valoraciones_receta E (JStr id_receta)) d of
           Inl m \<Rightarrow> reply 500 (error_body m) d [q]
         | Inr (r, d') \<Rightarrow> reply 200 (json_rows (rows r)) d' [q])"

definition valoraciones_get :: "env \<Rightarrow> string \<Rightarrow> db \<Rightarrow> outcome" where
  "valoraciones_get E id_valoracion d =
     (let q = (''SELECT * FROM Valoraciones WHERE id_valoracion = ?'', [JStr id_valoracion])
      in case query E (select_valoracion E (JStr id_valoracion)) d of
           Inl m \<Rightarrow> reply 500 (error_body m) d [q]
         | Inr (r, d') \<Rightarrow>
             (case rows r of
                [] \<Rightarrow> reply 404 (mensaje_body (''Valoraci'' @ [CHR 0xF3] @ ''n no encontrada'')) d' [q]
              | row # _ \<Rightarrow> reply 200 (json_of_obj row) d' [q]))"

definition valoraciones_post :: "env \<Rightarrow> obj \<Rightarrow> db \<Rightarrow> outcome" where
  "valoraciones_post E body d =
     (let id_receta = field body ''id_receta''; id_usuario = field body ''id_usuario''; puntuacion = field body ''puntuacion''; comentario = field body ''comentario''
      in if \<not> truthy id_receta \<or> \<not> truthy id_usuario \<or> \<not> truthy puntuacion
         then reply 400 (error_body (''id_receta, id_usuario y puntuacion son requeridos'')) d []
         else
           (let q = (''INSERT INTO Valoraciones (id_receta, id_usuario, puntuacion, comentario) VALUES (?, ?, ?, ?)'', [id_receta, id_usuario, puntuacion, comentario])
            in case query E (insert_valoracion E id_receta id_usuario puntuacion comentario) d of
                 Inl m \<Rightarrow> reply 500 (error_body m) d [q]
               | Inr (r, d') \<Rightarrow> reply 201 (json_of_obj (spread [(''id'', JNum (insertId r))] body)) d' [q]))"

definition valoraciones_put :: "env \<Rightarrow> string \<Rightarrow> obj \<Rightarrow> db \<Rightarrow> outcome" where
  "valoraciones_put E id_valoracion body d =
     (let puntuacion = field body ''puntuacion''; comentario = field body ''comentario''
      in if \<not> truthy puntuacion
         then reply 400 (error_body (''La puntuacion es requerida'')) d []
         else
           (let q = (''UPDATE Valoraciones SET puntuacion=?, comentario=? WHERE id_valoracion=?'', [puntuacion, comentario, JStr id_valoracion])
            in case query E (update_valoracion E puntuacion comentario (JStr id_valoracion)) d of
                 Inl m \<Rightarrow> reply 500 (error_body m) d [q]
               | Inr (r, d') \<Rightarrow> reply 200 (mensaje_body (''Valoraci'' @ [CHR 0xF3] @ ''n actualizada correctamente'')) d' [q]))"

definition valoraciones_delete :: "env \<Rightarrow> string \<Rightarrow> db \<Rightarrow> outcome" where
  "valoraciones_delete E id_valoracion d =
     (let q = (''DELETE FROM Valoraciones WHERE id_valoracion=?'', [JStr id_valoracion])
      in case query E (delete_valoracion E (JStr id_valoracion)) d of
           Inl m \<Rightarrow> reply 500 (error_body m) d [q]
         | Inr (r, d') \<Rightarrow> reply 200 (mensaje_body (''Valoraci'' @ [CHR 0xF3] @ ''n eliminada correctamente'')) d' [q])"

paragraph \<open>routes/pasos.js\<close>

definition pasos_de_receta :: "env \<Rightarrow> string \<Rightarrow> db \<Rightarrow> outcome" where
  "pasos_de_receta E id_receta d =
     (let q = (''SELECT * FROM Pasos WHERE id_receta = ? ORDER BY numero_paso'', [JStr id_receta])
      in case query E (select_pasos_receta E (JStr id_receta)) d of
           Inl m \<Rightarrow> reply 500 (error_body m) d [q]
         | Inr (r, d') \<Rightarrow> reply 200 (json_rows (rows r)) d' [q])"

definition pasos_get :: "env \<Rightarrow> string \<Rightarrow> db \<Rightarrow> outcome" where
  "pasos_get E id_paso d =
     (let q = (''SELECT * FROM Pasos WHERE id_paso = ?'', [JStr id_paso])
      in case query E (select_paso E (JStr id_paso)) d of
           Inl m \<Rightarrow> reply 500 (error_body m) d [q]
         | Inr (r, d') \<Rightarrow>
             (case rows r of
                [] \<Rightarrow> reply 404 (mensaje_body (''Paso no encontrado'')) d' [q]
              | row # _ \<Rightarrow> reply 200 (json_of_obj row) d' [q]))"

definition pasos_post :: "env \<Rightarrow> obj \<Rightarrow> db \<Rightarrow> outcome" where
  "pasos_post E body d =
     (let id_receta = field body ''id_receta''; numero_paso = field body ''numero_paso''; descripcion = field body ''descripcion''
      in if \<not> truthy id_receta \<or> \<not> truthy numero_paso \<or> \<not> truthy descripcion
         then reply 400 (error_body (''id_receta, numero_paso y descripcion son requeridos'')) d []
         else
           (let q = (''INSERT INTO Pasos (id_receta, numero_paso, descripcion) VALUES (?, ?, ?)'', [id_receta, numero_paso, descripcion])
            in case query E (insert_paso E id_receta numero_paso descripcion) d of
                 Inl m \<Rightarrow> reply 500 (error_body m) d [q]
               | Inr (r, d') \<Rightarrow> reply 201 (json_of_obj (spread [(''id'', JNum (insertId r))] body)) d' [q]))"

definition pasos_put :: "env \<Rightarrow> string \<Rightarrow> obj \<Rightarrow> db \<Rightarrow> outcome" where
  "pasos_put E id_paso body d =
     (let numero_paso = field body ''numero_paso''; descripcion = field body ''descripcion''
      in if \<not> truthy numero_paso \<or> \<not> truthy descripcion
         then reply 400 (error_body (''numero_paso y descripcion son requeridos'')) d []
         else
           (let q = (''UPDATE Pasos SET numero_paso=?, descripcion=? WHERE id_paso=?'', [numero_paso, descripcion, JStr id_paso])
            in case query E (update_paso E numero_paso descripcion (JStr id_paso)) d of
                 Inl m \<Rightarrow> reply 500 (error_body m) d [q]
               | Inr (r, d') \<Rightarrow> reply 200 (mensaje_body (''Paso actualizado correctamente'')) d' [q]))"

definition pasos_delete :: "env \<Rightarrow> string \<Rightarrow> db \<Rightarrow> outcome" where
  "pasos_delete E id_paso d =
     (let q = (''DELETE FROM Pasos WHERE id_paso=?'', [JStr id_paso])
      in case query E (delete_paso E (JStr id_paso)) d of
           Inl m \<Rightarrow> reply 500 (error_body m) d [q]
         | Inr (r, d') \<Rightarrow> reply 200 (mensaje_body (''Paso eliminado correctamente'')) d' [q])"

paragraph \<open>routes/ingredientes.js\<close>

definition ingredientes_list :: "env \<Rightarrow> db \<Rightarrow> outcome" where
  "ingredientes_list E d =
     (let q = (''SELECT * FROM Ingredientes'', [])
      in case query E select_ingredientes d of
           Inl m \<Rightarrow> reply 500 (error_body m) d [q]
         | Inr (r, d') \<Rightarrow> reply 200 (json_rows (rows r)) d' [q])"

definition ingredientes_get :: "env \<Rightarrow> string \<Rightarrow> db \<Rightarrow> outcome" where
  "ingredientes_get E ident d =
     (let q = (''SELECT * FROM Ingredientes WHERE id_ingrediente = ?'', [JStr ident])
      in case query E (select_ingrediente E (JStr ident)) d of
           Inl m \<Rightarrow> reply 500 (error_body m) d [q]
         | Inr (r, d') \<Rightarrow>
             (case rows r of
                [] \<Rightarrow> reply 404 (mensaje_body (''Ingrediente no encontrado'')) d' [q]
              | row # _ \<Rightarrow> reply 200 (json_of_obj row) d' [q]))"

definition ingredientes_post :: "env \<Rightarrow> obj \<Rightarrow> db \<Rightarrow> outcome" where
  "ingredientes_post E body d =
     (let nombre = field body ''nombre''; unidad_medida = field body ''unidad_medida''
      in if \<not> truthy nombre
         then reply 400 (error_body (''El nombre es requerido'')) d []
         else
           (let q = (''INSERT INTO Ingredientes (nombre, unidad_medida) VALUES (?, ?)'', [nombre, unidad_medida])
            in case query E (insert_ingrediente E nombre unidad_medida) d of
                 Inl m \<Rightarrow> reply 500 (error_body m) d [q]
               | Inr (r, d') \<Rightarrow> reply 201 (json_of_obj ([(''id'', JNum (insertId r)), (''nombre'', nombre), (''unidad_medida'', unidad_medida)])) d' [q]))"

definition ingredientes_put :: "env \<Rightarrow> string \<Rightarrow> obj \<Rightarrow> db \<Rightarrow> outcome" where
  "ingredientes_put E ident body d =
     (let nombre = field body ''nombre''; unidad_medida = field body ''unidad_medida''
      in if \<not> truthy nombre
         then reply 400 (error_body (''El nombre es requerido'')) d []
         else
           (let q = (''UPDATE Ingredientes SET nombre=?, unidad_medida=? WHERE id_ingrediente=?'', [nombre, unidad_medida, JStr ident])
            in case query E (update_ingrediente E nombre unidad_medida (JStr ident)) d of
                 Inl m \<Rightarrow> reply 500 (error_body m) d [q]
               | Inr (r, d') \<Rightarrow> reply 200 (mensaje_body (''Ingrediente actualizado correctamente'')) d' [q]))"

definition ingredientes_delete :: "env \<Rightarrow> string \<Rightarrow> db \<Rightarrow> outcome" where
  "ingredientes_delete E ident d =
     (let q = (''DELETE FROM Ingredientes WHERE id_ingrediente=?'', [JStr ident])
      in case query E (delete_ingrediente E (JStr ident)) d of
           Inl m \<Rightarrow> reply 500 (error_body m) d [q]
         | Inr (r, d') \<Rightarrow> reply 200 (mensaje_body (''Ingrediente eliminado correctamente'')) d' [q])"

paragraph \<open>routes/suscripciones.js\<close>

definition suscripciones_list :: "env \<Rightarrow> db \<Rightarrow> outcome" where
  "suscripciones_list E d =
     (let q = (''SELECT * FROM Suscripciones'', [])
      in case query E select_suscripciones d of
           Inl m \<Rightarrow> reply 500 (error_body m) d [q]
         | Inr (r, d') \<Rightarrow> reply 200 (json_rows (rows r)) d' [q])"

definition suscripciones_de_usuario :: "env \<Rightarrow> string \<Rightarrow> db \<Rightarrow> outcome" where
  "suscripciones_de_usuario E id_usuario d =
     (let q = (''SELECT * FROM Suscripciones WHERE id_usuario = ?'', [JStr id_usuario])
      in case query E (select_suscripciones_usuario E (JStr id_usuario)) d of
           Inl m \<Rightarrow> reply 500 (error_body m) d [q]
         | Inr (r, d') \<Rightarrow> reply 200 (json_rows (rows r)) d' [q])"

definition suscripciones_get :: "env \<Rightarrow> string \<Rightarrow> db \<Rightarrow> outcome" where
  "suscripciones_get E id_suscripcion d =
     (let q = (''SELECT * FROM Suscripciones WHERE id_suscripcion = ?'', [JStr id_suscripcion])
      in case query E (select_suscripcion E (JStr id_suscripcion)) d of
           Inl m \<Rightarrow> reply 500 (error_body m) d [q]
         | Inr (r, d') \<Rightarrow>
             (case rows r of
                [] \<Rightarrow> reply 404 (mensaje_body (''Suscripci'' @ [CHR 0xF3] @ ''n no encontrada'')) d' [q]
              | row # _ \<Rightarrow> reply 200 (json_of_obj row) d' [q]))"

definition suscripciones_post :: "env \<Rightarrow> obj \<Rightarrow> db \<Rightarrow> outcome" where
  "suscripciones_post E body d =
     (let id_usuario = field body ''id_usuario''; fecha_fin = field body ''fecha_fin''; monto = field body ''monto''
      in if \<not> truthy id_usuario \<or> \<not> truthy fecha_fin \<or> \<not> truthy monto
         then reply 400 (error_body (''id_usuario, fecha_fin y monto son requeridos'')) d []
         else
           (let q = (''INSERT INTO Suscripciones (id_usuario, fecha_fin, monto) VALUES (?, ?, ?)'', [id_usuario, fecha_fin, monto])
            in case query E (insert_suscripcion E id_usuario fecha_fin monto) d of
                 Inl m \<Rightarrow> reply 500 (error_body m) d [q]
               | Inr (r, d') \<Rightarrow> reply 201 (json_of_obj (spread [(''id'', JNum (insertId r))] body)) d' [q]))"

definition suscripciones_put :: "env \<Rightarrow> string \<Rightarrow> obj \<Rightarrow> db \<Rightarrow> outcome" where
  "suscripciones_put E id_suscripcion body d =
     (let fecha_fin = field body ''fecha_fin''; monto = field body ''monto''
      in if \<not> truthy fecha_fin \<or> \<not> truthy monto
         then reply 400 (error_body (''fecha_fin y monto son requeridos'')) d []
         else
           (let q = (''UPDATE Suscripciones SET fecha_fin=?, monto=? WHERE id_suscripcion=?'', [fecha_fin, monto, JStr id_suscripcion])
            in case query E (update_suscripcion E fecha_fin monto (JStr id_suscripcion)) d of
                 Inl m \<Rightarrow> reply 500 (error_body m) d [q]
               | Inr (r, d') \<Rightarrow> reply 200 (mensaje_body (''Suscripci'' @ [CHR 0xF3] @ ''n actualizada correctamente'')) d' [q]))"

definition suscripciones_delete :: "env \<Rightarrow> string \<Rightarrow> db \<Rightarrow> outcome" where
  "suscripciones_delete E id_suscripcion d =
     (let q = (''DELETE FROM Suscripciones WHERE id_suscripcion=?'', [JStr id_suscripcion])
      in case query E (delete_suscripcion E (JStr id_suscripcion)) d of
           Inl m \<Rightarrow> reply 500 (error_body m) d [q]
         | Inr (r, d') \<Rightarrow> reply 200 (mensaje_body (''Suscripci'' @ [CHR 0xF3] @ ''n eliminada correctamente'')) d' [q])"

paragraph \<open>routes/usuarios.js\<close>

definition usuarios_list :: "env \<Rightarrow> db \<Rightarrow> outcome" where
  "usuarios_list E d =
     (let q = (''SELECT id_usuario, nombre, email, tipo_usuario, fecha_registro FROM Usuarios'', [])
      in case query E select_usuarios d of
           Inl m \<Rightarrow> reply 500 (error_body m) d [q]
         | Inr (r, d') \<Rightarrow> reply 200 (json_rows (rows r)) d' [q])"

text \<open>The password is hashed first; a throw of the primitive is caught like a failed query.\<close>

definition usuarios_post :: "env \<Rightarrow> obj \<Rightarrow> db \<Rightarrow> outcome" where
  "usuarios_post E body d =
     (let nombre = field body ''nombre''; email = field body ''email'';
          contrasena = field body ''contrasena''; tipo_usuario = field body ''tipo_usuario''
      in case bcrypt_hash_js E contrasena of
           Inl m \<Rightarrow> reply 500 (error_body m) d []
         | Inr hash \<Rightarrow>
             (let q = (''INSERT INTO Usuarios (nombre, email, contrasena, tipo_usuario) VALUES (?, ?, ?, ?)'',
                       [nombre, email, JStr hash, tipo_usuario])
              in case query E (insert_usuario E nombre email (JStr hash) tipo_usuario) d of
                   Inl m \<Rightarrow> reply 500 (error_body m) d [q]
                 | Inr (r, d') \<Rightarrow>
                     reply 201 (json_of_obj [(''id'', JNum (insertId r)), (''nombre'', nombre),
                                  (''email'', email), (''tipo_usuario'', tipo_usuario)]) d' [q]))"

definition usuarios_put :: "env \<Rightarrow> string \<Rightarrow> obj \<Rightarrow> db \<Rightarrow> outcome" where
  "usuarios_put E ident body d =
     (let nombre = field body ''nombre''; email = field body ''email'';
          tipo_usuario = field body ''tipo_usuario''; contrasena = field body ''contrasena''
      in if truthy contrasena
         then
           (case bcrypt_hash_js E contrasena of
              Inl m \<Rightarrow> reply 500 (error_body m) d []
            | Inr hash \<Rightarrow>
                (let q = (''UPDATE Usuarios SET nombre = ?, email = ?, tipo_usuario = ?, contrasena = ? WHERE id_usuario = ?'',
                          [nombre, email, tipo_usuario, JStr hash, JStr ident])
                 in case query E (update_usuario_contrasena E nombre email tipo_usuario (JStr hash)
                                    (JStr ident)) d of
                      Inl m \<Rightarrow> reply 500 (error_body m) d [q]
                    | Inr (r, d') \<Rightarrow>
                        reply 200 (message_body ''Usuario actualizado correctamente'') d' [q]))
         else
           (let q = (''UPDATE Usuarios SET nombre = ?, email = ?, tipo_usuario = ? WHERE id_usuario = ?'',
                     [nombre, email, tipo_usuario, JStr ident])
            in case query E (update_usuario E nombre email tipo_usuario (JStr ident)) d of
                 Inl m \<Rightarrow> reply 500 (error_body m) d [q]
               | Inr (r, d') \<Rightarrow>
                   reply 200 (message_body ''Usuario actualizado correctamente'') d' [q]))"

definition usuarios_delete :: "env \<Rightarrow> string \<Rightarrow> db \<Rightarrow> outcome" where
  "usuarios_delete E ident d =
     (let q = (''DELETE FROM Usuarios WHERE id_usuario = ?'', [JStr ident])
      in case query E (delete_usuario E (JStr ident)) d of
           Inl m \<Rightarrow> reply 500 (error_body m) d [q]
         | Inr (r, d') \<Rightarrow> reply 200 (message_body (''Usuario eliminado correctamente'')) d' [q])"

paragraph \<open>routes/sesiones.js\<close>

definition credenciales_invalidas :: json where
  "credenciales_invalidas = error_body (''Credenciales inv'' @ [CHR 0xE1] @ ''lidas'')"

definition sesiones_login :: "env \<Rightarrow> obj \<Rightarrow> db \<Rightarrow> outcome" where
  "sesiones_login E body d =
     (let email = field body ''email''; contrasena = field body ''contrasena''
      in if \<not> truthy email \<or> \<not> truthy contrasena
         then reply 400 (error_body (''El email y la contrase'' @ [CHR 0xF1] @ ''a son requeridos'')) d []
         else
           (let q1 = (''SELECT * FROM Usuarios WHERE email = ?'', [email])
            in case query E (select_usuario_email E email) d of
                 Inl m \<Rightarrow> reply 500 (error_body m) d [q1]
               | Inr (r1, d1) \<Rightarrow>
                   (case rows r1 of
                      [] \<Rightarrow> reply 401 credenciales_invalidas d1 [q1]
                    | user # _ \<Rightarrow>
                        (case bcrypt_compare_js E contrasena (field user ''contrasena'') of
                           Inl m \<Rightarrow> reply 500 (error_body m) d1 [q1]
                         | Inr match \<Rightarrow>
                             if \<not> match then reply 401 credenciales_invalidas d1 [q1]
                             else
                               (let q2 = (''INSERT INTO Sesiones (id_usuario) VALUES (?)'',
                                          [field user ''id_usuario''])
                                in case query E (insert_sesion E (field user ''id_usuario'')) d1 of
                                     Inl m \<Rightarrow> reply 500 (error_body m) d1 [q1, q2]
                                   | Inr (r2, d2) \<Rightarrow>
                                       reply 201 (json_of_obj
                                           [(''id_sesion'', JNum (insertId r2)),
                                            (''id_usuario'', field user ''id_usuario''),
                                            (''mensaje'', JStr (''Sesi'' @ [CHR 0xF3] @ ''n iniciada''))])
                                         d2 [q1, q2])))))"

definition sesiones_logout :: "env \<Rightarrow> obj \<Rightarrow> db \<Rightarrow> outcome" where
  "sesiones_logout E body d =
     (let id_sesion = field body ''id_sesion''
      in if \<not> truthy id_sesion
         then reply 400 (error_body ''El id_sesion es requerido'') d []
         else
           (let q = (''UPDATE Sesiones SET fecha_cierre = NOW() WHERE id_sesion = ? AND fecha_cierre IS NULL'',
                     [id_sesion])
            in case query E (close_sesion E id_sesion) d of
                 Inl m \<Rightarrow> reply 500 (error_body m) d [q]
               | Inr (r, d') \<Rightarrow>
                   if affectedRows r = 0
                   then reply 404 (mensaje_body (''La sesi'' @ [CHR 0xF3] @ ''n no existe o ya estaba cerrada'')) d' [q]
                   else reply 200 (mensaje_body (''Sesi'' @ [CHR 0xF3] @ ''n cerrada correctamente'')) d' [q]))"

subsection \<open>index.js: the routers mounted under /api\<close>

text \<open>
  A request: the method, the route file its path is mounted on, the non-empty path
  segments after the mount point, and the parsed body. A path that no route of the file
  matches is left to Express (no handler of the repository runs).
\<close>

datatype meth = GET | POST | PUT | DELETE

text \<open>
  Express matches the fixed segments of a route without regard to the case of the ASCII
  letters (its routers are not case sensitive unless configured so).
\<close>

definition lower_ascii :: "char \<Rightarrow> char" where
  "lower_ascii c =
     (case map_of (zip ''ABCDEFGHIJKLMNOPQRSTUVWXYZ'' ''abcdefghijklmnopqrstuvwxyz'') c of
        None \<Rightarrow> c
      | Some l \<Rightarrow> l)"

definition segment_is :: "string \<Rightarrow> string \<Rightarrow> bool" where
  "segment_is a name = (map lower_ascii a = name)"

datatype resource =
  Categorias | Ingredientes | Pasos | Recetas | Sesiones | Suscripciones | Usuarios | Valoraciones

definition recetas_router :: "env \<Rightarrow> meth \<Rightarrow> string list \<Rightarrow> obj \<Rightarrow> db \<Rightarrow> outcome option" where
  "recetas_router E m path body d =
     (case m of
        GET \<Rightarrow> (case path of
                  [] \<Rightarrow> Some (recetas_list E d)
                | [ident] \<Rightarrow> Some (recetas_get E ident d)
                | [a, termino] \<Rightarrow> if segment_is a ''buscar'' then Some (recetas_buscar E termino d) else None
                | _ \<Rightarrow> None)
      | POST \<Rightarrow> (case path of [] \<Rightarrow> Some (recetas_post E body d) | _ \<Rightarrow> None)
      | PUT \<Rightarrow> (case path of [ident] \<Rightarrow> Some (recetas_put E ident body d) | _ \<Rightarrow> None)
      | DELETE \<Rightarrow> (case path of [ident] \<Rightarrow> Some (recetas_delete E ident d) | _ \<Rightarrow> None))"

definition categorias_router :: "env \<Rightarrow> meth \<Rightarrow> string list \<Rightarrow> obj \<Rightarrow> db \<Rightarrow> outcome option" where
  "categorias_router E m path body d =
     (case m of
        GET \<Rightarrow> (case path of
                  [] \<Rightarrow> Some (categorias_list E d)
                | [ident] \<Rightarrow> Some (categorias_get E ident d)
                | _ \<Rightarrow> None)
      | POST \<Rightarrow> (case path of [] \<Rightarrow> Some (categorias_post E body d) | _ \<Rightarrow> None)
      | PUT \<Rightarrow> (case path of [ident] \<Rightarrow> Some (categorias_put E ident body d) | _ \<Rightarrow> None)
      | DELETE \<Rightarrow> (case path of [ident] \<Rightarrow> Some (categorias_delete E ident d) | _ \<Rightarrow> None))"

definition ingredientes_router :: "env \<Rightarrow> meth \<Rightarrow> string list \<Rightarrow> obj \<Rightarrow> db \<Rightarrow> outcome option" where
  "ingredientes_router E m path body d =
     (case m of
        GET \<Rightarrow> (case path of
                  [] \<Rightarrow> Some (ingredientes_list E d)
                | [ident] \<Rightarrow> Some (ingredientes_get E ident d)
                | _ \<Rightarrow> None)
      | POST \<Rightarrow> (case path of [] \<Rightarrow> Some (ingredientes_post E body d) | _ \<Rightarrow> None)
      | PUT \<Rightarrow> (case path of [ident] \<Rightarrow> Some (ingredientes_put E ident body d) | _ \<Rightarrow> None)
      | DELETE \<Rightarrow> (case path of [ident] \<Rightarrow> Some (ingredientes_delete E ident d) | _ \<Rightarrow> None))"

text \<open>In the next three files the two-segment route is declared before the one-segment route; they cannot both match a path.\<close>

definition valoraciones_router :: "env \<Rightarrow> meth \<Rightarrow> string list \<Rightarrow> obj \<Rightarrow> db \<Rightarrow> outcome option" where
  "valoraciones_router E m path body d =
     (case m of
        GET \<Rightarrow> (case path of
                  [a, id_receta] \<Rightarrow>
                    if segment_is a ''receta'' then Some (valoraciones_de_receta E id_receta d) else None
                | [id_valoracion] \<Rightarrow> Some (valoraciones_get E id_valoracion d)
                | _ \<Rightarrow> None)
      | POST \<Rightarrow> (case path of [] \<Rightarrow> Some (valoraciones_post E body d) | _ \<Rightarrow> None)
      | PUT \<Rightarrow> (case path of
                  [id_valoracion] \<Rightarrow> Some (valoraciones_put E id_valoracion body d)
                | _ \<Rightarrow> None)
      | DELETE \<Rightarrow> (case path of
                     [id_valoracion] \<Rightarrow> Some (valoraciones_delete E id_valoracion d)
                   | _ \<Rightarrow> None))"

definition pasos_router :: "env \<Rightarrow> meth \<Rightarrow> string list \<Rightarrow> obj \<Rightarrow> db \<Rightarrow> outcome option" where
  "pasos_router E m path body d =
     (case m of
        GET \<Rightarrow> (case path of
                  [a, id_receta] \<Rightarrow>
                    if segment_is a ''receta'' then Some (pasos_de_receta E id_receta d) else None
                | [id_paso] \<Rightarrow> Some (pasos_get E id_paso d)
                | _ \<Rightarrow> None)
      | POST \<Rightarrow> (case path of [] \<Rightarrow> Some (pasos_post E body d) | _ \<Rightarrow> None)
      | PUT \<Rightarrow> (case path of [id_paso] \<Rightarrow> Some (pasos_put E id_paso body d) | _ \<Rightarrow> None)
      | DELETE \<Rightarrow> (case path of [id_paso] \<Rightarrow> Some (pasos_delete E id_paso d) | _ \<Rightarrow> None))"

definition suscripciones_router :: "env \<Rightarrow> meth \<Rightarrow> string list \<Rightarrow> obj \<Rightarrow> db \<Rightarrow> outcome option" where
  "suscripciones_router E m path body d =
     (case m of
        GET \<Rightarrow> (case path of
                  [] \<Rightarrow> Some (suscripciones_list E d)
                | [a, id_usuario] \<Rightarrow>
                    if segment_is a ''usuario'' then Some (suscripciones_de_usuario E id_usuario d) else None
                | [id_suscripcion] \<Rightarrow> Some (suscripciones_get E id_suscripcion d)
                | _ \<Rightarrow> None)
      | POST \<Rightarrow> (case path of [] \<Rightarrow> Some (suscripciones_post E body d) | _ \<Rightarrow> None)
      | PUT \<Rightarrow> (case path of
                  [id_suscripcion] \<Rightarrow> Some (suscripciones_put E id_suscripcion body d)
                | _ \<Rightarrow> None)
      | DELETE \<Rightarrow> (case path of
                     [id_suscripcion] \<Rightarrow> Some (suscripciones_delete E id_suscripcion d)
                   | _ \<Rightarrow> None))"

definition usuarios_router :: "env \<Rightarrow> meth \<Rightarrow> string list \<Rightarrow> obj \<Rightarrow> db \<Rightarrow> outcome option" where
  "usuarios_router E m path body d =
     (case m of
        GET \<Rightarrow> (case path of [] \<Rightarrow> Some (usuarios_list E d) | _ \<Rightarrow> None)
      | POST \<Rightarrow> (case path of [] \<Rightarrow> Some (usuarios_post E body d) | _ \<Rightarrow> None)
      | PUT \<Rightarrow> (case path of [ident] \<Rightarrow> Some (usuarios_put E ident body d) | _ \<Rightarrow> None)
      | DELETE \<Rightarrow> (case path of [ident] \<Rightarrow> Some (usuarios_delete E ident d) | _ \<Rightarrow> None))"

definition sesiones_router :: "env \<Rightarrow> meth \<Rightarrow> string list \<Rightarrow> obj \<Rightarrow> db \<Rightarrow> outcome option" where
  "sesiones_router E m path body d =
     (case m of
        POST \<Rightarrow> (case path of
                   [a] \<Rightarrow> if segment_is a ''login'' then Some (sesiones_login E body d)
                          else if segment_is a ''logout'' then Some (sesiones_logout E body d)
                          else None
                 | _ \<Rightarrow> None)
      | _ \<Rightarrow> None)"

definition app :: "env \<Rightarrow> meth \<Rightarrow> resource \<Rightarrow> string list \<Rightarrow> obj \<Rightarrow> db \<Rightarrow> outcome option" where
  "app E m res path body d =
     (case res of
        Categorias \<Rightarrow> categorias_router E m path body d
      | Ingredientes \<Rightarrow> ingredientes_router E m path body d
      | Pasos \<Rightarrow> pasos_router E m path body d
      | Recetas \<Rightarrow> recetas_router E m path body d
      | Sesiones \<Rightarrow> sesiones_router E m path body d
      | Suscripciones \<Rightarrow> suscripciones_router E m path body d
      | Usuarios \<Rightarrow> usuarios_router E m path body d
      | Valoraciones \<Rightarrow> valoraciones_router E m path body d)"

subsection \<open>A sample environment and a sample database\<close>

text \<open>
  For the examples: an engine that reads plain decimal numerals, folds the ASCII capital
  letters (\<open>lower_ascii\<close>), knows no date-time text, and a stand-in for bcrypt that prefixes the
  password. The general theorems do not depend on these choices.
\<close>

fun nat_of_digits :: "nat \<Rightarrow> string \<Rightarrow> nat option" where
  "nat_of_digits acc [] = Some acc"
| "nat_of_digits acc (c # cs) =
     (if 48 \<le> (of_char c :: nat) \<and> (of_char c :: nat) \<le> 57
      then nat_of_digits (10 * acc + (of_char c - 48)) cs else None)"

definition decimal :: "string \<Rightarrow> int option" where
  "decimal s =
     (case s of
        [] \<Rightarrow> None
      | c # cs \<Rightarrow>
          if c = CHR ''-'' then (if cs = [] then None else map_option (\<lambda>n. - int n) (nat_of_digits 0 cs))
          else map_option int (nat_of_digits 0 s))"

definition env_ejemplo :: env where
  "env_ejemplo =
     \<lparr>clock = 1000, link_down = None, int_of_text = decimal, key_of_text = decimal,
      datetime_of_text = (\<lambda>s. None), fold_char = lower_ascii,
      bcrypt_hash = (\<lambda>s. ''$2b$10$'' @ s),
      bcrypt_compare = (\<lambda>s h. h = ''$2b$10$'' @ s)\<rparr>"

text \<open>Rows of the seed of schema.sql: two users, four categories, two recipes with their ingredients, steps, one rating, two sessions.\<close>

definition db_ejemplo :: db where
  "db_ejemplo =
     \<lparr>usuarios =
        [\<lparr>u_id_usuario = 1, u_nombre = ''Melani'', u_email = ''melani@example.com'',
          u_contrasena = ''$2b$10$password123'', u_tipo_usuario = Some ''publico'', u_fecha_registro = 0\<rparr>,
         \<lparr>u_id_usuario = 2, u_nombre = ''F'' @ [CHR 0xE1] @ ''tima'', u_email = ''fatima@example.com'',
          u_contrasena = ''$2b$10$password123'', u_tipo_usuario = Some ''premium'', u_fecha_registro = 0\<rparr>],
      sesiones =
        [\<lparr>s_id_sesion = 1, s_id_usuario = Some 1, s_fecha_inicio = 0, s_fecha_cierre = None\<rparr>,
         \<lparr>s_id_sesion = 2, s_id_usuario = Some 2, s_fecha_inicio = 0, s_fecha_cierre = None\<rparr>],
      categorias =
        [\<lparr>c_id_categoria = 1, c_nombre = ''Desayuno''\<rparr>, \<lparr>c_id_categoria = 2, c_nombre = ''Almuerzo''\<rparr>,
         \<lparr>c_id_categoria = 3, c_nombre = ''Cena''\<rparr>, \<lparr>c_id_categoria = 4, c_nombre = ''Postre''\<rparr>],
      recetas =
        [\<lparr>r_id_receta = 1, r_titulo = ''Tacos al Pastor'',
          r_descripcion = Some (''Receta tradicional con pi'' @ [CHR 0xF1] @ ''a y carne marinada''),
          r_tiempo_preparacion = Some 30, r_costo = None, r_es_publica = Some 1, r_es_premium = Some 0,
          r_categoria_id = Some 3, r_autor_id = Some 1, r_fecha_creacion = 0, r_fecha_modificacion = 0\<rparr>,
         \<lparr>r_id_receta = 2, r_titulo = ''Postre Gourmet'',
          r_descripcion = Some ''Receta premium solo para usuarios especiales'',
          r_tiempo_preparacion = Some 45, r_costo = Some 50, r_es_publica = Some 0, r_es_premium = Some 1,
          r_categoria_id = Some 4, r_autor_id = Some 2, r_fecha_creacion = 0, r_fecha_modificacion = 0\<rparr>],
      autores_receta =
        [\<lparr>a_id_receta = 1, a_id_usuario = 2, a_rol = Some ''colaborador'', a_permiso_modificar = Some 1,
          a_fecha_invitacion = 0\<rparr>],
      ingredientes =
        [\<lparr>i_id_ingrediente = 1, i_nombre = ''Carne de cerdo'', i_unidad_medida = Some ''g''\<rparr>,
         \<lparr>i_id_ingrediente = 2, i_nombre = ''Pi'' @ [CHR 0xF1] @ ''a'', i_unidad_medida = Some ''rodajas''\<rparr>,
         \<lparr>i_id_ingrediente = 3, i_nombre = ''Tortilla'', i_unidad_medida = Some ''pieza''\<rparr>,
         \<lparr>i_id_ingrediente = 4, i_nombre = ''Az'' @ [CHR 0xFA] @ ''car'', i_unidad_medida = Some ''g''\<rparr>,
         \<lparr>i_id_ingrediente = 5, i_nombre = ''Crema'', i_unidad_medida = Some ''ml''\<rparr>],
      receta_ingredientes =
        [\<lparr>ri_id_receta = 1, ri_id_ingrediente = 1, ri_cantidad = Some 500\<rparr>,
         \<lparr>ri_id_receta = 1, ri_id_ingrediente = 2, ri_cantidad = Some 3\<rparr>,
         \<lparr>ri_id_receta = 1, ri_id_ingrediente = 3, ri_cantidad = Some 10\<rparr>,
         \<lparr>ri_id_receta = 2, ri_id_ingrediente = 4, ri_cantidad = Some 200\<rparr>,
         \<lparr>ri_id_receta = 2, ri_id_ingrediente = 5, ri_cantidad = Some 100\<rparr>],
      pasos =
        [\<lparr>p_id_paso = 1, p_id_receta = Some 2, p_numero_paso = Some 1,
          p_descripcion = Some (''Mezclar az'' @ [CHR 0xFA] @ ''car con crema.'')\<rparr>,
         \<lparr>p_id_paso = 2, p_id_receta = Some 2, p_numero_paso = Some 2,
          p_descripcion = Some ''Hornear durante 30 minutos.''\<rparr>],
      valoraciones =
        [\<lparr>v_id_valoracion = 1, v_id_receta = Some 1, v_id_usuario = Some 2, v_puntuacion = Some 5,
          v_comentario = Some ([CHR 0xA1] @ ''Deliciosos tacos!''), v_fecha_valoracion = 0\<rparr>],
      suscripciones = [],
      next_usuario = 3, next_sesion = 3, next_categoria = 5, next_receta = 3,
      next_ingrediente = 6, next_paso = 3, next_valoracion = 2, next_suscripcion = 1\<rparr>"

subsection \<open>The specification's reading of the search\<close>

text \<open>
  For comparison with \<open>search_recetas\<close>, the search as the specification words it: a
  term without the LIKE wildcards; a text contains the term when some part of it equals
  the term up to the collation; a recipe matches when its title or the name of an
  ingredient linked to it contains the term; the result lists the matching recipes that
  have a category and an author, in the order of the table, each once.
\<close>

definition wild_free :: "string \<Rightarrow> bool" where
  "wild_free t = list_all (\<lambda>c. c \<noteq> CHR ''%'' \<and> c \<noteq> CHR ''_'' \<and> c \<noteq> CHR 0x5C) t"

fun starts_with :: "env \<Rightarrow> string \<Rightarrow> string \<Rightarrow> bool" where
  "starts_with E [] s = True"
| "starts_with E (p # ps) [] = False"
| "starts_with E (p # ps) (c # cs) = (fold_char E c = fold_char E p \<and> starts_with E ps cs)"

fun spec_contains :: "env \<Rightarrow> string \<Rightarrow> string \<Rightarrow> bool" where
  "spec_contains E t [] = (t = [])"
| "spec_contains E t (c # cs) = (starts_with E t (c # cs) \<or> spec_contains E t cs)"

definition linked_names :: "db \<Rightarrow> receta \<Rightarrow> string list" where
  "linked_names d r =
     concat (map (\<lambda>l. map i_nombre (filter (\<lambda>i. i_id_ingrediente i = ri_id_ingrediente l) (ingredientes d)))
       (filter (\<lambda>l. ri_id_receta l = r_id_receta r) (receta_ingredientes d)))"

definition spec_match :: "env \<Rightarrow> string \<Rightarrow> db \<Rightarrow> receta \<Rightarrow> bool" where
  "spec_match E t d r = (spec_contains E t (r_titulo r) \<or> list_ex (spec_contains E t) (linked_names d r))"

definition spec_search :: "env \<Rightarrow> string \<Rightarrow> db \<Rightarrow> obj list" where
  "spec_search E t d =
     List.map_filter (\<lambda>r.
        case find (\<lambda>c. r_categoria_id r = Some (c_id_categoria c)) (categorias d) of
          None \<Rightarrow> None
        | Some c \<Rightarrow>
            (case find (\<lambda>u. r_autor_id r = Some (u_id_usuario u)) (usuarios d) of
               None \<Rightarrow> None
             | Some u \<Rightarrow> if spec_match E t d r then Some (receta_row r c u) else None))
       (recetas d)"

subsection \<open>The shape of a response to a failure\<close>

fun is_error_body :: "json \<Rightarrow> bool" where
  "is_error_body (Obj [(k, Val (JStr t))]) = (k = ''error'')"
| "is_error_body _ = False"

text \<open>
  What the handlers do with a failed query: if the connection is down and a statement
  was sent, the answer is 500 with the driver's message as the \<open>error\<close> field; and
  whenever the answer is 500, the body is an object with the one field \<open>error\<close>
  holding a text, and the database is as before.
\<close>

definition surfaces_error :: "env \<Rightarrow> db \<Rightarrow> outcome \<Rightarrow> bool" where
  "surfaces_error E d out =
     ((case link_down E of
         None \<Rightarrow> True
       | Some t \<Rightarrow> sent out = [] \<or> (response out = \<lparr>status = 500, payload = error_body t\<rparr> \<and> store out = d))
      \<and> (status (response out) \<noteq> 500 \<or> (is_error_body (payload (response out)) \<and> store out = d)))"

section \<open>The claims\<close>

subsection \<open>C1: the score of a new rating\<close>

text \<open>
  C1, as amended. For every integer score \<open>n\<close> of a POST /valoraciones whose recipe and
  user references exist: score 0 is refused with 400 before any statement is sent; a
  score from 1 to 5 is stored and answered with 201; any other score passes the route's
  presence check, the INSERT is sent, the engine rejects it (the CHECK constraint when
  the number fits the column) and the route answers 500, the tables unchanged.
\<close>

theorem valoraciones_post_score:
  assumes up: "link_down E = None"
    and r: "field body ''id_receta'' = JNum r" "r \<noteq> 0" "r \<in> set (map r_id_receta (recetas d))"
           "- 2147483648 \<le> r" "r \<le> 2147483647"
    and u: "field body ''id_usuario'' = JNum u" "u \<noteq> 0" "u \<in> set (map u_id_usuario (usuarios d))"
           "- 2147483648 \<le> u" "u \<le> 2147483647"
    and n: "field body ''puntuacion'' = JNum n"
    and c: "text_col 65535 ''comentario'' (field body ''comentario'') = Inr c"
  shows "(n = 0 \<longrightarrow>
            valoraciones_post E body d =
              reply 400 (error_body ''id_receta, id_usuario y puntuacion son requeridos'') d [])
       \<and> (1 \<le> n \<and> n \<le> 5 \<longrightarrow>
            response (valoraciones_post E body d) =
              \<lparr>status = 201, payload = json_of_obj (spread [(''id'', JNum (next_valoracion d))] body)\<rparr>
          \<and> store (valoraciones_post E body d) =
              d\<lparr>valoraciones := valoraciones d @
                   [\<lparr>v_id_valoracion = next_valoracion d, v_id_receta = Some r, v_id_usuario = Some u,
                     v_puntuacion = Some n, v_comentario = c, v_fecha_valoracion = clock E\<rparr>],
                 next_valoracion := next_valoracion d + 1\<rparr>)
       \<and> (n < 0 \<or> 5 < n \<longrightarrow>
            status (response (valoraciones_post E body d)) = 500
          \<and> store (valoraciones_post E body d) = d
          \<and> sent (valoraciones_post E body d) =
              [(''INSERT INTO Valoraciones (id_receta, id_usuario, puntuacion, comentario) VALUES (?, ?, ?, ?)'',
                [JNum r, JNum u, JNum n, field body ''comentario''])]
          \<and> (- 2147483648 \<le> n \<and> n \<le> 2147483647 \<longrightarrow>
                payload (response (valoraciones_post E body d)) =
                  error_body (check_violated ''Valoraciones_chk_1'')))"
  using assms
  by (auto simp: valoraciones_post_def reply_def query_def insert_valoracion_def Let_def
      int_col_def num_col_def ranged_def andthen_def check_puntuacion_def refers_def written_def)

text \<open>Witness of C1 on the sample database: the score 5 on recipe 1 by user 2 is stored.\<close>

theorem valoraciones_post_score_witness:
  "status (response (valoraciones_post env_ejemplo
       [(''id_receta'', JNum 1), (''id_usuario'', JNum 2), (''puntuacion'', JNum 5)] db_ejemplo)) = 201
   \<and> map v_puntuacion (valoraciones (store (valoraciones_post env_ejemplo
       [(''id_receta'', JNum 1), (''id_usuario'', JNum 2), (''puntuacion'', JNum 5)] db_ejemplo)))
     = [Some 5, Some 5]"
  using valoraciones_post_score [where E = env_ejemplo and d = db_ejemplo and r = 1 and u = 2
      and n = 5 and c = None
      and body = "[(''id_receta'', JNum 1), (''id_usuario'', JNum 2), (''puntuacion'', JNum 5)]"]
  by (simp add: env_ejemplo_def db_ejemplo_def field_def text_col_def)

text \<open>
  Counterexample to C1 as stated: the score 6 is not refused with 400 before the write.
  The INSERT is sent, the engine rejects it by the CHECK constraint, the answer is 500.
\<close>

theorem valoraciones_post_six_counterexample:
  "response (valoraciones_post env_ejemplo
       [(''id_receta'', JNum 1), (''id_usuario'', JNum 2), (''puntuacion'', JNum 6)] db_ejemplo)
     = \<lparr>status = 500, payload = error_body (check_violated ''Valoraciones_chk_1'')\<rparr>
   \<and> sent (valoraciones_post env_ejemplo
       [(''id_receta'', JNum 1), (''id_usuario'', JNum 2), (''puntuacion'', JNum 6)] db_ejemplo)
     = [(''INSERT INTO Valoraciones (id_receta, id_usuario, puntuacion, comentario) VALUES (?, ?, ?, ?)'',
         [JNum 1, JNum 2, JNum 6, JUndefined])]"
  by (simp add: valoraciones_post_def field_def reply_def query_def env_ejemplo_def
      insert_valoracion_def andthen_def int_col_def num_col_def ranged_def text_col_def
      check_puntuacion_def Let_def)

subsection \<open>C2: the two ways a login fails\<close>

text \<open>
  For passwords that are strings, as the API declares them: a login with the email of a
  registered user and a password that the comparison primitive refuses, and a login
  with an email of no user, get the same response, 401 with the body
  \<open>credenciales_invalidas\<close>; neither changes the database.
\<close>

lemma login_same_failure:
  assumes up: "link_down E = None"
    and b1: "field b1 ''email'' = JStr e1" "e1 \<noteq> []" "field b1 ''contrasena'' = JStr p1" "p1 \<noteq> []"
    and reg: "list_ex (\<lambda>u. coll_eq E e1 (u_email u)) (usuarios d)"
    and wrong: "list_all (\<lambda>u. coll_eq E e1 (u_email u) \<longrightarrow> \<not> bcrypt_compare E p1 (u_contrasena u)) (usuarios d)"
    and b2: "field b2 ''email'' = JStr e2" "e2 \<noteq> []" "field b2 ''contrasena'' = JStr p2" "p2 \<noteq> []"
    and unreg: "\<not> list_ex (\<lambda>u. coll_eq E e2 (u_email u)) (usuarios d)"
  shows "response (sesiones_login E b1 d) = response (sesiones_login E b2 d)
       \<and> response (sesiones_login E b1 d) = \<lparr>status = 401, payload = credenciales_invalidas\<rparr>
       \<and> store (sesiones_login E b1 d) = d \<and> store (sesiones_login E b2 d) = d"
proof -
  have f2: "filter (email_is E (JStr e2)) (usuarios d) = []"
    using unreg by (auto simp: email_is_def list_ex_iff filter_empty_conv)
  have r2: "sesiones_login E b2 d =
      reply 401 credenciales_invalidas d [(''SELECT * FROM Usuarios WHERE email = ?'', [JStr e2])]"
    using up b2 f2
    by (simp add: sesiones_login_def query_def select_usuario_email_def selected_def Let_def)
  obtain u us where f1: "filter (email_is E (JStr e1)) (usuarios d) = u # us"
    using reg by (cases "filter (email_is E (JStr e1)) (usuarios d)")
      (auto simp: email_is_def list_ex_iff filter_empty_conv)
  have "u \<in> set (filter (email_is E (JStr e1)) (usuarios d))"
    by (simp add: f1)
  then have "u \<in> set (usuarios d)" "coll_eq E e1 (u_email u)"
    by (auto simp: email_is_def)
  then have nomatch: "\<not> bcrypt_compare E p1 (u_contrasena u)"
    using wrong by (auto simp: list_all_iff)
  have r1: "sesiones_login E b1 d =
      reply 401 credenciales_invalidas d [(''SELECT * FROM Usuarios WHERE email = ?'', [JStr e1])]"
    using up b1 f1 nomatch
    by (simp add: sesiones_login_def query_def select_usuario_email_def selected_def Let_def
        bcrypt_compare_js_def usuario_row_def field_def)
  show ?thesis
    by (simp add: r1 r2 reply_def)
qed

text \<open>On the sample database: a wrong password for Melani, and an unknown address.\<close>

lemma login_same_failure_ejemplo:
  "response (sesiones_login env_ejemplo
       [(''email'', JStr ''melani@example.com''), (''contrasena'', JStr ''secreto'')] db_ejemplo)
   = response (sesiones_login env_ejemplo
       [(''email'', JStr ''nadie@example.com''), (''contrasena'', JStr ''secreto'')] db_ejemplo)"
  using login_same_failure [where E = env_ejemplo and d = db_ejemplo
      and ?b1.0 = "[(''email'', JStr ''melani@example.com''), (''contrasena'', JStr ''secreto'')]"
      and ?e1.0 = "''melani@example.com''" and ?p1.0 = "''secreto''"
      and ?b2.0 = "[(''email'', JStr ''nadie@example.com''), (''contrasena'', JStr ''secreto'')]"
      and ?e2.0 = "''nadie@example.com''" and ?p2.0 = "''secreto''"]
  by (simp add: env_ejemplo_def db_ejemplo_def field_def coll_eq_def lower_ascii_def)

text \<open>
  C2. The claim does not hold of every pair of login attempts. The route lets any truthy
  password through to the comparison, and the comparison throws on a password that is
  not a string; only the branch of a registered email reaches it. With the number 123
  as the password, the email of Melani is answered with 500 and the body of a caught
  error, an email of no user with 401: the response tells whether the email exists.
\<close>

theorem login_numeric_password_leak:
  "status (response (sesiones_login env_ejemplo
       [(''email'', JStr ''melani@example.com''), (''contrasena'', JNum 123)] db_ejemplo)) = 500
   \<and> is_error_body (payload (response (sesiones_login env_ejemplo
       [(''email'', JStr ''melani@example.com''), (''contrasena'', JNum 123)] db_ejemplo)))
   \<and> response (sesiones_login env_ejemplo
       [(''email'', JStr ''nadie@example.com''), (''contrasena'', JNum 123)] db_ejemplo)
     = \<lparr>status = 401, payload = credenciales_invalidas\<rparr>"
  by (simp add: sesiones_login_def query_def select_usuario_email_def selected_def Let_def
      reply_def bcrypt_compare_js_def usuario_row_def field_def email_is_def coll_eq_def
      lower_ascii_def error_body_def env_ejemplo_def db_ejemplo_def)

text \<open>
  Witness of C2: the two responses of that pair of attempts differ, which is what a
  caller observes.
\<close>

theorem login_numeric_password_leak_witness:
  "response (sesiones_login env_ejemplo
       [(''email'', JStr ''melani@example.com''), (''contrasena'', JNum 123)] db_ejemplo)
   \<noteq> response (sesiones_login env_ejemplo
       [(''email'', JStr ''nadie@example.com''), (''contrasena'', JNum 123)] db_ejemplo)"
proof
  assume eq: "response (sesiones_login env_ejemplo
       [(''email'', JStr ''melani@example.com''), (''contrasena'', JNum 123)] db_ejemplo)
   = response (sesiones_login env_ejemplo
       [(''email'', JStr ''nadie@example.com''), (''contrasena'', JNum 123)] db_ejemplo)"
  from login_numeric_password_leak
  have s: "status (response (sesiones_login env_ejemplo
       [(''email'', JStr ''melani@example.com''), (''contrasena'', JNum 123)] db_ejemplo)) = 500"
    and u: "response (sesiones_login env_ejemplo
       [(''email'', JStr ''nadie@example.com''), (''contrasena'', JNum 123)] db_ejemplo)
     = \<lparr>status = 401, payload = credenciales_invalidas\<rparr>"
    by blast+
  from s show False
    unfolding eq u by simp
qed

subsection \<open>C3: deleting a row that is not there\<close>

text \<open>
  C3, as amended. For each of the seven entities, DELETE with an identifier that matches
  no row sends the statement, leaves the database as it was and answers 200 with the
  message of a successful deletion: the routes do not look at \<^verbatim>\<open>affectedRows\<close>.
\<close>

theorem delete_missing_row:
  assumes "link_down E = None"
  shows "(key_of_text E ident \<notin> Some ` set (map r_id_receta (recetas d)) \<longrightarrow>
          recetas_delete E ident d =
            reply 200 (mensaje_body (''Receta eliminada correctamente'')) d [(''DELETE FROM Recetas WHERE id_receta=?'', [JStr ident])])
     \<and> (key_of_text E ident \<notin> Some ` set (map c_id_categoria (categorias d)) \<longrightarrow>
          categorias_delete E ident d =
            reply 200 (mensaje_body (''Categor'' @ [CHR 0xED] @ ''a eliminada correctamente'')) d [(''DELETE FROM Categorias WHERE id_categoria=?'', [JStr ident])])
     \<and> (key_of_text E ident \<notin> Some ` set (map v_id_valoracion (valoraciones d)) \<longrightarrow>
          valoraciones_delete E ident d =
            reply 200 (mensaje_body (''Valoraci'' @ [CHR 0xF3] @ ''n eliminada correctamente'')) d [(''DELETE FROM Valoraciones WHERE id_valoracion=?'', [JStr ident])])
     \<and> (key_of_text E ident \<notin> Some ` set (map p_id_paso (pasos d)) \<longrightarrow>
          pasos_delete E ident d =
            reply 200 (mensaje_body (''Paso eliminado correctamente'')) d [(''DELETE FROM Pasos WHERE id_paso=?'', [JStr ident])])
     \<and> (key_of_text E ident \<notin> Some ` set (map i_id_ingrediente (ingredientes d)) \<longrightarrow>
          ingredientes_delete E ident d =
            reply 200 (mensaje_body (''Ingrediente eliminado correctamente'')) d [(''DELETE FROM Ingredientes WHERE id_ingrediente=?'', [JStr ident])])
     \<and> (key_of_text E ident \<notin> Some ` set (map u_id_usuario (usuarios d)) \<longrightarrow>
          usuarios_delete E ident d =
            reply 200 (message_body (''Usuario eliminado correctamente'')) d [(''DELETE FROM Usuarios WHERE id_usuario = ?'', [JStr ident])])
     \<and> (key_of_text E ident \<notin> Some ` set (map su_id_suscripcion (suscripciones d)) \<longrightarrow>
          suscripciones_delete E ident d =
            reply 200 (mensaje_body (''Suscripci'' @ [CHR 0xF3] @ ''n eliminada correctamente'')) d [(''DELETE FROM Suscripciones WHERE id_suscripcion=?'', [JStr ident])])"
  using assms
  by (auto simp: recetas_delete_def categorias_delete_def valoraciones_delete_def pasos_delete_def
      ingredientes_delete_def usuarios_delete_def suscripciones_delete_def
      delete_receta_def delete_categoria_def delete_valoracion_def delete_paso_def
      delete_ingrediente_def delete_usuario_def delete_suscripcion_def
      query_def no_match_def key_of_def Let_def image_iff split: option.splits)

text \<open>Witness of C3 as amended: there is no category 77 in the sample database.\<close>

theorem delete_missing_row_witness:
  "categorias_delete env_ejemplo ''77'' db_ejemplo =
     reply 200 (mensaje_body (''Categor'' @ [CHR 0xED] @ ''a eliminada correctamente'')) db_ejemplo
       [(''DELETE FROM Categorias WHERE id_categoria=?'', [JStr ''77''])]"
  using delete_missing_row [where E = env_ejemplo and d = db_ejemplo and ident = "''77''"]
  by (simp add: env_ejemplo_def db_ejemplo_def decimal_def)

text \<open>
  Counterexample to C3 as stated: deleting recipe 999, which does not exist, answers 200
  with the message of success, not 404.
\<close>

theorem recetas_delete_missing_counterexample:
  "response (recetas_delete env_ejemplo ''999'' db_ejemplo) =
     \<lparr>status = 200, payload = mensaje_body ''Receta eliminada correctamente''\<rparr>
   \<and> store (recetas_delete env_ejemplo ''999'' db_ejemplo) = db_ejemplo"
  by (simp add: recetas_delete_def delete_receta_def query_def key_of_def env_ejemplo_def
      decimal_def db_ejemplo_def no_match_def reply_def Let_def)

subsection \<open>C4: required fields of a create\<close>

lemma categorias_post_required:
  "(\<not> truthy (field body ''nombre'') \<longrightarrow>
          categorias_post E body d = reply 400 (error_body (''El nombre es requerido'')) d [])"
  by (auto simp: categorias_post_def Let_def)

lemma ingredientes_post_required:
  "(\<not> truthy (field body ''nombre'') \<longrightarrow>
          ingredientes_post E body d = reply 400 (error_body (''El nombre es requerido'')) d [])"
  by (auto simp: ingredientes_post_def Let_def)

lemma pasos_post_required:
  "(\<not> truthy (field body ''id_receta'') \<or> \<not> truthy (field body ''numero_paso'') \<or> \<not> truthy (field body ''descripcion'') \<longrightarrow>
          pasos_post E body d = reply 400 (error_body (''id_receta, numero_paso y descripcion son requeridos'')) d [])"
  by (auto simp: pasos_post_def Let_def)

lemma valoraciones_post_required:
  "(\<not> truthy (field body ''id_receta'') \<or> \<not> truthy (field body ''id_usuario'') \<or> \<not> truthy (field body ''puntuacion'') \<longrightarrow>
          valoraciones_post E body d = reply 400 (error_body (''id_receta, id_usuario y puntuacion son requeridos'')) d [])"
  by (auto simp: valoraciones_post_def Let_def)

lemma suscripciones_post_required:
  "(\<not> truthy (field body ''id_usuario'') \<or> \<not> truthy (field body ''fecha_fin'') \<or> \<not> truthy (field body ''monto'') \<longrightarrow>
          suscripciones_post E body d = reply 400 (error_body (''id_usuario, fecha_fin y monto son requeridos'')) d [])"
  by (auto simp: suscripciones_post_def Let_def)

lemma recetas_post_sin_titulo:
  "(link_down E = None \<and> (field body ''titulo'' = JUndefined \<or> field body ''titulo'' = JNull) \<longrightarrow>
          response (recetas_post E body d) =
            \<lparr>status = 500, payload = error_body (cannot_be_null ''titulo'')\<rparr>
        \<and> store (recetas_post E body d) = d
        \<and> length (sent (recetas_post E body d)) = 1)"
  by (auto simp: recetas_post_def insert_receta_def query_def Let_def reply_def andthen_def
      not_null_def text_col_def)

lemma usuarios_post_sin_contrasena:
  "(field body ''contrasena'' = JUndefined \<or> field body ''contrasena'' = JNull \<longrightarrow>
          usuarios_post E body d = reply 500 (error_body ''data and salt arguments required'') d [])"
  by (auto simp: usuarios_post_def bcrypt_hash_js_def Let_def)

text \<open>
  The create routes that check the presence of their required fields (categories,
  ingredients, steps, ratings, subscriptions) answer 400 with the route's message and
  send no statement. The routes for recipes and users make no such check: a recipe
  without a title goes to the engine, which rejects the INSERT by the NOT NULL
  constraint, and a user without a password fails in the hash primitive; both are
  caught and answered with 500.
\<close>

lemma create_required_fields:
  "(\<not> truthy (field body ''nombre'') \<longrightarrow>
          categorias_post E body d = reply 400 (error_body (''El nombre es requerido'')) d [])
   \<and> (\<not> truthy (field body ''nombre'') \<longrightarrow>
          ingredientes_post E body d = reply 400 (error_body (''El nombre es requerido'')) d [])
   \<and> (\<not> truthy (field body ''id_receta'') \<or> \<not> truthy (field body ''numero_paso'') \<or> \<not> truthy (field body ''descripcion'') \<longrightarrow>
          pasos_post E body d = reply 400 (error_body (''id_receta, numero_paso y descripcion son requeridos'')) d [])
   \<and> (\<not> truthy (field body ''id_receta'') \<or> \<not> truthy (field body ''id_usuario'') \<or> \<not> truthy (field body ''puntuacion'') \<longrightarrow>
          valoraciones_post E body d = reply 400 (error_body (''id_receta, id_usuario y puntuacion son requeridos'')) d [])
   \<and> (\<not> truthy (field body ''id_usuario'') \<or> \<not> truthy (field body ''fecha_fin'') \<or> \<not> truthy (field body ''monto'') \<longrightarrow>
          suscripciones_post E body d = reply 400 (error_body (''id_usuario, fecha_fin y monto son requeridos'')) d [])
   \<and> (link_down E = None \<and> (field body ''titulo'' = JUndefined \<or> field body ''titulo'' = JNull) \<longrightarrow>
          response (recetas_post E body d) =
            \<lparr>status = 500, payload = error_body (cannot_be_null ''titulo'')\<rparr>
        \<and> store (recetas_post E body d) = d
        \<and> length (sent (recetas_post E body d)) = 1)
   \<and> (field body ''contrasena'' = JUndefined \<or> field body ''contrasena'' = JNull \<longrightarrow>
          usuarios_post E body d = reply 500 (error_body ''data and salt arguments required'') d [])"
  by (intro conjI categorias_post_required
      ingredientes_post_required
      pasos_post_required
      valoraciones_post_required
      suscripciones_post_required
      recetas_post_sin_titulo
      usuarios_post_sin_contrasena)

text \<open>For example, a step without a description:\<close>

lemma pasos_post_sin_descripcion:
  "pasos_post env_ejemplo [(''id_receta'', JNum 1), (''numero_paso'', JNum 1)] db_ejemplo =
     reply 400 (error_body ''id_receta, numero_paso y descripcion son requeridos'') db_ejemplo []"
proof -
  have "\<not> truthy (field [(''id_receta'', JNum 1), (''numero_paso'', JNum 1)] ''descripcion'')"
    by (simp add: field_def)
  with create_required_fields [where E = env_ejemplo and d = db_ejemplo
      and body = "[(''id_receta'', JNum 1), (''numero_paso'', JNum 1)]"]
  show ?thesis by blast
qed

text \<open>
  C4. The claim does not hold of the route for recipes: a recipe without the required
  \<open>titulo\<close> is not refused with 400 before the write; the INSERT is sent and the
  answer is 500 carrying the engine's message. A recipe without the required
  \<open>categoria_id\<close> is created: 201, one more row, with a NULL category.
\<close>

theorem recetas_post_missing_required:
  "response (recetas_post env_ejemplo [(''categoria_id'', JNum 3), (''autor_id'', JNum 1)] db_ejemplo)
     = \<lparr>status = 500, payload = error_body (cannot_be_null ''titulo'')\<rparr>
   \<and> length (sent (recetas_post env_ejemplo [(''categoria_id'', JNum 3), (''autor_id'', JNum 1)] db_ejemplo)) = 1
   \<and> status (response (recetas_post env_ejemplo
         [(''titulo'', JStr ''Sopa''), (''autor_id'', JNum 1)] db_ejemplo)) = 201
   \<and> map r_categoria_id (recetas (store (recetas_post env_ejemplo
         [(''titulo'', JStr ''Sopa''), (''autor_id'', JNum 1)] db_ejemplo)))
     = [Some 3, Some 4, None]"
  by (simp add: recetas_post_def insert_receta_def query_def Let_def reply_def andthen_def
      not_null_def text_col_def int_col_def dec_col_def bool_col_def num_col_def ranged_def
      refers_def written_def field_def env_ejemplo_def db_ejemplo_def)

subsection \<open>C5: what a failure of the storage engine sends back\<close>

lemma recetas_list_surfaces: "surfaces_error E d (recetas_list E d)"
  by (auto simp: surfaces_error_def recetas_list_def query_def reply_def error_body_def Let_def
      split: option.splits sum.splits list.splits)

lemma recetas_get_surfaces: "surfaces_error E d (recetas_get E ident d)"
  by (auto simp: surfaces_error_def recetas_get_def query_def reply_def error_body_def Let_def
      split: option.splits sum.splits list.splits)

lemma recetas_buscar_surfaces: "surfaces_error E d (recetas_buscar E termino d)"
  by (auto simp: surfaces_error_def recetas_buscar_def query_def reply_def error_body_def Let_def
      split: option.splits sum.splits list.splits)

lemma recetas_post_surfaces: "surfaces_error E d (recetas_post E body d)"
  by (auto simp: surfaces_error_def recetas_post_def query_def reply_def error_body_def Let_def
      split: option.splits sum.splits list.splits)

lemma recetas_put_surfaces: "surfaces_error E d (recetas_put E ident body d)"
  by (auto simp: surfaces_error_def recetas_put_def query_def reply_def error_body_def Let_def
      split: option.splits sum.splits list.splits)

lemma recetas_delete_surfaces: "surfaces_error E d (recetas_delete E ident d)"
  by (auto simp: surfaces_error_def recetas_delete_def query_def reply_def error_body_def Let_def
      split: option.splits sum.splits list.splits)

lemma categorias_list_surfaces: "surfaces_error E d (categorias_list E d)"
  by (auto simp: surfaces_error_def categorias_list_def query_def reply_def error_body_def Let_def
      split: option.splits sum.splits list.splits)

lemma categorias_get_surfaces: "surfaces_error E d (categorias_get E ident d)"
  by (auto simp: surfaces_error_def categorias_get_def query_def reply_def error_body_def Let_def
      split: option.splits sum.splits list.splits)

lemma categorias_post_surfaces: "surfaces_error E d (categorias_post E body d)"
  by (auto simp: surfaces_error_def categorias_post_def query_def reply_def error_body_def Let_def
      split: option.splits sum.splits list.splits)

lemma categorias_put_surfaces: "surfaces_error E d (categorias_put E ident body d)"
  by (auto simp: surfaces_error_def categorias_put_def query_def reply_def error_body_def Let_def
      split: option.splits sum.splits list.splits)

lemma categorias_delete_surfaces: "surfaces_error E d (categorias_delete E ident d)"
  by (auto simp: surfaces_error_def categorias_delete_def query_def reply_def error_body_def Let_def
      split: option.splits sum.splits list.splits)

lemma ingredientes_list_surfaces: "surfaces_error E d (ingredientes_list E d)"
  by (auto simp: surfaces_error_def ingredientes_list_def query_def reply_def error_body_def Let_def
      split: option.splits sum.splits list.splits)

lemma ingredientes_get_surfaces: "surfaces_error E d (ingredientes_get E ident d)"
  by (auto simp: surfaces_error_def ingredientes_get_def query_def reply_def error_body_def Let_def
      split: option.splits sum.splits list.splits)

lemma ingredientes_post_surfaces: "surfaces_error E d (ingredientes_post E body d)"
  by (auto simp: surfaces_error_def ingredientes_post_def query_def reply_def error_body_def Let_def
      split: option.splits sum.splits list.splits)

lemma ingredientes_put_surfaces: "surfaces_error E d (ingredientes_put E ident body d)"
  by (auto simp: surfaces_error_def ingredientes_put_def query_def reply_def error_body_def Let_def
      split: option.splits sum.splits list.splits)

lemma ingredientes_delete_surfaces: "surfaces_error E d (ingredientes_delete E ident d)"
  by (auto simp: surfaces_error_def ingredientes_delete_def query_def reply_def error_body_def Let_def
      split: option.splits sum.splits list.splits)

lemma valoraciones_de_receta_surfaces: "surfaces_error E d (valoraciones_de_receta E ident d)"
  by (auto simp: surfaces_error_def valoraciones_de_receta_def query_def reply_def error_body_def Let_def
      split: option.splits sum.splits list.splits)

lemma valoraciones_get_surfaces: "surfaces_error E d (valoraciones_get E ident d)"
  by (auto simp: surfaces_error_def valoraciones_get_def query_def reply_def error_body_def Let_def
      split: option.splits sum.splits list.splits)

lemma valoraciones_post_surfaces: "surfaces_error E d (valoraciones_post E body d)"
  by (auto simp: surfaces_error_def valoraciones_post_def query_def reply_def error_body_def Let_def
      split: option.splits sum.splits list.splits)

lemma valoraciones_put_surfaces: "surfaces_error E d (valoraciones_put E ident body d)"
  by (auto simp: surfaces_error_def valoraciones_put_def query_def reply_def error_body_def Let_def
      split: option.splits sum.splits list.splits)

lemma valoraciones_delete_surfaces: "surfaces_error E d (valoraciones_delete E ident d)"
  by (auto simp: surfaces_error_def valoraciones_delete_def query_def reply_def error_body_def Let_def
      split: option.splits sum.splits list.splits)

lemma pasos_de_receta_surfaces: "surfaces_error E d (pasos_de_receta E ident d)"
  by (auto simp: surfaces_error_def pasos_de_receta_def query_def reply_def error_body_def Let_def
      split: option.splits sum.splits list.splits)

lemma pasos_get_surfaces: "surfaces_error E d (pasos_get E ident d)"
  by (auto simp: surfaces_error_def pasos_get_def query_def reply_def error_body_def Let_def
      split: option.splits sum.splits list.splits)

lemma pasos_post_surfaces: "surfaces_error E d (pasos_post E body d)"
  by (auto simp: surfaces_error_def pasos_post_def query_def reply_def error_body_def Let_def
      split: option.splits sum.splits list.splits)

lemma pasos_put_surfaces: "surfaces_error E d (pasos_put E ident body d)"
  by (auto simp: surfaces_error_def pasos_put_def query_def reply_def error_body_def Let_def
      split: option.splits sum.splits list.splits)

lemma pasos_delete_surfaces: "surfaces_error E d (pasos_delete E ident d)"
  by (auto simp: surfaces_error_def pasos_delete_def query_def reply_def error_body_def Let_def
      split: option.splits sum.splits list.splits)

lemma suscripciones_list_surfaces: "surfaces_error E d (suscripciones_list E d)"
  by (auto simp: surfaces_error_def suscripciones_list_def query_def reply_def error_body_def Let_def
      split: option.splits sum.splits list.splits)

lemma suscripciones_de_usuario_surfaces: "surfaces_error E d (suscripciones_de_usuario E ident d)"
  by (auto simp: surfaces_error_def suscripciones_de_usuario_def query_def reply_def error_body_def Let_def
      split: option.splits sum.splits list.splits)

lemma suscripciones_get_surfaces: "surfaces_error E d (suscripciones_get E ident d)"
  by (auto simp: surfaces_error_def suscripciones_get_def query_def reply_def error_body_def Let_def
      split: option.splits sum.splits list.splits)

lemma suscripciones_post_surfaces: "surfaces_error E d (suscripciones_post E body d)"
  by (auto simp: surfaces_error_def suscripciones_post_def query_def reply_def error_body_def Let_def
      split: option.splits sum.splits list.splits)

lemma suscripciones_put_surfaces: "surfaces_error E d (suscripciones_put E ident body d)"
  by (auto simp: surfaces_error_def suscripciones_put_def query_def reply_def error_body_def Let_def
      split: option.splits sum.splits list.splits)

lemma suscripciones_delete_surfaces: "surfaces_error E d (suscripciones_delete E ident d)"
  by (auto simp: surfaces_error_def suscripciones_delete_def query_def reply_def error_body_def Let_def
      split: option.splits sum.splits list.splits)

lemma usuarios_list_surfaces: "surfaces_error E d (usuarios_list E d)"
  by (auto simp: surfaces_error_def usuarios_list_def query_def reply_def error_body_def Let_def
      split: option.splits sum.splits list.splits)

lemma usuarios_post_surfaces: "surfaces_error E d (usuarios_post E body d)"
  by (auto simp: surfaces_error_def usuarios_post_def query_def reply_def error_body_def Let_def
      split: option.splits sum.splits list.splits)

lemma usuarios_put_surfaces: "surfaces_error E d (usuarios_put E ident body d)"
  by (auto simp: surfaces_error_def usuarios_put_def query_def reply_def error_body_def Let_def
      split: option.splits sum.splits list.splits)

lemma usuarios_delete_surfaces: "surfaces_error E d (usuarios_delete E ident d)"
  by (auto simp: surfaces_error_def usuarios_delete_def query_def reply_def error_body_def Let_def
      split: option.splits sum.splits list.splits)

lemma sesiones_login_surfaces: "surfaces_error E d (sesiones_login E body d)"
  by (auto simp: surfaces_error_def sesiones_login_def query_def reply_def error_body_def Let_def select_usuario_email_def selected_def
      split: option.splits sum.splits list.splits)

lemma sesiones_logout_surfaces: "surfaces_error E d (sesiones_logout E body d)"
  by (auto simp: surfaces_error_def sesiones_logout_def query_def reply_def error_body_def Let_def
      split: option.splits sum.splits list.splits)

lemma recetas_router_surfaces:
  "recetas_router E m path body d = Some out \<Longrightarrow> surfaces_error E d out"
  by (auto simp: recetas_router_def recetas_list_surfaces recetas_get_surfaces recetas_buscar_surfaces recetas_post_surfaces recetas_put_surfaces recetas_delete_surfaces
      split: meth.splits list.splits if_splits)

lemma categorias_router_surfaces:
  "categorias_router E m path body d = Some out \<Longrightarrow> surfaces_error E d out"
  by (auto simp: categorias_router_def categorias_list_surfaces categorias_get_surfaces categorias_post_surfaces categorias_put_surfaces categorias_delete_surfaces
      split: meth.splits list.splits if_splits)

lemma ingredientes_router_surfaces:
  "ingredientes_router E m path body d = Some out \<Longrightarrow> surfaces_error E d out"
  by (auto simp: ingredientes_router_def ingredientes_list_surfaces ingredientes_get_surfaces ingredientes_post_surfaces ingredientes_put_surfaces ingredientes_delete_surfaces
      split: meth.splits list.splits if_splits)

lemma valoraciones_router_surfaces:
  "valoraciones_router E m path body d = Some out \<Longrightarrow> surfaces_error E d out"
  by (auto simp: valoraciones_router_def valoraciones_de_receta_surfaces valoraciones_get_surfaces valoraciones_post_surfaces valoraciones_put_surfaces valoraciones_delete_surfaces
      split: meth.splits list.splits if_splits)

lemma pasos_router_surfaces:
  "pasos_router E m path body d = Some out \<Longrightarrow> surfaces_error E d out"
  by (auto simp: pasos_router_def pasos_de_receta_surfaces pasos_get_surfaces pasos_post_surfaces pasos_put_surfaces pasos_delete_surfaces
      split: meth.splits list.splits if_splits)

lemma suscripciones_router_surfaces:
  "suscripciones_router E m path body d = Some out \<Longrightarrow> surfaces_error E d out"
  by (auto simp: suscripciones_router_def suscripciones_list_surfaces suscripciones_de_usuario_surfaces suscripciones_get_surfaces suscripciones_post_surfaces suscripciones_put_surfaces suscripciones_delete_surfaces
      split: meth.splits list.splits if_splits)

lemma usuarios_router_surfaces:
  "usuarios_router E m path body d = Some out \<Longrightarrow> surfaces_error E d out"
  by (auto simp: usuarios_router_def usuarios_list_surfaces usuarios_post_surfaces usuarios_put_surfaces usuarios_delete_surfaces
      split: meth.splits list.splits if_splits)

lemma sesiones_router_surfaces:
  "sesiones_router E m path body d = Some out \<Longrightarrow> surfaces_error E d out"
  by (auto simp: sesiones_router_def sesiones_login_surfaces sesiones_logout_surfaces
      split: meth.splits list.splits if_splits)

lemma app_surfaces: "app E m res path body d = Some out \<Longrightarrow> surfaces_error E d out"
  by (cases res)
     (simp_all add: app_def recetas_router_surfaces categorias_router_surfaces
        ingredientes_router_surfaces valoraciones_router_surfaces pasos_router_surfaces
        suscripciones_router_surfaces usuarios_router_surfaces sesiones_router_surfaces)

lemma recetas_list_rejected:
  "(query E (select_recetas) d = Inl t \<longrightarrow>
          response (recetas_list E d) = \<lparr>status = 500, payload = error_body t\<rparr>
        \<and> store (recetas_list E d) = d)"
  by (simp add: recetas_list_def Let_def reply_def)

lemma recetas_get_rejected:
  "(query E (select_receta E (JStr ident)) d = Inl t \<longrightarrow>
          response (recetas_get E ident d) = \<lparr>status = 500, payload = error_body t\<rparr>
        \<and> store (recetas_get E ident d) = d)"
  by (simp add: recetas_get_def Let_def reply_def)

lemma recetas_buscar_rejected:
  "(query E (search_recetas E (JStr (''%'' @ termino @ ''%'')) (JStr (''%'' @ termino @ ''%''))) d = Inl t \<longrightarrow>
          response (recetas_buscar E termino d) = \<lparr>status = 500, payload = error_body t\<rparr>
        \<and> store (recetas_buscar E termino d) = d)"
  by (simp add: recetas_buscar_def Let_def reply_def)

lemma recetas_post_rejected:
  "(query E (insert_receta E (field body ''titulo'') (field body ''descripcion'') (field body ''tiempo_preparacion'') (field body ''costo'') (field body ''es_publica'') (field body ''es_premium'') (field body ''categoria_id'') (field body ''autor_id'')) d = Inl t \<longrightarrow>
          response (recetas_post E body d) = \<lparr>status = 500, payload = error_body t\<rparr>
        \<and> store (recetas_post E body d) = d)"
  by (simp add: recetas_post_def Let_def reply_def)

lemma recetas_put_rejected:
  "(query E (update_receta E (field body ''titulo'') (field body ''descripcion'') (field body ''tiempo_preparacion'') (field body ''costo'') (field body ''es_publica'') (field body ''es_premium'') (field body ''categoria_id'') (field body ''autor_id'') (JStr ident)) d = Inl t \<longrightarrow>
          response (recetas_put E ident body d) = \<lparr>status = 500, payload = error_body t\<rparr>
        \<and> store (recetas_put E ident body d) = d)"
  by (simp add: recetas_put_def Let_def reply_def)

lemma recetas_delete_rejected:
  "(query E (delete_receta E (JStr ident)) d = Inl t \<longrightarrow>
          response (recetas_delete E ident d) = \<lparr>status = 500, payload = error_body t\<rparr>
        \<and> store (recetas_delete E ident d) = d)"
  by (simp add: recetas_delete_def Let_def reply_def)

lemma categorias_list_rejected:
  "(query E (select_categorias) d = Inl t \<longrightarrow>
          response (categorias_list E d) = \<lparr>status = 500, payload = error_body t\<rparr>
        \<and> store (categorias_list E d) = d)"
  by (simp add: categorias_list_def Let_def reply_def)

lemma categorias_get_rejected:
  "(query E (select_categoria E (JStr ident)) d = Inl t \<longrightarrow>
          response (categorias_get E ident d) = \<lparr>status = 500, payload = error_body t\<rparr>
        \<and> store (categorias_get E ident d) = d)"
  by (simp add: categorias_get_def Let_def reply_def)

lemma categorias_post_rejected:
  "(truthy (field body ''nombre'')
          \<and> query E (insert_categoria E (field body ''nombre'')) d = Inl t \<longrightarrow>
          response (categorias_post E body d) = \<lparr>status = 500, payload = error_body t\<rparr>
        \<and> store (categorias_post E body d) = d)"
  by (simp add: categorias_post_def Let_def reply_def)

lemma categorias_put_rejected:
  "(truthy (field body ''nombre'')
          \<and> query E (update_categoria E (field body ''nombre'') (JStr ident)) d = Inl t \<longrightarrow>
          response (categorias_put E ident body d) = \<lparr>status = 500, payload = error_body t\<rparr>
        \<and> store (categorias_put E ident body d) = d)"
  by (simp add: categorias_put_def Let_def reply_def)

lemma categorias_delete_rejected:
  "(query E (delete_categoria E (JStr ident)) d = Inl t \<longrightarrow>
          response (categorias_delete E ident d) = \<lparr>status = 500, payload = error_body t\<rparr>
        \<and> store (categorias_delete E ident d) = d)"
  by (simp add: categorias_delete_def Let_def reply_def)

lemma ingredientes_list_rejected:
  "(query E (select_ingredientes) d = Inl t \<longrightarrow>
          response (ingredientes_list E d) = \<lparr>status = 500, payload = error_body t\<rparr>
        \<and> store (ingredientes_list E d) = d)"
  by (simp add: ingredientes_list_def Let_def reply_def)

lemma ingredientes_get_rejected:
  "(query E (select_ingrediente E (JStr ident)) d = Inl t \<longrightarrow>
          response (ingredientes_get E ident d) = \<lparr>status = 500, payload = error_body t\<rparr>
        \<and> store (ingredientes_get E ident d) = d)"
  by (simp add: ingredientes_get_def Let_def reply_def)

lemma ingredientes_post_rejected:
  "(truthy (field body ''nombre'')
          \<and> query E (insert_ingrediente E (field body ''nombre'') (field body ''unidad_medida'')) d = Inl t \<longrightarrow>
          response (ingredientes_post E body d) = \<lparr>status = 500, payload = error_body t\<rparr>
        \<and> store (ingredientes_post E body d) = d)"
  by (simp add: ingredientes_post_def Let_def reply_def)

lemma ingredientes_put_rejected:
  "(truthy (field body ''nombre'')
          \<and> query E (update_ingrediente E (field body ''nombre'') (field body ''unidad_medida'') (JStr ident)) d = Inl t \<longrightarrow>
          response (ingredientes_put E ident body d) = \<lparr>status = 500, payload = error_body t\<rparr>
        \<and> store (ingredientes_put E ident body d) = d)"
  by (simp add: ingredientes_put_def Let_def reply_def)

lemma ingredientes_delete_rejected:
  "(query E (delete_ingrediente E (JStr ident)) d = Inl t \<longrightarrow>
          response (ingredientes_delete E ident d) = \<lparr>status = 500, payload = error_body t\<rparr>
        \<and> store (ingredientes_delete E ident d) = d)"
  by (simp add: ingredientes_delete_def Let_def reply_def)

lemma valoraciones_de_receta_rejected:
  "(query E (select_valoraciones_receta E (JStr ident)) d = Inl t \<longrightarrow>
          response (valoraciones_de_receta E ident d) = \<lparr>status = 500, payload = error_body t\<rparr>
        \<and> store (valoraciones_de_receta E ident d) = d)"
  by (simp add: valoraciones_de_receta_def Let_def reply_def)

lemma valoraciones_get_rejected:
  "(query E (select_valoracion E (JStr ident)) d = Inl t \<longrightarrow>
          response (valoraciones_get E ident d) = \<lparr>status = 500, payload = error_body t\<rparr>
        \<and> store (valoraciones_get E ident d) = d)"
  by (simp add: valoraciones_get_def Let_def reply_def)

lemma valoraciones_post_rejected:
  "(truthy (field body ''id_receta'')
          \<and> truthy (field body ''id_usuario'')
          \<and> truthy (field body ''puntuacion'')
          \<and> query E (insert_valoracion E (field body ''id_receta'') (field body ''id_usuario'') (field body ''puntuacion'') (field body ''comentario'')) d = Inl t \<longrightarrow>
          response (valoraciones_post E body d) = \<lparr>status = 500, payload = error_body t\<rparr>
        \<and> store (valoraciones_post E body d) = d)"
  by (simp add: valoraciones_post_def Let_def reply_def)

lemma valoraciones_put_rejected:
  "(truthy (field body ''puntuacion'')
          \<and> query E (update_valoracion E (field body ''puntuacion'') (field body ''comentario'') (JStr ident)) d = Inl t \<longrightarrow>
          response (valoraciones_put E ident body d) = \<lparr>status = 500, payload = error_body t\<rparr>
        \<and> store (valoraciones_put E ident body d) = d)"
  by (simp add: valoraciones_put_def Let_def reply_def)

lemma valoraciones_delete_rejected:
  "(query E (delete_valoracion E (JStr ident)) d = Inl t \<longrightarrow>
          response (valoraciones_delete E ident d) = \<lparr>status = 500, payload = error_body t\<rparr>
        \<and> store (valoraciones_delete E ident d) = d)"
  by (simp add: valoraciones_delete_def Let_def reply_def)

lemma pasos_de_receta_rejected:
  "(query E (select_pasos_receta E (JStr ident)) d = Inl t \<longrightarrow>
          response (pasos_de_receta E ident d) = \<lparr>status = 500, payload = error_body t\<rparr>
        \<and> store (pasos_de_receta E ident d) = d)"
  by (simp add: pasos_de_receta_def Let_def reply_def)

lemma pasos_get_rejected:
  "(query E (select_paso E (JStr ident)) d = Inl t \<longrightarrow>
          response (pasos_get E ident d) = \<lparr>status = 500, payload = error_body t\<rparr>
        \<and> store (pasos_get E ident d) = d)"
  by (simp add: pasos_get_def Let_def reply_def)

lemma pasos_post_rejected:
  "(truthy (field body ''id_receta'')
          \<and> truthy (field body ''numero_paso'')
          \<and> truthy (field body ''descripcion'')
          \<and> query E (insert_paso E (field body ''id_receta'') (field body ''numero_paso'') (field body ''descripcion'')) d = Inl t \<longrightarrow>
          response (pasos_post E body d) = \<lparr>status = 500, payload = error_body t\<rparr>
        \<and> store (pasos_post E body d) = d)"
  by (simp add: pasos_post_def Let_def reply_def)

lemma pasos_put_rejected:
  "(truthy (field body ''numero_paso'')
          \<and> truthy (field body ''descripcion'')
          \<and> query E (update_paso E (field body ''numero_paso'') (field body ''descripcion'') (JStr ident)) d = Inl t \<longrightarrow>
          response (pasos_put E ident body d) = \<lparr>status = 500, payload = error_body t\<rparr>
        \<and> store (pasos_put E ident body d) = d)"
  by (simp add: pasos_put_def Let_def reply_def)

lemma pasos_delete_rejected:
  "(query E (delete_paso E (JStr ident)) d = Inl t \<longrightarrow>
          response (pasos_delete E ident d) = \<lparr>status = 500, payload = error_body t\<rparr>
        \<and> store (pasos_delete E ident d) = d)"
  by (simp add: pasos_delete_def Let_def reply_def)

lemma suscripciones_list_rejected:
  "(query E (select_suscripciones) d = Inl t \<longrightarrow>
          response (suscripciones_list E d) = \<lparr>status = 500, payload = error_body t\<rparr>
        \<and> store (suscripciones_list E d) = d)"
  by (simp add: suscripciones_list_def Let_def reply_def)

lemma suscripciones_de_usuario_rejected:
  "(query E (select_suscripciones_usuario E (JStr ident)) d = Inl t \<longrightarrow>
          response (suscripciones_de_usuario E ident d) = \<lparr>status = 500, payload = error_body t\<rparr>
        \<and> store (suscripciones_de_usuario E ident d) = d)"
  by (simp add: suscripciones_de_usuario_def Let_def reply_def)

lemma suscripciones_get_rejected:
  "(query E (select_suscripcion E (JStr ident)) d = Inl t \<longrightarrow>
          response (suscripciones_get E ident d) = \<lparr>status = 500, payload = error_body t\<rparr>
        \<and> store (suscripciones_get E ident d) = d)"
  by (simp add: suscripciones_get_def Let_def reply_def)

lemma suscripciones_post_rejected:
  "(truthy (field body ''id_usuario'')
          \<and> truthy (field body ''fecha_fin'')
          \<and> truthy (field body ''monto'')
          \<and> query E (insert_suscripcion E (field body ''id_usuario'') (field body ''fecha_fin'') (field body ''monto'')) d = Inl t \<longrightarrow>
          response (suscripciones_post E body d) = \<lparr>status = 500, payload = error_body t\<rparr>
        \<and> store (suscripciones_post E body d) = d)"
  by (simp add: suscripciones_post_def Let_def reply_def)

lemma suscripciones_put_rejected:
  "(truthy (field body ''fecha_fin'')
          \<and> truthy (field body ''monto'')
          \<and> query E (update_suscripcion E (field body ''fecha_fin'') (field body ''monto'') (JStr ident)) d = Inl t \<longrightarrow>
          response (suscripciones_put E ident body d) = \<lparr>status = 500, payload = error_body t\<rparr>
        \<and> store (suscripciones_put E ident body d) = d)"
  by (simp add: suscripciones_put_def Let_def reply_def)

lemma suscripciones_delete_rejected:
  "(query E (delete_suscripcion E (JStr ident)) d = Inl t \<longrightarrow>
          response (suscripciones_delete E ident d) = \<lparr>status = 500, payload = error_body t\<rparr>
        \<and> store (suscripciones_delete E ident d) = d)"
  by (simp add: suscripciones_delete_def Let_def reply_def)

lemma usuarios_list_rejected:
  "(query E (select_usuarios) d = Inl t \<longrightarrow>
          response (usuarios_list E d) = \<lparr>status = 500, payload = error_body t\<rparr>
        \<and> store (usuarios_list E d) = d)"
  by (simp add: usuarios_list_def Let_def reply_def)

lemma usuarios_post_rejected:
  "(bcrypt_hash_js E (field body ''contrasena'') = Inr h
          \<and> query E (insert_usuario E (field body ''nombre'') (field body ''email'') (JStr h) (field body ''tipo_usuario'')) d = Inl t \<longrightarrow>
          response (usuarios_post E body d) = \<lparr>status = 500, payload = error_body t\<rparr>
        \<and> store (usuarios_post E body d) = d)"
  by (simp add: usuarios_post_def Let_def reply_def)

lemma usuarios_put_contrasena_rejected:
  "(truthy (field body ''contrasena'')
          \<and> bcrypt_hash_js E (field body ''contrasena'') = Inr h
          \<and> query E (update_usuario_contrasena E (field body ''nombre'') (field body ''email'') (field body ''tipo_usuario'') (JStr h) (JStr ident)) d = Inl t \<longrightarrow>
          response (usuarios_put E ident body d) = \<lparr>status = 500, payload = error_body t\<rparr>
        \<and> store (usuarios_put E ident body d) = d)"
  by (simp add: usuarios_put_def Let_def reply_def)

lemma usuarios_put_rejected:
  "(\<not> truthy (field body ''contrasena'')
          \<and> query E (update_usuario E (field body ''nombre'') (field body ''email'') (field body ''tipo_usuario'') (JStr ident)) d = Inl t \<longrightarrow>
          response (usuarios_put E ident body d) = \<lparr>status = 500, payload = error_body t\<rparr>
        \<and> store (usuarios_put E ident body d) = d)"
  by (simp add: usuarios_put_def Let_def reply_def)

lemma usuarios_delete_rejected:
  "(query E (delete_usuario E (JStr ident)) d = Inl t \<longrightarrow>
          response (usuarios_delete E ident d) = \<lparr>status = 500, payload = error_body t\<rparr>
        \<and> store (usuarios_delete E ident d) = d)"
  by (simp add: usuarios_delete_def Let_def reply_def)

lemma sesiones_login_rejected:
  "(truthy (field body ''email'')
          \<and> truthy (field body ''contrasena'')
          \<and> query E (select_usuario_email E (field body ''email'')) d = Inl t \<longrightarrow>
          response (sesiones_login E body d) = \<lparr>status = 500, payload = error_body t\<rparr>
        \<and> store (sesiones_login E body d) = d)"
  by (simp add: sesiones_login_def Let_def reply_def)

lemma sesiones_logout_rejected:
  "(truthy (field body ''id_sesion'')
          \<and> query E (close_sesion E (field body ''id_sesion'')) d = Inl t \<longrightarrow>
          response (sesiones_logout E body d) = \<lparr>status = 500, payload = error_body t\<rparr>
        \<and> store (sesiones_logout E body d) = d)"
  by (simp add: sesiones_logout_def Let_def reply_def)

lemma sesiones_login_insert_rejected:
  "(truthy (field body ''email'') \<and> truthy (field body ''contrasena'')
          \<and> query E (select_usuario_email E (field body ''email'')) d = Inr (r1, d1)
          \<and> rows r1 = user # others
          \<and> bcrypt_compare_js E (field body ''contrasena'') (field user ''contrasena'') = Inr True
          \<and> query E (insert_sesion E (field user ''id_usuario'')) d1 = Inl t \<longrightarrow>
          response (sesiones_login E body d) = \<lparr>status = 500, payload = error_body t\<rparr>
        \<and> store (sesiones_login E body d) = d1)"
  by (simp add: sesiones_login_def Let_def reply_def)

text \<open>
  C5, as amended. Every handler of the application answers a failed statement with 500
  and a body of the one field \<open>error\<close> that holds the text of the caught error as
  it is, without a stack trace, and leaves the database as it was. For a request that a
  route handles: when the connection has failed with the driver's message \<open>t\<close> and the
  handler sends a statement, the body is \<open>{error: t}\<close>; and every answer 500 has a
  body of that shape. Then, operation by operation (every handler of the eight route
  files, with the statement it sends once its presence check has passed): whatever text
  \<open>t\<close> the query is rejected with, by the driver or by the engine, is the
  \<open>error\<close> field of the answer.
\<close>

theorem storage_failure_response:
  assumes "app E m res path body' d = Some out"
  shows "(link_down E = Some t \<and> sent out \<noteq> [] \<longrightarrow>
            response out = \<lparr>status = 500, payload = error_body t\<rparr> \<and> store out = d)
       \<and> (status (response out) = 500 \<longrightarrow>
            is_error_body (payload (response out)) \<and> store out = d)
       \<and> (query E (select_recetas) d = Inl t \<longrightarrow>
          response (recetas_list E d) = \<lparr>status = 500, payload = error_body t\<rparr>
        \<and> store (recetas_list E d) = d)
       \<and> (query E (select_receta E (JStr ident)) d = Inl t \<longrightarrow>
          response (recetas_get E ident d) = \<lparr>status = 500, payload = error_body t\<rparr>
        \<and> store (recetas_get E ident d) = d)
       \<and> (query E (search_recetas E (JStr (''%'' @ termino @ ''%'')) (JStr (''%'' @ termino @ ''%''))) d = Inl t \<longrightarrow>
          response (recetas_buscar E termino d) = \<lparr>status = 500, payload = error_body t\<rparr>
        \<and> store (recetas_buscar E termino d) = d)
       \<and> (query E (insert_receta E (field body ''titulo'') (field body ''descripcion'') (field body ''tiempo_preparacion'') (field body ''costo'') (field body ''es_publica'') (field body ''es_premium'') (field body ''categoria_id'') (field body ''autor_id'')) d = Inl t \<longrightarrow>
          response (recetas_post E body d) = \<lparr>status = 500, payload = error_body t\<rparr>
        \<and> store (recetas_post E body d) = d)
       \<and> (query E (update_receta E (field body ''titulo'') (field body ''descripcion'') (field body ''tiempo_preparacion'') (field body ''costo'') (field body ''es_publica'') (field body ''es_premium'') (field body ''categoria_id'') (field body ''autor_id'') (JStr ident)) d = Inl t \<longrightarrow>
          response (recetas_put E ident body d) = \<lparr>status = 500, payload = error_body t\<rparr>
        \<and> store (recetas_put E ident body d) = d)
       \<and> (query E (delete_receta E (JStr ident)) d = Inl t \<longrightarrow>
          response (recetas_delete E ident d) = \<lparr>status = 500, payload = error_body t\<rparr>
        \<and> store (recetas_delete E ident d) = d)
       \<and> (query E (select_categorias) d = Inl t \<longrightarrow>
          response (categorias_list E d) = \<lparr>status = 500, payload = error_body t\<rparr>
        \<and> store (categorias_list E d) = d)
       \<and> (query E (select_categoria E (JStr ident)) d = Inl t \<longrightarrow>
          response (categorias_get E ident d) = \<lparr>status = 500, payload = error_body t\<rparr>
        \<and> store (categorias_get E ident d) = d)
       \<and> (truthy (field body ''nombre'')
          \<and> query E (insert_categoria E (field body ''nombre'')) d = Inl t \<longrightarrow>
          response (categorias_post E body d) = \<lparr>status = 500, payload = error_body t\<rparr>
        \<and> store (categorias_post E body d) = d)
       \<and> (truthy (field body ''nombre'')
          \<and> query E (update_categoria E (field body ''nombre'') (JStr ident)) d = Inl t \<longrightarrow>
          response (categorias_put E ident body d) = \<lparr>status = 500, payload = error_body t\<rparr>
        \<and> store (categorias_put E ident body d) = d)
       \<and> (query E (delete_categoria E (JStr ident)) d = Inl t \<longrightarrow>
          response (categorias_delete E ident d) = \<lparr>status = 500, payload = error_body t\<rparr>
        \<and> store (categorias_delete E ident d) = d)
       \<and> (query E (select_ingredientes) d = Inl t \<longrightarrow>
          response (ingredientes_list E d) = \<lparr>status = 500, payload = error_body t\<rparr>
        \<and> store (ingredientes_list E d) = d)
       \<and> (query E (select_ingrediente E (JStr ident)) d = Inl t \<longrightarrow>
          response (ingredientes_get E ident d) = \<lparr>status = 500, payload = error_body t\<rparr>
        \<and> store (ingredientes_get E ident d) = d)
       \<and> (truthy (field body ''nombre'')
          \<and> query E (insert_ingrediente E (field body ''nombre'') (field body ''unidad_medida'')) d = Inl t \<longrightarrow>
          response (ingredientes_post E body d) = \<lparr>status = 500, payload = error_body t\<rparr>
        \<and> store (ingredientes_post E body d) = d)
       \<and> (truthy (field body ''nombre'')
          \<and> query E (update_ingrediente E (field body ''nombre'') (field body ''unidad_medida'') (JStr ident)) d = Inl t \<longrightarrow>
          response (ingredientes_put E ident body d) = \<lparr>status = 500, payload = error_body t\<rparr>
        \<and> store (ingredientes_put E ident body d) = d)
       \<and> (query E (delete_ingrediente E (JStr ident)) d = Inl t \<longrightarrow>
          response (ingredientes_delete E ident d) = \<lparr>status = 500, payload = error_body t\<rparr>
        \<and> store (ingredientes_delete E ident d) = d)
       \<and> (query E (select_valoraciones_receta E (JStr ident)) d = Inl t \<longrightarrow>
          response (valoraciones_de_receta E ident d) = \<lparr>status = 500, payload = error_body t\<rparr>
        \<and> store (valoraciones_de_receta E ident d) = d)
       \<and> (query E (select_valoracion E (JStr ident)) d = Inl t \<longrightarrow>
          response (valoraciones_get E ident d) = \<lparr>status = 500, payload = error_body t\<rparr>
        \<and> store (valoraciones_get E ident d) = d)
       \<and> (truthy (field body ''id_receta'')
          \<and> truthy (field body ''id_usuario'')
          \<and> truthy (field body ''puntuacion'')
          \<and> query E (insert_valoracion E (field body ''id_receta'') (field body ''id_usuario'') (field body ''puntuacion'') (field body ''comentario'')) d = Inl t \<longrightarrow>
          response (valoraciones_post E body d) = \<lparr>status = 500, payload = error_body t\<rparr>
        \<and> store (valoraciones_post E body d) = d)
       \<and> (truthy (field body ''puntuacion'')
          \<and> query E (update_valoracion E (field body ''puntuacion'') (field body ''comentario'') (JStr ident)) d = Inl t \<longrightarrow>
          response (valoraciones_put E ident body d) = \<lparr>status = 500, payload = error_body t\<rparr>
        \<and> store (valoraciones_put E ident body d) = d)
       \<and> (query E (delete_valoracion E (JStr ident)) d = Inl t \<longrightarrow>
          response (valoraciones_delete E ident d) = \<lparr>status = 500, payload = error_body t\<rparr>
        \<and> store (valoraciones_delete E ident d) = d)
       \<and> (query E (select_pasos_receta E (JStr ident)) d = Inl t \<longrightarrow>
          response (pasos_de_receta E ident d) = \<lparr>status = 500, payload = error_body t\<rparr>
        \<and> store (pasos_de_receta E ident d) = d)
       \<and> (query E (select_paso E (JStr ident)) d = Inl t \<longrightarrow>
          response (pasos_get E ident d) = \<lparr>status = 500, payload = error_body t\<rparr>
        \<and> store (pasos_get E ident d) = d)
       \<and> (truthy (field body ''id_receta'')
          \<and> truthy (field body ''numero_paso'')
          \<and> truthy (field body ''descripcion'')
          \<and> query E (insert_paso E (field body ''id_receta'') (field body ''numero_paso'') (field body ''descripcion'')) d = Inl t \<longrightarrow>
          response (pasos_post E body d) = \<lparr>status = 500, payload = error_body t\<rparr>
        \<and> store (pasos_post E body d) = d)
       \<and> (truthy (field body ''numero_paso'')
          \<and> truthy (field body ''descripcion'')
          \<and> query E (update_paso E (field body ''numero_paso'') (field body ''descripcion'') (JStr ident)) d = Inl t \<longrightarrow>
          response (pasos_put E ident body d) = \<lparr>status = 500, payload = error_body t\<rparr>
        \<and> store (pasos_put E ident body d) = d)
       \<and> (query E (delete_paso E (JStr ident)) d = Inl t \<longrightarrow>
          response (pasos_delete E ident d) = \<lparr>status = 500, payload = error_body t\<rparr>
        \<and> store (pasos_delete E ident d) = d)
       \<and> (query E (select_suscripciones) d = Inl t \<longrightarrow>
          response (suscripciones_list E d) = \<lparr>status = 500, payload = error_body t\<rparr>
        \<and> store (suscripciones_list E d) = d)
       \<and> (query E (select_suscripciones_usuario E (JStr ident)) d = Inl t \<longrightarrow>
          response (suscripciones_de_usuario E ident d) = \<lparr>status = 500, payload = error_body t\<rparr>
        \<and> store (suscripciones_de_usuario E ident d) = d)
       \<and> (query E (select_suscripcion E (JStr ident)) d = Inl t \<longrightarrow>
          response (suscripciones_get E ident d) = \<lparr>status = 500, payload = error_body t\<rparr>
        \<and> store (suscripciones_get E ident d) = d)
       \<and> (truthy (field body ''id_usuario'')
          \<and> truthy (field body ''fecha_fin'')
          \<and> truthy (field body ''monto'')
          \<and> query E (insert_suscripcion E (field body ''id_usuario'') (field body ''fecha_fin'') (field body ''monto'')) d = Inl t \<longrightarrow>
          response (suscripciones_post E body d) = \<lparr>status = 500, payload = error_body t\<rparr>
        \<and> store (suscripciones_post E body d) = d)
       \<and> (truthy (field body ''fecha_fin'')
          \<and> truthy (field body ''monto'')
          \<and> query E (update_suscripcion E (field body ''fecha_fin'') (field body ''monto'') (JStr ident)) d = Inl t \<longrightarrow>
          response (suscripciones_put E ident body d) = \<lparr>status = 500, payload = error_body t\<rparr>
        \<and> store (suscripciones_put E ident body d) = d)
       \<and> (query E (delete_suscripcion E (JStr ident)) d = Inl t \<longrightarrow>
          response (suscripciones_delete E ident d) = \<lparr>status = 500, payload = error_body t\<rparr>
        \<and> store (suscripciones_delete E ident d) = d)
       \<and> (query E (select_usuarios) d = Inl t \<longrightarrow>
          response (usuarios_list E d) = \<lparr>status = 500, payload = error_body t\<rparr>
        \<and> store (usuarios_list E d) = d)
       \<and> (bcrypt_hash_js E (field body ''contrasena'') = Inr h
          \<and> query E (insert_usuario E (field body ''nombre'') (field body ''email'') (JStr h) (field body ''tipo_usuario'')) d = Inl t \<longrightarrow>
          response (usuarios_post E body d) = \<lparr>status = 500, payload = error_body t\<rparr>
        \<and> store (usuarios_post E body d) = d)
       \<and> (truthy (field body ''contrasena'')
          \<and> bcrypt_hash_js E (field body ''contrasena'') = Inr h
          \<and> query E (update_usuario_contrasena E (field body ''nombre'') (field body ''email'') (field body ''tipo_usuario'') (JStr h) (JStr ident)) d = Inl t \<longrightarrow>
          response (usuarios_put E ident body d) = \<lparr>status = 500, payload = error_body t\<rparr>
        \<and> store (usuarios_put E ident body d) = d)
       \<and> (\<not> truthy (field body ''contrasena'')
          \<and> query E (update_usuario E (field body ''nombre'') (field body ''email'') (field body ''tipo_usuario'') (JStr ident)) d = Inl t \<longrightarrow>
          response (usuarios_put E ident body d) = \<lparr>status = 500, payload = error_body t\<rparr>
        \<and> store (usuarios_put E ident body d) = d)
       \<and> (query E (delete_usuario E (JStr ident)) d = Inl t \<longrightarrow>
          response (usuarios_delete E ident d) = \<lparr>status = 500, payload = error_body t\<rparr>
        \<and> store (usuarios_delete E ident d) = d)
       \<and> (truthy (field body ''email'')
          \<and> truthy (field body ''contrasena'')
          \<and> query E (select_usuario_email E (field body ''email'')) d = Inl t \<longrightarrow>
          response (sesiones_login E body d) = \<lparr>status = 500, payload = error_body t\<rparr>
        \<and> store (sesiones_login E body d) = d)
       \<and> (truthy (field body ''id_sesion'')
          \<and> query E (close_sesion E (field body ''id_sesion'')) d = Inl t \<longrightarrow>
          response (sesiones_logout E body d) = \<lparr>status = 500, payload = error_body t\<rparr>
        \<and> store (sesiones_logout E body d) = d)
       \<and> (truthy (field body ''email'') \<and> truthy (field body ''contrasena'')
          \<and> query E (select_usuario_email E (field body ''email'')) d = Inr (r1, d1)
          \<and> rows r1 = user # others
          \<and> bcrypt_compare_js E (field body ''contrasena'') (field user ''contrasena'') = Inr True
          \<and> query E (insert_sesion E (field user ''id_usuario'')) d1 = Inl t \<longrightarrow>
          response (sesiones_login E body d) = \<lparr>status = 500, payload = error_body t\<rparr>
        \<and> store (sesiones_login E body d) = d1)"
proof -
  have a: "(link_down E = Some t \<and> sent out \<noteq> [] \<longrightarrow>
            response out = \<lparr>status = 500, payload = error_body t\<rparr> \<and> store out = d)
       \<and> (status (response out) = 500 \<longrightarrow>
            is_error_body (payload (response out)) \<and> store out = d)"
    using app_surfaces [OF assms] by (auto simp: surfaces_error_def)
  show ?thesis
    by (intro conjI a [THEN conjunct1] a [THEN conjunct2]
      recetas_list_rejected
      recetas_get_rejected
      recetas_buscar_rejected
      recetas_post_rejected
      recetas_put_rejected
      recetas_delete_rejected
      categorias_list_rejected
      categorias_get_rejected
      categorias_post_rejected
      categorias_put_rejected
      categorias_delete_rejected
      ingredientes_list_rejected
      ingredientes_get_rejected
      ingredientes_post_rejected
      ingredientes_put_rejected
      ingredientes_delete_rejected
      valoraciones_de_receta_rejected
      valoraciones_get_rejected
      valoraciones_post_rejected
      valoraciones_put_rejected
      valoraciones_delete_rejected
      pasos_de_receta_rejected
      pasos_get_rejected
      pasos_post_rejected
      pasos_put_rejected
      pasos_delete_rejected
      suscripciones_list_rejected
      suscripciones_de_usuario_rejected
      suscripciones_get_rejected
      suscripciones_post_rejected
      suscripciones_put_rejected
      suscripciones_delete_rejected
      usuarios_list_rejected
      usuarios_post_rejected
      usuarios_put_contrasena_rejected
      usuarios_put_rejected
      usuarios_delete_rejected
      sesiones_login_rejected
      sesiones_logout_rejected
      sesiones_login_insert_rejected)
qed

text \<open>
  Witness of C5 as amended: listing the recipes while the pool cannot connect sends the
  driver's text back.
\<close>

theorem storage_failure_response_witness:
  "response (recetas_list (env_ejemplo\<lparr>link_down := Some ''connect ECONNREFUSED 127.0.0.1:3306''\<rparr>) db_ejemplo)
     = \<lparr>status = 500, payload = error_body ''connect ECONNREFUSED 127.0.0.1:3306''\<rparr>"
proof -
  let ?E = "env_ejemplo\<lparr>link_down := Some ''connect ECONNREFUSED 127.0.0.1:3306''\<rparr>"
  have a: "app ?E GET Recetas [] [] db_ejemplo = Some (recetas_list ?E db_ejemplo)"
    by (simp add: app_def recetas_router_def)
  have b: "link_down ?E = Some ''connect ECONNREFUSED 127.0.0.1:3306''"
    by simp
  have c: "sent (recetas_list ?E db_ejemplo) \<noteq> []"
    by (simp add: recetas_list_def query_def reply_def Let_def)
  from storage_failure_response [OF a, where t = "''connect ECONNREFUSED 127.0.0.1:3306''",
      THEN conjunct1] b c
  show ?thesis by blast
qed

text \<open>
  Counterexample to C5 as stated: registering a second user with the address of Melani
  is answered with the engine's own text, which names the unique key and repeats the
  stored value.
\<close>

theorem usuarios_post_leak_counterexample:
  "response (usuarios_post env_ejemplo
       [(''nombre'', JStr ''Otra''), (''email'', JStr ''melani@example.com''),
        (''contrasena'', JStr ''abc'')] db_ejemplo)
     = \<lparr>status = 500,
        payload = Obj [(''error'', Val (JStr (''Duplicate entry '' @ [CHR 0x27] @ ''melani@example.com'' @
            [CHR 0x27] @ '' for key '' @ [CHR 0x27] @ ''Usuarios.email'' @ [CHR 0x27])))]\<rparr>"
  by (simp add: usuarios_post_def bcrypt_hash_js_def insert_usuario_def query_def Let_def reply_def
      andthen_def not_null_def text_col_def enum_col_def coll_eq_def duplicate_entry_def
      error_body_def field_def env_ejemplo_def db_ejemplo_def)

subsection \<open>C6: logout\<close>

text \<open>
  C6. A logout stamps the end time exactly on the sessions with the given identifier
  whose end time is NULL. When there is none (the session does not exist or is closed)
  the answer is 404 and nothing changes; otherwise it is 200. A second logout of the
  same identifier, at whatever later time, answers 404 and leaves the database as the
  first left it, so the end time set by the first call stays.
\<close>

theorem logout_only_active:
  assumes up: "link_down E = None"
    and idv: "truthy (field body ''id_sesion'')"
  shows "(filter (is_open E (field body ''id_sesion'')) (sesiones d) = [] \<longrightarrow>
            response (sesiones_logout E body d) =
              \<lparr>status = 404,
               payload = mensaje_body (''La sesi'' @ [CHR 0xF3] @ ''n no existe o ya estaba cerrada'')\<rparr>
          \<and> store (sesiones_logout E body d) = d)
       \<and> (filter (is_open E (field body ''id_sesion'')) (sesiones d) \<noteq> [] \<longrightarrow>
            status (response (sesiones_logout E body d)) = 200)
       \<and> sesiones (store (sesiones_logout E body d)) =
            map (\<lambda>s. if is_open E (field body ''id_sesion'') s
                     then s\<lparr>s_fecha_cierre := Some (clock E)\<rparr> else s) (sesiones d)
       \<and> (link_down E' = None \<and> key_of E' (field body ''id_sesion'') = key_of E (field body ''id_sesion'') \<longrightarrow>
            status (response (sesiones_logout E' body (store (sesiones_logout E body d)))) = 404
          \<and> store (sesiones_logout E' body (store (sesiones_logout E body d))) =
              store (sesiones_logout E body d))"
proof -
  let ?v = "field body ''id_sesion''"
  define f where "f = (\<lambda>s. if is_open E ?v s then s\<lparr>s_fecha_cierre := Some (clock E)\<rparr> else s)"
  define f' where "f' = (\<lambda>s. if is_open E' ?v s then s\<lparr>s_fecha_cierre := Some (clock E')\<rparr> else s)"
  have run: "store (sesiones_logout X body x) =
               x\<lparr>sesiones := map (\<lambda>s. if is_open X ?v s then s\<lparr>s_fecha_cierre := Some (clock X)\<rparr> else s) (sesiones x)\<rparr>
           \<and> status (response (sesiones_logout X body x)) =
               (if filter (is_open X ?v) (sesiones x) = [] then 404 else 200)
           \<and> (filter (is_open X ?v) (sesiones x) = [] \<longrightarrow>
                payload (response (sesiones_logout X body x)) =
                  mensaje_body (''La sesi'' @ [CHR 0xF3] @ ''n no existe o ya estaba cerrada''))"
    if "link_down X = None" for X x
    using that idv
    by (simp add: sesiones_logout_def query_def close_sesion_def Let_def reply_def written_def)
  have idem: "map g xs = xs" if "filter P xs = []" and "\<And>x. \<not> P x \<Longrightarrow> g x = x"
    for g :: "sesion \<Rightarrow> sesion" and P xs
    using that by (induction xs) (auto split: if_splits)
  have a: "map f (sesiones d) = sesiones d" if "filter (is_open E ?v) (sesiones d) = []"
    by (rule idem[where P="is_open E ?v"]) (use that in \<open>auto simp: f_def\<close>)
  have closed: "filter (is_open E' ?v) (map f (sesiones d)) = []"
    if "key_of E' ?v = key_of E ?v"
    using that by (auto simp: filter_empty_conv is_open_def f_def)
  have b: "map f' (map f (sesiones d)) = map f (sesiones d)" if "key_of E' ?v = key_of E ?v"
    by (rule idem[where P="is_open E' ?v"]) (use closed[OF that] in \<open>auto simp: f'_def\<close>)
  have st1: "store (sesiones_logout E body d) = d\<lparr>sesiones := map f (sesiones d)\<rparr>"
    using run[OF up, of d] by (simp add: f_def)
  have c1: "filter (is_open E ?v) (sesiones d) = [] \<longrightarrow>
            response (sesiones_logout E body d) =
              \<lparr>status = 404,
               payload = mensaje_body (''La sesi'' @ [CHR 0xF3] @ ''n no existe o ya estaba cerrada'')\<rparr>
          \<and> store (sesiones_logout E body d) = d"
    using run[OF up, of d] a st1 by (cases "response (sesiones_logout E body d)") auto
  have c2: "filter (is_open E ?v) (sesiones d) \<noteq> [] \<longrightarrow>
            status (response (sesiones_logout E body d)) = 200"
    using run[OF up, of d] by simp
  have c3: "sesiones (store (sesiones_logout E body d)) = map f (sesiones d)"
    by (simp add: st1)
  have c4: "status (response (sesiones_logout E' body (store (sesiones_logout E body d)))) = 404
          \<and> store (sesiones_logout E' body (store (sesiones_logout E body d))) =
              store (sesiones_logout E body d)"
    if up': "link_down E' = None" and k: "key_of E' ?v = key_of E ?v"
    using run[OF up', of "d\<lparr>sesiones := map f (sesiones d)\<rparr>"] closed[OF k] b[OF k]
    by (simp add: st1 f'_def)
  show ?thesis
    using c1 c2 c3 c4 by (simp add: f_def)
qed

text \<open>
  Witness of C6: session 1 of the sample database is closed at time 1000; a second
  logout at time 2000 answers 404 and the end time is still 1000.
\<close>

theorem logout_only_active_witness:
  "status (response (sesiones_logout (env_ejemplo\<lparr>clock := 2000\<rparr>) [(''id_sesion'', JNum 1)]
       (store (sesiones_logout env_ejemplo [(''id_sesion'', JNum 1)] db_ejemplo)))) = 404
   \<and> map s_fecha_cierre (sesiones (store (sesiones_logout (env_ejemplo\<lparr>clock := 2000\<rparr>)
       [(''id_sesion'', JNum 1)]
       (store (sesiones_logout env_ejemplo [(''id_sesion'', JNum 1)] db_ejemplo)))))
     = [Some 1000, None]"
  using logout_only_active [where E = env_ejemplo and E' = "env_ejemplo\<lparr>clock := 2000\<rparr>"
      and d = db_ejemplo and body = "[(''id_sesion'', JNum 1)]"]
  by (simp add: env_ejemplo_def db_ejemplo_def field_def key_of_def is_open_def)

subsection \<open>C7: the password hash under an update of a user\<close>





subsection \<open>C8: the search by term\<close>

lemma like_percent: "like E ''%'' s"
  by (induction s) auto

lemma like_prefix: "wild_free t \<Longrightarrow> like E (t @ ''%'') s = starts_with E t s"
proof (induction t arbitrary: s)
  case Nil
  then show ?case using like_percent by simp
next
  case (Cons p ps)
  then have "wild_free ps" and sp: "p \<noteq> CHR ''%''" "p \<noteq> CHR ''_''" "p \<noteq> CHR 0x5C"
    by (simp_all add: wild_free_def)
  with Cons.IH have ih: "\<And>s. like E (ps @ ''%'') s = starts_with E ps s" by simp
  show ?case
    using sp ih by (cases s) simp_all
qed

lemma like_substring: "wild_free t \<Longrightarrow> like E (''%'' @ t @ ''%'') s = spec_contains E t s"
proof (induction s)
  case Nil
  then show ?case
    using like_prefix [of t E "[]"] by (cases t) simp_all
next
  case (Cons c cs)
  then show ?case
    using like_prefix [of t E "c # cs"] by simp
qed

lemma filter_key_find:
  "distinct (map f xs) \<Longrightarrow>
   filter (\<lambda>x. k = Some (f x)) xs = (case find (\<lambda>x. k = Some (f x)) xs of None \<Rightarrow> [] | Some x \<Rightarrow> [x])"
proof (induction xs)
  case Nil
  then show ?case by simp
next
  case (Cons x xs)
  then have ih: "filter (\<lambda>x. k = Some (f x)) xs = (case find (\<lambda>x. k = Some (f x)) xs of None \<Rightarrow> [] | Some x \<Rightarrow> [x])"
    by simp
  show ?case
  proof (cases "k = Some (f x)")
    case True
    then have "\<forall>y\<in>set xs. k \<noteq> Some (f y)"
      using Cons.prems by auto
    then have "filter (\<lambda>x. k = Some (f x)) xs = []"
      by (simp add: filter_empty_conv)
    with True show ?thesis by simp
  next
    case False
    with ih show ?thesis by simp
  qed
qed

lemma set_uniq [simp]: "set (uniq xs) = set xs"
  by (induction xs) auto

lemma uniq_replicate_append:
  "uniq (replicate (Suc n) x @ ys) = x # filter (\<lambda>y. y \<noteq> x) (uniq ys)"
  by (induction n) simp_all

lemma filter_notin: "x \<notin> set ys \<Longrightarrow> filter (\<lambda>y. y \<noteq> x) ys = ys"
  by (induction ys) auto

lemma uniq_blocks:
  assumes "distinct (map g rs)"
    and "\<And>r x. r \<in> set rs \<Longrightarrow> rowo r = Some x \<Longrightarrow> key x = g r"
  shows "uniq (concat (map (\<lambda>r. case rowo r of None \<Rightarrow> [] | Some x \<Rightarrow> replicate (n r) x) rs)) =
         List.map_filter (\<lambda>r. case rowo r of None \<Rightarrow> None | Some x \<Rightarrow> if 0 < n r then Some x else None) rs"
  using assms
proof (induction rs)
  case Nil
  then show ?case by (simp add: List.map_filter_simps)
next
  case (Cons r rs)
  let ?blk = "\<lambda>r. case rowo r of None \<Rightarrow> [] | Some x \<Rightarrow> replicate (n r) x"
  let ?sel = "\<lambda>r. case rowo r of None \<Rightarrow> None | Some x \<Rightarrow> if 0 < n r then Some x else None"
  have ih: "uniq (concat (map ?blk rs)) = List.map_filter ?sel rs"
    using Cons by simp
  show ?case
  proof (cases "rowo r")
    case None
    then show ?thesis using ih by (simp add: List.map_filter_simps)
  next
    case (Some x)
    show ?thesis
    proof (cases "n r")
      case 0
      with Some ih show ?thesis by (simp add: List.map_filter_simps)
    next
      case (Suc m)
      have kx: "key x = g r" using Cons.prems(2) [of r x] Some by simp
      have "x \<notin> set (concat (map ?blk rs))"
      proof
        assume "x \<in> set (concat (map ?blk rs))"
        then obtain r' where r': "r' \<in> set rs" "x \<in> set (?blk r')" by auto
        then have "rowo r' = Some x" by (auto split: option.splits)
        then have "key x = g r'" using Cons.prems(2) [of r' x] r' by simp
        with kx have "g r = g r'" by simp
        with r'(1) have "g r \<in> g ` set rs" by simp
        with Cons.prems(1) show False by simp
      qed
      then have "filter (\<lambda>y. y \<noteq> x) (uniq (concat (map ?blk rs))) = uniq (concat (map ?blk rs))"
        by (simp add: filter_notin)
      with Some Suc ih show ?thesis
        by (simp add: uniq_replicate_append List.map_filter_simps del: replicate.simps)
    qed
  qed
qed

lemma nombres_ingredientes_nonempty: "nombres_ingredientes d r \<noteq> []"
proof -
  have a: "nombres_de_link d l \<noteq> []" for l
    by (simp add: nombres_de_link_def split: list.splits)
  show ?thesis
    using a by (auto simp: nombres_ingredientes_def split: list.splits)
qed

lemma nombres_de_link_Some:
  "Some n \<in> set (nombres_de_link d l) \<longleftrightarrow>
   n \<in> set (map i_nombre (filter (\<lambda>i. i_id_ingrediente i = ri_id_ingrediente l) (ingredientes d)))"
proof (cases "filter (\<lambda>i. i_id_ingrediente i = ri_id_ingrediente l) (ingredientes d)")
  case Nil
  then show ?thesis by (simp add: nombres_de_link_def)
next
  case (Cons i rest)
  then show ?thesis by (auto simp: nombres_de_link_def)
qed

lemma nombres_ingredientes_Some:
  "Some n \<in> set (nombres_ingredientes d r) \<longleftrightarrow> n \<in> set (linked_names d r)"
proof (cases "filter (\<lambda>l. ri_id_receta l = r_id_receta r) (receta_ingredientes d)")
  case Nil
  then show ?thesis by (simp add: nombres_ingredientes_def linked_names_def)
next
  case (Cons l ls)
  have "Some n \<in> set (nombres_ingredientes d r) \<longleftrightarrow>
        (\<exists>l'\<in>set (l # ls). Some n \<in> set (nombres_de_link d l'))"
    using Cons by (simp add: nombres_ingredientes_def)
  also have "\<dots> \<longleftrightarrow> n \<in> set (linked_names d r)"
    using Cons by (simp add: linked_names_def nombres_de_link_Some)
  finally show ?thesis .
qed

lemma where_matches:
  assumes "wild_free t"
  shows "(filter (\<lambda>nm. like_opt E (Some (''%'' @ t @ ''%'')) (Some (r_titulo r))
                     \<or> like_opt E (Some (''%'' @ t @ ''%'')) nm) (nombres_ingredientes d r) \<noteq> [])
         = spec_match E t d r"
proof -
  have l: "like_opt E (Some (''%'' @ t @ ''%'')) nm =
           (case nm of None \<Rightarrow> False | Some s \<Rightarrow> spec_contains E t s)" for nm
    using like_substring [OF assms, of E] by (simp add: like_opt_def split: option.splits)
  have "(\<exists>nm\<in>set (nombres_ingredientes d r). case nm of None \<Rightarrow> False | Some s \<Rightarrow> spec_contains E t s)
        = (\<exists>n\<in>set (linked_names d r). spec_contains E t n)"
    (is "?L = ?R")
  proof
    assume ?L
    then obtain nm where nm: "nm \<in> set (nombres_ingredientes d r)"
        and c: "case nm of None \<Rightarrow> False | Some s \<Rightarrow> spec_contains E t s" by blast
    from c obtain s where s: "nm = Some s" "spec_contains E t s"
      by (cases nm) simp_all
    with nm have "Some s \<in> set (nombres_ingredientes d r)" by simp
    with s show ?R using nombres_ingredientes_Some by blast
  next
    assume ?R
    then obtain n where "n \<in> set (linked_names d r)" "spec_contains E t n" by blast
    then have "Some n \<in> set (nombres_ingredientes d r)" using nombres_ingredientes_Some by blast
    with \<open>spec_contains E t n\<close> show ?L by force
  qed
  moreover have "\<exists>nm. nm \<in> set (nombres_ingredientes d r)"
    using nombres_ingredientes_nonempty [of d r] by (cases "nombres_ingredientes d r") auto
  ultimately show ?thesis
    unfolding l filter_empty_conv spec_match_def list_ex_iff
    by (auto simp del: spec_contains.simps)
qed

lemma receta_joined_find:
  assumes "distinct (map c_id_categoria (categorias d))" "distinct (map u_id_usuario (usuarios d))"
  shows "receta_joined d r =
     (case find (\<lambda>c. r_categoria_id r = Some (c_id_categoria c)) (categorias d) of
        None \<Rightarrow> []
      | Some c \<Rightarrow>
          (case find (\<lambda>u. r_autor_id r = Some (u_id_usuario u)) (usuarios d) of
             None \<Rightarrow> []
           | Some u \<Rightarrow> [receta_row r c u]))"
  unfolding receta_joined_def con_categoria_def con_autor_def
    filter_key_find [OF assms(1)] filter_key_find [OF assms(2)]
  by (simp split: option.splits)


lemma distinct_map_filter:
  assumes "distinct (map g rs)" and "\<And>r x. r \<in> set rs \<Longrightarrow> f r = Some x \<Longrightarrow> key x = g r"
  shows "distinct (map key (List.map_filter f rs))"
  using assms
proof (induction rs)
  case Nil
  then show ?case by (simp add: List.map_filter_simps)
next
  case (Cons r rs)
  have ih: "distinct (map key (List.map_filter f rs))"
    using Cons by simp
  show ?case
  proof (cases "f r")
    case None
    with ih show ?thesis by (simp add: List.map_filter_simps)
  next
    case (Some x)
    have kx: "key x = g r" using Cons.prems(2) [of r x] Some by simp
    have "key x \<notin> set (map key (List.map_filter f rs))"
    proof
      assume "key x \<in> set (map key (List.map_filter f rs))"
      then obtain r' y where r': "r' \<in> set rs" "f r' = Some y" "key y = key x"
        by (auto simp: List.map_filter_def)
      then have "key y = g r'" using Cons.prems(2) [of r' y] by simp
      with kx r'(3) have "g r = g r'" by simp
      with r'(1) have "g r \<in> g ` set rs" by simp
      with Cons.prems(1) show False by simp
    qed
    with Some ih show ?thesis by (simp add: List.map_filter_simps)
  qed
qed

lemma field_receta_row [simp]: "field (receta_row r c u) ''id_receta'' = JNum (r_id_receta r)"
  by (simp add: receta_row_def field_def)

lemma search_recetas_spec:
  assumes ids: "distinct (map r_id_receta (recetas d))"
    and cats: "distinct (map c_id_categoria (categorias d))"
    and us: "distinct (map u_id_usuario (usuarios d))"
    and wf: "wild_free t"
  shows "search_recetas E (JStr (''%'' @ t @ ''%'')) (JStr (''%'' @ t @ ''%'')) d =
           Inr (selected (spec_search E t d), d)"
proof -
  let ?pat = "Some (''%'' @ t @ ''%'')"
  let ?P = "\<lambda>r nm. like_opt E ?pat (Some (r_titulo r)) \<or> like_opt E ?pat nm"
  let ?rowo = "\<lambda>r. case find (\<lambda>c. r_categoria_id r = Some (c_id_categoria c)) (categorias d) of
                      None \<Rightarrow> None
                    | Some c \<Rightarrow>
                        (case find (\<lambda>u. r_autor_id r = Some (u_id_usuario u)) (usuarios d) of
                           None \<Rightarrow> None
                         | Some u \<Rightarrow> Some (receta_row r c u))"
  let ?n = "\<lambda>r. length (filter (?P r) (nombres_ingredientes d r))"
  have blk: "concat (map (\<lambda>row. map (\<lambda>nm. row) (filter (?P r) (nombres_ingredientes d r)))
                (receta_joined d r)) =
             (case ?rowo r of None \<Rightarrow> [] | Some x \<Rightarrow> replicate (?n r) x)" for r
    unfolding receta_joined_find [OF cats us]
    by (simp add: map_replicate_const split: option.splits)
  have key: "field x ''id_receta'' = JNum (r_id_receta r)" if "?rowo r = Some x" for r x
    using that by (auto split: option.splits)
  have dist: "distinct (map (\<lambda>r. JNum (r_id_receta r)) (recetas d))"
    using ids by (simp add: distinct_map inj_on_def)
  have sel: "(case ?rowo r of None \<Rightarrow> None | Some x \<Rightarrow> if 0 < ?n r then Some x else None) =
             (case find (\<lambda>c. r_categoria_id r = Some (c_id_categoria c)) (categorias d) of
                None \<Rightarrow> None
              | Some c \<Rightarrow>
                  (case find (\<lambda>u. r_autor_id r = Some (u_id_usuario u)) (usuarios d) of
                     None \<Rightarrow> None
                   | Some u \<Rightarrow> if spec_match E t d r then Some (receta_row r c u) else None))" for r
    using where_matches [OF wf, of E r d] by (simp split: option.splits)
  have ub: "uniq (concat (map (\<lambda>r. case ?rowo r of None \<Rightarrow> [] | Some x \<Rightarrow> replicate (?n r) x) (recetas d))) =
        List.map_filter (\<lambda>r. case ?rowo r of None \<Rightarrow> None | Some x \<Rightarrow> if 0 < ?n r then Some x else None)
          (recetas d)"
    by (rule uniq_blocks [where g = "\<lambda>r. JNum (r_id_receta r)" and key = "\<lambda>x. field x ''id_receta''"])
       (use dist key in auto)
  have e1: "search_recetas E (JStr (''%'' @ t @ ''%'')) (JStr (''%'' @ t @ ''%'')) d =
      Inr (selected (uniq (concat (map (\<lambda>r.
            concat (map (\<lambda>row. map (\<lambda>nm. row) (filter (?P r) (nombres_ingredientes d r)))
              (receta_joined d r)))
            (recetas d)))), d)"
    by (simp only: search_recetas_def text_of_def jsval.case)
  show ?thesis
    unfolding e1 blk ub sel spec_search_def ..
qed

lemma spec_search_once:
  assumes ids: "distinct (map r_id_receta (recetas d))"
  shows "distinct (map (\<lambda>row. field row ''id_receta'') (spec_search E t d))"
  unfolding spec_search_def
proof (rule distinct_map_filter [where g = "\<lambda>r. JNum (r_id_receta r)"])
  show "distinct (map (\<lambda>r. JNum (r_id_receta r)) (recetas d))"
    using ids by (simp add: distinct_map inj_on_def)
qed (auto split: option.splits if_splits)

text \<open>
  C8, as amended. For a database whose primary keys are unique and a search term without
  the LIKE wildcards (percent sign, underscore, backslash), GET /recetas/buscar/:termino
  answers 200 with exactly the recipes that have a category and an author and whose
  title, or the name of an ingredient linked to them, contains the term up to the
  collation (which is case-insensitive), in the order of the table, and every recipe at
  most once. Nothing is written.
\<close>

theorem recetas_buscar_spec:
  assumes "link_down E = None"
    and "distinct (map r_id_receta (recetas d))"
    and "distinct (map c_id_categoria (categorias d))"
    and "distinct (map u_id_usuario (usuarios d))"
    and "wild_free termino"
  shows "response (recetas_buscar E termino d) =
           \<lparr>status = 200, payload = json_rows (spec_search E termino d)\<rparr>
       \<and> distinct (map (\<lambda>row. field row ''id_receta'') (spec_search E termino d))
       \<and> store (recetas_buscar E termino d) = d"
  using assms(1) search_recetas_spec [OF assms(2-5), of E] spec_search_once [OF assms(2), of E termino]
  by (simp add: recetas_buscar_def query_def Let_def reply_def selected_def)


text \<open>
  Witness of C8 on the seed rows: the term of the specification's example finds
  Tacos al Pastor, once, through its ingredient.
\<close>

theorem recetas_buscar_spec_witness:
  "response (recetas_buscar env_ejemplo (''pi'' @ [CHR 0xF1]) db_ejemplo) =
     \<lparr>status = 200, payload = json_rows (spec_search env_ejemplo (''pi'' @ [CHR 0xF1]) db_ejemplo)\<rparr>
   \<and> map (\<lambda>row. field row ''titulo'') (spec_search env_ejemplo (''pi'' @ [CHR 0xF1]) db_ejemplo)
     = [JStr ''Tacos al Pastor'']"
proof -
  have h: "link_down env_ejemplo = None"
    "distinct (map r_id_receta (recetas db_ejemplo))"
    "distinct (map c_id_categoria (categorias db_ejemplo))"
    "distinct (map u_id_usuario (usuarios db_ejemplo))"
    "wild_free (''pi'' @ [CHR 0xF1])"
    by (simp_all add: env_ejemplo_def db_ejemplo_def wild_free_def)
  have t: "map (\<lambda>row. field row ''titulo'') (spec_search env_ejemplo (''pi'' @ [CHR 0xF1]) db_ejemplo)
     = [JStr ''Tacos al Pastor'']"
    by (simp add: spec_search_def spec_match_def linked_names_def db_ejemplo_def env_ejemplo_def
        lower_ascii_def List.map_filter_simps receta_row_def field_def)
  from recetas_buscar_spec [OF h] t show ?thesis by simp
qed

text \<open>
  Counterexample to C8 as stated. The term \<open>_\<close> returns every recipe of the listing,
  though no title and no ingredient name contains an underscore; and a recipe without a
  category, as POST /recetas creates it, is not found by its own title.
\<close>

theorem recetas_buscar_counterexample:
  "payload (response (recetas_buscar env_ejemplo ''_'' db_ejemplo)) =
     payload (response (recetas_list env_ejemplo db_ejemplo))
   \<and> payload (response (recetas_list env_ejemplo db_ejemplo)) \<noteq> Arr []
   \<and> list_all (\<lambda>r. \<not> spec_match env_ejemplo ''_'' db_ejemplo r) (recetas db_ejemplo)
   \<and> payload (response (recetas_buscar env_ejemplo ''Sopa''
        (store (recetas_post env_ejemplo [(''titulo'', JStr ''Sopa''), (''autor_id'', JNum 1)] db_ejemplo))))
     = Arr []
   \<and> map r_titulo (recetas
        (store (recetas_post env_ejemplo [(''titulo'', JStr ''Sopa''), (''autor_id'', JNum 1)] db_ejemplo)))
     = [''Tacos al Pastor'', ''Postre Gourmet'', ''Sopa'']"
proof -
  let ?d2 = "store (recetas_post env_ejemplo [(''titulo'', JStr ''Sopa''), (''autor_id'', JNum 1)] db_ejemplo)"
  have a: "payload (response (recetas_buscar env_ejemplo ''_'' db_ejemplo)) =
     payload (response (recetas_list env_ejemplo db_ejemplo))"
    by (simp add: recetas_buscar_def recetas_list_def query_def search_recetas_def select_recetas_def
        Let_def reply_def selected_def text_of_def like_opt_def receta_joined_def con_categoria_def
        con_autor_def nombres_ingredientes_def nombres_de_link_def env_ejemplo_def db_ejemplo_def
        receta_row_def)
  have b: "payload (response (recetas_list env_ejemplo db_ejemplo)) \<noteq> Arr []"
    by (simp add: recetas_list_def query_def select_recetas_def
        Let_def reply_def selected_def receta_joined_def con_categoria_def
        con_autor_def env_ejemplo_def db_ejemplo_def json_rows_def)
  have c: "list_all (\<lambda>r. \<not> spec_match env_ejemplo ''_'' db_ejemplo r) (recetas db_ejemplo)"
    by (simp add: spec_match_def linked_names_def db_ejemplo_def env_ejemplo_def lower_ascii_def)
  have d2: "?d2 = db_ejemplo\<lparr>recetas := recetas db_ejemplo @
                      [\<lparr>r_id_receta = 3, r_titulo = ''Sopa'', r_descripcion = None,
                        r_tiempo_preparacion = None, r_costo = None, r_es_publica = None,
                        r_es_premium = None, r_categoria_id = None, r_autor_id = Some 1,
                        r_fecha_creacion = 1000, r_fecha_modificacion = 1000\<rparr>],
                   next_receta := 4\<rparr>"
    by (simp add: recetas_post_def insert_receta_def query_def Let_def reply_def andthen_def
      not_null_def text_col_def int_col_def dec_col_def bool_col_def num_col_def ranged_def
      refers_def written_def field_def env_ejemplo_def db_ejemplo_def)
  have d: "payload (response (recetas_buscar env_ejemplo ''Sopa'' ?d2)) = Arr []"
    unfolding d2
    by (simp add: recetas_buscar_def query_def search_recetas_def
        Let_def reply_def selected_def text_of_def like_opt_def receta_joined_def con_categoria_def
        con_autor_def nombres_ingredientes_def nombres_de_link_def env_ejemplo_def db_ejemplo_def
        lower_ascii_def json_rows_def)
  have e: "map r_titulo (recetas ?d2) = [''Tacos al Pastor'', ''Postre Gourmet'', ''Sopa'']"
    unfolding d2 by (simp add: db_ejemplo_def)
  from a b c d e show ?thesis by blast
qed

subsection \<open>C9: updating a row that is not there\<close>

lemma recetas_put_missing:
  assumes "link_down E = None"
  shows "(key_of_text E ident \<notin> Some ` set (map r_id_receta (recetas d)) \<longrightarrow>
          recetas_put E ident body d =
            reply 200 (mensaje_body (''Receta actualizada correctamente'')) d
              [(''UPDATE Recetas SET titulo=?, descripcion=?, tiempo_preparacion=?, costo=?, es_publica=?, es_premium=?, categoria_id=?, autor_id=? WHERE id_receta=?'',
                [field body ''titulo'', field body ''descripcion'', field body ''tiempo_preparacion'', field body ''costo'', field body ''es_publica'', field body ''es_premium'', field body ''categoria_id'', field body ''autor_id'', JStr ident])])"
  using assms
  by (auto simp: recetas_put_def update_receta_def query_def no_match_def key_of_def Let_def image_iff
      split: option.splits)

lemma recetas_put_ok_body:
  "(status (response (recetas_put E ident body d)) = 200 \<longrightarrow>
          payload (response (recetas_put E ident body d)) = mensaje_body (''Receta actualizada correctamente''))"
  by (auto simp: recetas_put_def Let_def reply_def split: sum.splits)

lemma categorias_put_missing:
  assumes "link_down E = None"
  shows "(truthy (field body ''nombre'') \<and> key_of_text E ident \<notin> Some ` set (map c_id_categoria (categorias d)) \<longrightarrow>
          categorias_put E ident body d =
            reply 200 (mensaje_body (''Categor'' @ [CHR 0xED] @ ''a actualizada correctamente'')) d
              [(''UPDATE Categorias SET nombre=? WHERE id_categoria=?'',
                [field body ''nombre'', JStr ident])])"
  using assms
  by (auto simp: categorias_put_def update_categoria_def query_def no_match_def key_of_def Let_def image_iff
      split: option.splits)

lemma categorias_put_ok_body:
  "(status (response (categorias_put E ident body d)) = 200 \<longrightarrow>
          payload (response (categorias_put E ident body d)) = mensaje_body (''Categor'' @ [CHR 0xED] @ ''a actualizada correctamente''))"
  by (auto simp: categorias_put_def Let_def reply_def split: sum.splits)

lemma valoraciones_put_missing:
  assumes "link_down E = None"
  shows "(truthy (field body ''puntuacion'') \<and> key_of_text E ident \<notin> Some ` set (map v_id_valoracion (valoraciones d)) \<longrightarrow>
          valoraciones_put E ident body d =
            reply 200 (mensaje_body (''Valoraci'' @ [CHR 0xF3] @ ''n actualizada correctamente'')) d
              [(''UPDATE Valoraciones SET puntuacion=?, comentario=? WHERE id_valoracion=?'',
                [field body ''puntuacion'', field body ''comentario'', JStr ident])])"
  using assms
  by (auto simp: valoraciones_put_def update_valoracion_def query_def no_match_def key_of_def Let_def image_iff
      split: option.splits)

lemma valoraciones_put_ok_body:
  "(status (response (valoraciones_put E ident body d)) = 200 \<longrightarrow>
          payload (response (valoraciones_put E ident body d)) = mensaje_body (''Valoraci'' @ [CHR 0xF3] @ ''n actualizada correctamente''))"
  by (auto simp: valoraciones_put_def Let_def reply_def split: sum.splits)

lemma pasos_put_missing:
  assumes "link_down E = None"
  shows "(truthy (field body ''numero_paso'') \<and> truthy (field body ''descripcion'') \<and> key_of_text E ident \<notin> Some ` set (map p_id_paso (pasos d)) \<longrightarrow>
          pasos_put E ident body d =
            reply 200 (mensaje_body (''Paso actualizado correctamente'')) d
              [(''UPDATE Pasos SET numero_paso=?, descripcion=? WHERE id_paso=?'',
                [field body ''numero_paso'', field body ''descripcion'', JStr ident])])"
  using assms
  by (auto simp: pasos_put_def update_paso_def query_def no_match_def key_of_def Let_def image_iff
      split: option.splits)

lemma pasos_put_ok_body:
  "(status (response (pasos_put E ident body d)) = 200 \<longrightarrow>
          payload (response (pasos_put E ident body d)) = mensaje_body (''Paso actualizado correctamente''))"
  by (auto simp: pasos_put_def Let_def reply_def split: sum.splits)

lemma ingredientes_put_missing:
  assumes "link_down E = None"
  shows "(truthy (field body ''nombre'') \<and> key_of_text E ident \<notin> Some ` set (map i_id_ingrediente (ingredientes d)) \<longrightarrow>
          ingredientes_put E ident body d =
            reply 200 (mensaje_body (''Ingrediente actualizado correctamente'')) d
              [(''UPDATE Ingredientes SET nombre=?, unidad_medida=? WHERE id_ingrediente=?'',
                [field body ''nombre'', field body ''unidad_medida'', JStr ident])])"
  using assms
  by (auto simp: ingredientes_put_def update_ingrediente_def query_def no_match_def key_of_def Let_def image_iff
      split: option.splits)

lemma ingredientes_put_ok_body:
  "(status (response (ingredientes_put E ident body d)) = 200 \<longrightarrow>
          payload (response (ingredientes_put E ident body d)) = mensaje_body (''Ingrediente actualizado correctamente''))"
  by (auto simp: ingredientes_put_def Let_def reply_def split: sum.splits)

lemma suscripciones_put_missing:
  assumes "link_down E = None"
  shows "(truthy (field body ''fecha_fin'') \<and> truthy (field body ''monto'') \<and> key_of_text E ident \<notin> Some ` set (map su_id_suscripcion (suscripciones d)) \<longrightarrow>
          suscripciones_put E ident body d =
            reply 200 (mensaje_body (''Suscripci'' @ [CHR 0xF3] @ ''n actualizada correctamente'')) d
              [(''UPDATE Suscripciones SET fecha_fin=?, monto=? WHERE id_suscripcion=?'',
                [field body ''fecha_fin'', field body ''monto'', JStr ident])])"
  using assms
  by (auto simp: suscripciones_put_def update_suscripcion_def query_def no_match_def key_of_def Let_def image_iff
      split: option.splits)

lemma suscripciones_put_ok_body:
  "(status (response (suscripciones_put E ident body d)) = 200 \<longrightarrow>
          payload (response (suscripciones_put E ident body d)) = mensaje_body (''Suscripci'' @ [CHR 0xF3] @ ''n actualizada correctamente''))"
  by (auto simp: suscripciones_put_def Let_def reply_def split: sum.splits)

lemma usuarios_put_missing:
  assumes "link_down E = None"
  shows "(\<not> truthy (field body ''contrasena'')
          \<and> key_of_text E ident \<notin> Some ` set (map u_id_usuario (usuarios d)) \<longrightarrow>
          usuarios_put E ident body d =
            reply 200 (message_body ''Usuario actualizado correctamente'') d
              [(''UPDATE Usuarios SET nombre = ?, email = ?, tipo_usuario = ? WHERE id_usuario = ?'',
                [field body ''nombre'', field body ''email'', field body ''tipo_usuario'', JStr ident])])"
  using assms
  by (auto simp: usuarios_put_def update_usuario_def query_def no_match_def key_of_def Let_def image_iff
      split: option.splits)

lemma usuarios_put_missing_contrasena:
  assumes "link_down E = None"
  shows "(field body ''contrasena'' = JStr pw \<and> pw \<noteq> []
          \<and> key_of_text E ident \<notin> Some ` set (map u_id_usuario (usuarios d)) \<longrightarrow>
          usuarios_put E ident body d =
            reply 200 (message_body ''Usuario actualizado correctamente'') d
              [(''UPDATE Usuarios SET nombre = ?, email = ?, tipo_usuario = ?, contrasena = ? WHERE id_usuario = ?'',
                [field body ''nombre'', field body ''email'', field body ''tipo_usuario'',
                 JStr (bcrypt_hash E pw), JStr ident])])"
  using assms
  by (auto simp: usuarios_put_def update_usuario_contrasena_def bcrypt_hash_js_def query_def
      no_match_def key_of_def Let_def image_iff split: option.splits)

lemma usuarios_put_ok_body:
  "(status (response (usuarios_put E ident body d)) = 200 \<longrightarrow>
          payload (response (usuarios_put E ident body d)) = message_body ''Usuario actualizado correctamente'')"
  by (auto simp: usuarios_put_def Let_def reply_def split: sum.splits)

text \<open>
  C9, as amended. For each of the seven entities, PUT with a body that passes the
  route's presence check (for a user: a password that is absent, falsy or a string) and
  an identifier that matches no row sends the UPDATE, answers 200 with the entity's
  message of a successful update and leaves the database as it was: the routes do not
  look at \<^verbatim>\<open>affectedRows\<close>. Whenever a PUT answers 200 the body is that same
  message, so a successful response does not tell whether a row was found.
\<close>

theorem update_missing_row:
  assumes "link_down E = None"
  shows "(key_of_text E ident \<notin> Some ` set (map r_id_receta (recetas d)) \<longrightarrow>
          recetas_put E ident body d =
            reply 200 (mensaje_body (''Receta actualizada correctamente'')) d
              [(''UPDATE Recetas SET titulo=?, descripcion=?, tiempo_preparacion=?, costo=?, es_publica=?, es_premium=?, categoria_id=?, autor_id=? WHERE id_receta=?'',
                [field body ''titulo'', field body ''descripcion'', field body ''tiempo_preparacion'', field body ''costo'', field body ''es_publica'', field body ''es_premium'', field body ''categoria_id'', field body ''autor_id'', JStr ident])])
     \<and> (status (response (recetas_put E ident body d)) = 200 \<longrightarrow>
          payload (response (recetas_put E ident body d)) = mensaje_body (''Receta actualizada correctamente''))
     \<and> (truthy (field body ''nombre'') \<and> key_of_text E ident \<notin> Some ` set (map c_id_categoria (categorias d)) \<longrightarrow>
          categorias_put E ident body d =
            reply 200 (mensaje_body (''Categor'' @ [CHR 0xED] @ ''a actualizada correctamente'')) d
              [(''UPDATE Categorias SET nombre=? WHERE id_categoria=?'',
                [field body ''nombre'', JStr ident])])
     \<and> (status (response (categorias_put E ident body d)) = 200 \<longrightarrow>
          payload (response (categorias_put E ident body d)) = mensaje_body (''Categor'' @ [CHR 0xED] @ ''a actualizada correctamente''))
     \<and> (truthy (field body ''puntuacion'') \<and> key_of_text E ident \<notin> Some ` set (map v_id_valoracion (valoraciones d)) \<longrightarrow>
          valoraciones_put E ident body d =
            reply 200 (mensaje_body (''Valoraci'' @ [CHR 0xF3] @ ''n actualizada correctamente'')) d
              [(''UPDATE Valoraciones SET puntuacion=?, comentario=? WHERE id_valoracion=?'',
                [field body ''puntuacion'', field body ''comentario'', JStr ident])])
     \<and> (status (response (valoraciones_put E ident body d)) = 200 \<longrightarrow>
          payload (response (valoraciones_put E ident body d)) = mensaje_body (''Valoraci'' @ [CHR 0xF3] @ ''n actualizada correctamente''))
     \<and> (truthy (field body ''numero_paso'') \<and> truthy (field body ''descripcion'') \<and> key_of_text E ident \<notin> Some ` set (map p_id_paso (pasos d)) \<longrightarrow>
          pasos_put E ident body d =
            reply 200 (mensaje_body (''Paso actualizado correctamente'')) d
              [(''UPDATE Pasos SET numero_paso=?, descripcion=? WHERE id_paso=?'',
                [field body ''numero_paso'', field body ''descripcion'', JStr ident])])
     \<and> (status (response (pasos_put E ident body d)) = 200 \<longrightarrow>
          payload (response (pasos_put E ident body d)) = mensaje_body (''Paso actualizado correctamente''))
     \<and> (truthy (field body ''nombre'') \<and> key_of_text E ident \<notin> Some ` set (map i_id_ingrediente (ingredientes d)) \<longrightarrow>
          ingredientes_put E ident body d =
            reply 200 (mensaje_body (''Ingrediente actualizado correctamente'')) d
              [(''UPDATE Ingredientes SET nombre=?, unidad_medida=? WHERE id_ingrediente=?'',
                [field body ''nombre'', field body ''unidad_medida'', JStr ident])])
     \<and> (status (response (ingredientes_put E ident body d)) = 200 \<longrightarrow>
          payload (response (ingredientes_put E ident body d)) = mensaje_body (''Ingrediente actualizado correctamente''))
     \<and> (truthy (field body ''fecha_fin'') \<and> truthy (field body ''monto'') \<and> key_of_text E ident \<notin> Some ` set (map su_id_suscripcion (suscripciones d)) \<longrightarrow>
          suscripciones_put E ident body d =
            reply 200 (mensaje_body (''Suscripci'' @ [CHR 0xF3] @ ''n actualizada correctamente'')) d
              [(''UPDATE Suscripciones SET fecha_fin=?, monto=? WHERE id_suscripcion=?'',
                [field body ''fecha_fin'', field body ''monto'', JStr ident])])
     \<and> (status (response (suscripciones_put E ident body d)) = 200 \<longrightarrow>
          payload (response (suscripciones_put E ident body d)) = mensaje_body (''Suscripci'' @ [CHR 0xF3] @ ''n actualizada correctamente''))
     \<and> (\<not> truthy (field body ''contrasena'')
          \<and> key_of_text E ident \<notin> Some ` set (map u_id_usuario (usuarios d)) \<longrightarrow>
          usuarios_put E ident body d =
            reply 200 (message_body ''Usuario actualizado correctamente'') d
              [(''UPDATE Usuarios SET nombre = ?, email = ?, tipo_usuario = ? WHERE id_usuario = ?'',
                [field body ''nombre'', field body ''email'', field body ''tipo_usuario'', JStr ident])])
     \<and> (field body ''contrasena'' = JStr pw \<and> pw \<noteq> []
          \<and> key_of_text E ident \<notin> Some ` set (map u_id_usuario (usuarios d)) \<longrightarrow>
          usuarios_put E ident body d =
            reply 200 (message_body ''Usuario actualizado correctamente'') d
              [(''UPDATE Usuarios SET nombre = ?, email = ?, tipo_usuario = ?, contrasena = ? WHERE id_usuario = ?'',
                [field body ''nombre'', field body ''email'', field body ''tipo_usuario'',
                 JStr (bcrypt_hash E pw), JStr ident])])
     \<and> (status (response (usuarios_put E ident body d)) = 200 \<longrightarrow>
          payload (response (usuarios_put E ident body d)) = message_body ''Usuario actualizado correctamente'')"
  by (intro conjI recetas_put_missing [OF assms]
      recetas_put_ok_body
      categorias_put_missing [OF assms]
      categorias_put_ok_body
      valoraciones_put_missing [OF assms]
      valoraciones_put_ok_body
      pasos_put_missing [OF assms]
      pasos_put_ok_body
      ingredientes_put_missing [OF assms]
      ingredientes_put_ok_body
      suscripciones_put_missing [OF assms]
      suscripciones_put_ok_body
      usuarios_put_missing [OF assms]
      usuarios_put_missing_contrasena [OF assms]
      usuarios_put_ok_body)

text \<open>Witness of C9 as amended: there is no rating 42 in the sample database.\<close>

theorem update_missing_row_witness:
  "response (valoraciones_put env_ejemplo ''42'' [(''puntuacion'', JNum 3)] db_ejemplo) =
     \<lparr>status = 200, payload = mensaje_body (''Valoraci'' @ [CHR 0xF3] @ ''n actualizada correctamente'')\<rparr>
   \<and> store (valoraciones_put env_ejemplo ''42'' [(''puntuacion'', JNum 3)] db_ejemplo) = db_ejemplo"
proof -
  have up: "link_down env_ejemplo = None"
    by (simp add: env_ejemplo_def)
  have "truthy (field [(''puntuacion'', JNum 3)] ''puntuacion'')
      \<and> key_of_text env_ejemplo ''42'' \<notin> Some ` set (map v_id_valoracion (valoraciones db_ejemplo))"
    by (simp add: env_ejemplo_def db_ejemplo_def decimal_def field_def)
  with update_missing_row [OF up, where d = db_ejemplo and ident = "''42''"
      and body = "[(''puntuacion'', JNum 3)]"]
  have "valoraciones_put env_ejemplo ''42'' [(''puntuacion'', JNum 3)] db_ejemplo =
      reply 200 (mensaje_body (''Valoraci'' @ [CHR 0xF3] @ ''n actualizada correctamente'')) db_ejemplo
        [(''UPDATE Valoraciones SET puntuacion=?, comentario=? WHERE id_valoracion=?'',
          [field [(''puntuacion'', JNum 3)] ''puntuacion'', field [(''puntuacion'', JNum 3)] ''comentario'',
           JStr ''42''])]"
    by blast
  then show ?thesis by (simp add: reply_def)
qed

text \<open>
  Counterexample to C9 as stated. A caller can tell a missing rating from an existing
  one: the score 6 is answered with 200 for the missing rating 42 and with 500 for the
  existing rating 1, whose row the engine refuses to change. And an update of a missing
  row does not report success for every body: without a score it is answered with 400.
\<close>

theorem valoraciones_put_distinguishes_counterexample:
  "status (response (valoraciones_put env_ejemplo ''42'' [(''puntuacion'', JNum 6)] db_ejemplo)) = 200
   \<and> status (response (valoraciones_put env_ejemplo ''1'' [(''puntuacion'', JNum 6)] db_ejemplo)) = 500
   \<and> status (response (valoraciones_put env_ejemplo ''42'' [] db_ejemplo)) = 400"
  by (simp add: valoraciones_put_def update_valoracion_def query_def no_match_def key_of_def
      Let_def reply_def andthen_def int_col_def num_col_def ranged_def text_col_def
      check_puntuacion_def field_def env_ejemplo_def decimal_def db_ejemplo_def)

subsection \<open>C10: what an update of a recipe overwrites\<close>

lemma recetas_put_sin_titulo:
  assumes "link_down E = None" and "key_of_text E ident = Some k"
    and "k \<in> set (map r_id_receta (recetas d))"
    and "field body ''titulo'' = JUndefined \<or> field body ''titulo'' = JNull"
  shows "response (recetas_put E ident body d) =
           \<lparr>status = 500, payload = error_body (cannot_be_null ''titulo'')\<rparr>
       \<and> store (recetas_put E ident body d) = d"
  using assms
  by (auto simp: recetas_put_def update_receta_def query_def Let_def reply_def andthen_def
      not_null_def text_col_def key_of_def)

lemma stamped_cols:
  "r_id_receta (stamped E old new) = r_id_receta new \<or> stamped E old new = old"
  "stamped E old new = old \<or> stamped E old new = new\<lparr>r_fecha_modificacion := clock E\<rparr>"
  by (auto simp: stamped_def)

lemma recetas_put_written:
  assumes up: "link_down E = None" and key: "key_of_text E ident = Some k"
    and ok: "status (response (recetas_put E ident body d)) = 200"
    and r': "r' \<in> set (recetas (store (recetas_put E ident body d)))"
    and idr: "r_id_receta r' = k"
  shows "text_col 150 ''titulo'' (field body ''titulo'') = Inr (Some (r_titulo r'))
       \<and> text_col 65535 ''descripcion'' (field body ''descripcion'') = Inr (r_descripcion r')
       \<and> int_col E ''tiempo_preparacion'' (field body ''tiempo_preparacion'') = Inr (r_tiempo_preparacion r')
       \<and> dec_col E ''costo'' (field body ''costo'') = Inr (r_costo r')
       \<and> bool_col E ''es_publica'' (field body ''es_publica'') = Inr (r_es_publica r')
       \<and> bool_col E ''es_premium'' (field body ''es_premium'') = Inr (r_es_premium r')
       \<and> int_col E ''categoria_id'' (field body ''categoria_id'') = Inr (r_categoria_id r')
       \<and> int_col E ''autor_id'' (field body ''autor_id'') = Inr (r_autor_id r')"
proof -
  have mem: "k \<in> set (map r_id_receta (recetas d))"
  proof (rule ccontr)
    assume "k \<notin> set (map r_id_receta (recetas d))"
    then have "store (recetas_put E ident body d) = d"
      using up key
      by (simp add: recetas_put_def update_receta_def query_def Let_def reply_def key_of_def no_match_def)
    with r' idr \<open>k \<notin> set (map r_id_receta (recetas d))\<close> show False by auto
  qed
  obtain t where t: "text_col 150 ''titulo'' (field body ''titulo'') = Inr (Some t)"
    using ok up key mem
    by (cases "text_col 150 ''titulo'' (field body ''titulo'')")
       (auto simp: recetas_put_def update_receta_def query_def Let_def reply_def key_of_def
          andthen_def not_null_def split: option.splits)
  obtain ds where ds: "text_col 65535 ''descripcion'' (field body ''descripcion'') = Inr ds"
    using ok up key mem t
    by (cases "text_col 65535 ''descripcion'' (field body ''descripcion'')")
       (auto simp: recetas_put_def update_receta_def query_def Let_def reply_def key_of_def
          andthen_def not_null_def)
  obtain tp where tp: "int_col E ''tiempo_preparacion'' (field body ''tiempo_preparacion'') = Inr tp"
    using ok up key mem t ds
    by (cases "int_col E ''tiempo_preparacion'' (field body ''tiempo_preparacion'')")
       (auto simp: recetas_put_def update_receta_def query_def Let_def reply_def key_of_def
          andthen_def not_null_def)
  obtain co where co: "dec_col E ''costo'' (field body ''costo'') = Inr co"
    using ok up key mem t ds tp
    by (cases "dec_col E ''costo'' (field body ''costo'')")
       (auto simp: recetas_put_def update_receta_def query_def Let_def reply_def key_of_def
          andthen_def not_null_def)
  obtain pu where pu: "bool_col E ''es_publica'' (field body ''es_publica'') = Inr pu"
    using ok up key mem t ds tp co
    by (cases "bool_col E ''es_publica'' (field body ''es_publica'')")
       (auto simp: recetas_put_def update_receta_def query_def Let_def reply_def key_of_def
          andthen_def not_null_def)
  obtain pr where pr: "bool_col E ''es_premium'' (field body ''es_premium'') = Inr pr"
    using ok up key mem t ds tp co pu
    by (cases "bool_col E ''es_premium'' (field body ''es_premium'')")
       (auto simp: recetas_put_def update_receta_def query_def Let_def reply_def key_of_def
          andthen_def not_null_def)
  obtain cid where cid: "int_col E ''categoria_id'' (field body ''categoria_id'') = Inr cid"
    using ok up key mem t ds tp co pu pr
    by (cases "int_col E ''categoria_id'' (field body ''categoria_id'')")
       (auto simp: recetas_put_def update_receta_def query_def Let_def reply_def key_of_def
          andthen_def not_null_def)
  obtain aid where aid: "int_col E ''autor_id'' (field body ''autor_id'') = Inr aid"
    using ok up key mem t ds tp co pu pr cid
    by (cases "int_col E ''autor_id'' (field body ''autor_id'')")
       (auto simp: recetas_put_def update_receta_def query_def Let_def reply_def key_of_def
          andthen_def not_null_def)
  let ?new = "\<lambda>r. r\<lparr>r_titulo := t, r_descripcion := ds, r_tiempo_preparacion := tp, r_costo := co,
                     r_es_publica := pu, r_es_premium := pr, r_categoria_id := cid, r_autor_id := aid\<rparr>"
  have st: "recetas (store (recetas_put E ident body d)) =
              map (\<lambda>r. if r_id_receta r = k then stamped E r (?new r) else r) (recetas d)"
    using ok up key mem t ds tp co pu pr cid aid
    by (auto simp: recetas_put_def update_receta_def query_def Let_def reply_def key_of_def
          andthen_def not_null_def split: if_splits)
  from r' obtain r where r: "r \<in> set (recetas d)"
      and r'eq: "r' = (if r_id_receta r = k then stamped E r (?new r) else r)"
    unfolding st by auto
  have "r_id_receta r = k"
    using r'eq idr by (auto simp: stamped_def split: if_splits)
  then have "r' = stamped E r (?new r)"
    using r'eq by simp
  then have "r' = ?new r \<or> r' = (?new r)\<lparr>r_fecha_modificacion := clock E\<rparr>"
    by (auto simp: stamped_def split: if_splits)
  then show ?thesis
    using t ds tp co pu pr cid aid by auto
qed

lemma recetas_put_exact:
  assumes up: "link_down E = None" and key: "key_of_text E ident = Some k"
    and mem: "k \<in> set (map r_id_receta (recetas d))"
    and ok: "status (response (recetas_put E ident body d)) = 200"
  shows "(\<exists>t ds tp co pu pr cid aid.
                text_col 150 ''titulo'' (field body ''titulo'') = Inr (Some t)
              \<and> text_col 65535 ''descripcion'' (field body ''descripcion'') = Inr ds
              \<and> int_col E ''tiempo_preparacion'' (field body ''tiempo_preparacion'') = Inr tp
              \<and> dec_col E ''costo'' (field body ''costo'') = Inr co
              \<and> bool_col E ''es_publica'' (field body ''es_publica'') = Inr pu
              \<and> bool_col E ''es_premium'' (field body ''es_premium'') = Inr pr
              \<and> int_col E ''categoria_id'' (field body ''categoria_id'') = Inr cid
              \<and> int_col E ''autor_id'' (field body ''autor_id'') = Inr aid
              \<and> store (recetas_put E ident body d) =
                  d\<lparr>recetas := map (\<lambda>r. if r_id_receta r = k
                        then stamped E r
                               (r\<lparr>r_titulo := t, r_descripcion := ds, r_tiempo_preparacion := tp,
                                  r_costo := co, r_es_publica := pu, r_es_premium := pr,
                                  r_categoria_id := cid, r_autor_id := aid\<rparr>)
                        else r) (recetas d)\<rparr>)"
proof -
  obtain t where t: "text_col 150 ''titulo'' (field body ''titulo'') = Inr (Some t)"
    using ok up key mem
    by (cases "text_col 150 ''titulo'' (field body ''titulo'')")
       (auto simp: recetas_put_def update_receta_def query_def Let_def reply_def key_of_def
          andthen_def not_null_def split: option.splits)
  obtain ds where ds: "text_col 65535 ''descripcion'' (field body ''descripcion'') = Inr ds"
    using ok up key mem t
    by (cases "text_col 65535 ''descripcion'' (field body ''descripcion'')")
       (auto simp: recetas_put_def update_receta_def query_def Let_def reply_def key_of_def
          andthen_def not_null_def)
  obtain tp where tp: "int_col E ''tiempo_preparacion'' (field body ''tiempo_preparacion'') = Inr tp"
    using ok up key mem t ds
    by (cases "int_col E ''tiempo_preparacion'' (field body ''tiempo_preparacion'')")
       (auto simp: recetas_put_def update_receta_def query_def Let_def reply_def key_of_def
          andthen_def not_null_def)
  obtain co where co: "dec_col E ''costo'' (field body ''costo'') = Inr co"
    using ok up key mem t ds tp
    by (cases "dec_col E ''costo'' (field body ''costo'')")
       (auto simp: recetas_put_def update_receta_def query_def Let_def reply_def key_of_def
          andthen_def not_null_def)
  obtain pu where pu: "bool_col E ''es_publica'' (field body ''es_publica'') = Inr pu"
    using ok up key mem t ds tp co
    by (cases "bool_col E ''es_publica'' (field body ''es_publica'')")
       (auto simp: recetas_put_def update_receta_def query_def Let_def reply_def key_of_def
          andthen_def not_null_def)
  obtain pr where pr: "bool_col E ''es_premium'' (field body ''es_premium'') = Inr pr"
    using ok up key mem t ds tp co pu
    by (cases "bool_col E ''es_premium'' (field body ''es_premium'')")
       (auto simp: recetas_put_def update_receta_def query_def Let_def reply_def key_of_def
          andthen_def not_null_def)
  obtain cid where cid: "int_col E ''categoria_id'' (field body ''categoria_id'') = Inr cid"
    using ok up key mem t ds tp co pu pr
    by (cases "int_col E ''categoria_id'' (field body ''categoria_id'')")
       (auto simp: recetas_put_def update_receta_def query_def Let_def reply_def key_of_def
          andthen_def not_null_def)
  obtain aid where aid: "int_col E ''autor_id'' (field body ''autor_id'') = Inr aid"
    using ok up key mem t ds tp co pu pr cid
    by (cases "int_col E ''autor_id'' (field body ''autor_id'')")
       (auto simp: recetas_put_def update_receta_def query_def Let_def reply_def key_of_def
          andthen_def not_null_def)
  have "store (recetas_put E ident body d) =
          d\<lparr>recetas := map (\<lambda>r. if r_id_receta r = k
                then stamped E r
                       (r\<lparr>r_titulo := t, r_descripcion := ds, r_tiempo_preparacion := tp,
                          r_costo := co, r_es_publica := pu, r_es_premium := pr,
                          r_categoria_id := cid, r_autor_id := aid\<rparr>)
                else r) (recetas d)\<rparr>"
    using ok up key mem t ds tp co pu pr cid aid
    by (auto simp: recetas_put_def update_receta_def query_def Let_def reply_def key_of_def
          andthen_def not_null_def split: if_splits)
  with t ds tp co pu pr cid aid show ?thesis by blast
qed

lemma recetas_put_keeps_rows:
  assumes up: "link_down E = None" and key: "key_of_text E ident = Some k"
    and mem: "k \<in> set (map r_id_receta (recetas d))"
    and ok: "status (response (recetas_put E ident body d)) = 200"
  shows "map r_id_receta (recetas (store (recetas_put E ident body d))) = map r_id_receta (recetas d)"
proof -
  from recetas_put_exact [OF assms] obtain f where
    st: "store (recetas_put E ident body d) =
           d\<lparr>recetas := map (\<lambda>r. if r_id_receta r = k then stamped E r (f r) else r) (recetas d)\<rparr>"
    and idf: "\<And>r. r_id_receta (f r) = r_id_receta r"
  proof -
    from recetas_put_exact [OF assms] obtain t ds tp co pu pr cid aid where
      "store (recetas_put E ident body d) =
          d\<lparr>recetas := map (\<lambda>r. if r_id_receta r = k
                then stamped E r
                       (r\<lparr>r_titulo := t, r_descripcion := ds, r_tiempo_preparacion := tp,
                          r_costo := co, r_es_publica := pu, r_es_premium := pr,
                          r_categoria_id := cid, r_autor_id := aid\<rparr>)
                else r) (recetas d)\<rparr>"
      by blast
    then show ?thesis
      by (intro that [where f = "\<lambda>r. r\<lparr>r_titulo := t, r_descripcion := ds, r_tiempo_preparacion := tp,
                          r_costo := co, r_es_publica := pu, r_es_premium := pr,
                          r_categoria_id := cid, r_autor_id := aid\<rparr>"]) simp_all
  qed
  have "r_id_receta (if r_id_receta r = k then stamped E r (f r) else r) = r_id_receta r" for r
    using idf [of r] by (simp add: stamped_def)
  then show ?thesis
    unfolding st by (simp add: comp_def)
qed

text \<open>
  C10, as amended. A PUT /recetas/:id that finds the recipe and is accepted by the
  engine (answer 200) keeps every row of the table in its place and changes only the
  rows with that identifier: in each of them all eight columns are overwritten with
  the engine's reading of the fields of the body (and the modification time is stamped
  when that changes the row), every other table is untouched. A field that the body
  omits is stored as NULL in the seven nullable columns (description, time, cost, the
  two flags, category and author). A body that omits \<open>titulo\<close> is not written: the
  column is NOT NULL, the engine rejects the statement, the answer is 500 and the
  database is unchanged.
\<close>

theorem recetas_put_overwrites:
  assumes "link_down E = None" and "key_of_text E ident = Some k"
    and "k \<in> set (map r_id_receta (recetas d))"
  shows "(field body ''titulo'' = JUndefined \<longrightarrow>
            response (recetas_put E ident body d) =
              \<lparr>status = 500, payload = error_body (cannot_be_null ''titulo'')\<rparr>
          \<and> store (recetas_put E ident body d) = d)
       \<and> (status (response (recetas_put E ident body d)) = 200 \<longrightarrow>
            (\<exists>t ds tp co pu pr cid aid.
                text_col 150 ''titulo'' (field body ''titulo'') = Inr (Some t)
              \<and> text_col 65535 ''descripcion'' (field body ''descripcion'') = Inr ds
              \<and> int_col E ''tiempo_preparacion'' (field body ''tiempo_preparacion'') = Inr tp
              \<and> dec_col E ''costo'' (field body ''costo'') = Inr co
              \<and> bool_col E ''es_publica'' (field body ''es_publica'') = Inr pu
              \<and> bool_col E ''es_premium'' (field body ''es_premium'') = Inr pr
              \<and> int_col E ''categoria_id'' (field body ''categoria_id'') = Inr cid
              \<and> int_col E ''autor_id'' (field body ''autor_id'') = Inr aid
              \<and> store (recetas_put E ident body d) =
                  d\<lparr>recetas := map (\<lambda>r. if r_id_receta r = k
                        then stamped E r
                               (r\<lparr>r_titulo := t, r_descripcion := ds, r_tiempo_preparacion := tp,
                                  r_costo := co, r_es_publica := pu, r_es_premium := pr,
                                  r_categoria_id := cid, r_autor_id := aid\<rparr>)
                        else r) (recetas d)\<rparr>))
       \<and> (status (response (recetas_put E ident body d)) = 200 \<longrightarrow>
            map r_id_receta (recetas (store (recetas_put E ident body d))) = map r_id_receta (recetas d))
       \<and> (status (response (recetas_put E ident body d)) = 200 \<longrightarrow>
            list_all (\<lambda>r'. r_id_receta r' = k \<longrightarrow>
                text_col 150 ''titulo'' (field body ''titulo'') = Inr (Some (r_titulo r'))
              \<and> text_col 65535 ''descripcion'' (field body ''descripcion'') = Inr (r_descripcion r')
              \<and> int_col E ''tiempo_preparacion'' (field body ''tiempo_preparacion'') = Inr (r_tiempo_preparacion r')
              \<and> dec_col E ''costo'' (field body ''costo'') = Inr (r_costo r')
              \<and> bool_col E ''es_publica'' (field body ''es_publica'') = Inr (r_es_publica r')
              \<and> bool_col E ''es_premium'' (field body ''es_premium'') = Inr (r_es_premium r')
              \<and> int_col E ''categoria_id'' (field body ''categoria_id'') = Inr (r_categoria_id r')
              \<and> int_col E ''autor_id'' (field body ''autor_id'') = Inr (r_autor_id r')
              \<and> (field body ''descripcion'' = JUndefined \<longrightarrow> r_descripcion r' = None)
              \<and> (field body ''tiempo_preparacion'' = JUndefined \<longrightarrow> r_tiempo_preparacion r' = None)
              \<and> (field body ''costo'' = JUndefined \<longrightarrow> r_costo r' = None)
              \<and> (field body ''es_publica'' = JUndefined \<longrightarrow> r_es_publica r' = None)
              \<and> (field body ''es_premium'' = JUndefined \<longrightarrow> r_es_premium r' = None)
              \<and> (field body ''categoria_id'' = JUndefined \<longrightarrow> r_categoria_id r' = None)
              \<and> (field body ''autor_id'' = JUndefined \<longrightarrow> r_autor_id r' = None))
              (recetas (store (recetas_put E ident body d))))"
proof (intro conjI impI)
  assume "field body ''titulo'' = JUndefined"
  then show "response (recetas_put E ident body d) =
              \<lparr>status = 500, payload = error_body (cannot_be_null ''titulo'')\<rparr>"
    and "store (recetas_put E ident body d) = d"
    using recetas_put_sin_titulo [OF assms, of body] by simp_all
next
  assume ok: "status (response (recetas_put E ident body d)) = 200"
  show "(\<exists>t ds tp co pu pr cid aid.
                text_col 150 ''titulo'' (field body ''titulo'') = Inr (Some t)
              \<and> text_col 65535 ''descripcion'' (field body ''descripcion'') = Inr ds
              \<and> int_col E ''tiempo_preparacion'' (field body ''tiempo_preparacion'') = Inr tp
              \<and> dec_col E ''costo'' (field body ''costo'') = Inr co
              \<and> bool_col E ''es_publica'' (field body ''es_publica'') = Inr pu
              \<and> bool_col E ''es_premium'' (field body ''es_premium'') = Inr pr
              \<and> int_col E ''categoria_id'' (field body ''categoria_id'') = Inr cid
              \<and> int_col E ''autor_id'' (field body ''autor_id'') = Inr aid
              \<and> store (recetas_put E ident body d) =
                  d\<lparr>recetas := map (\<lambda>r. if r_id_receta r = k
                        then stamped E r
                               (r\<lparr>r_titulo := t, r_descripcion := ds, r_tiempo_preparacion := tp,
                                  r_costo := co, r_es_publica := pu, r_es_premium := pr,
                                  r_categoria_id := cid, r_autor_id := aid\<rparr>)
                        else r) (recetas d)\<rparr>)"
    by (rule recetas_put_exact [OF assms ok])
next
  assume ok: "status (response (recetas_put E ident body d)) = 200"
  show "map r_id_receta (recetas (store (recetas_put E ident body d))) = map r_id_receta (recetas d)"
    by (rule recetas_put_keeps_rows [OF assms ok])
next
  assume ok: "status (response (recetas_put E ident body d)) = 200"
  show "list_all (\<lambda>r'. r_id_receta r' = k \<longrightarrow>
                text_col 150 ''titulo'' (field body ''titulo'') = Inr (Some (r_titulo r'))
              \<and> text_col 65535 ''descripcion'' (field body ''descripcion'') = Inr (r_descripcion r')
              \<and> int_col E ''tiempo_preparacion'' (field body ''tiempo_preparacion'') = Inr (r_tiempo_preparacion r')
              \<and> dec_col E ''costo'' (field body ''costo'') = Inr (r_costo r')
              \<and> bool_col E ''es_publica'' (field body ''es_publica'') = Inr (r_es_publica r')
              \<and> bool_col E ''es_premium'' (field body ''es_premium'') = Inr (r_es_premium r')
              \<and> int_col E ''categoria_id'' (field body ''categoria_id'') = Inr (r_categoria_id r')
              \<and> int_col E ''autor_id'' (field body ''autor_id'') = Inr (r_autor_id r')
              \<and> (field body ''descripcion'' = JUndefined \<longrightarrow> r_descripcion r' = None)
              \<and> (field body ''tiempo_preparacion'' = JUndefined \<longrightarrow> r_tiempo_preparacion r' = None)
              \<and> (field body ''costo'' = JUndefined \<longrightarrow> r_costo r' = None)
              \<and> (field body ''es_publica'' = JUndefined \<longrightarrow> r_es_publica r' = None)
              \<and> (field body ''es_premium'' = JUndefined \<longrightarrow> r_es_premium r' = None)
              \<and> (field body ''categoria_id'' = JUndefined \<longrightarrow> r_categoria_id r' = None)
              \<and> (field body ''autor_id'' = JUndefined \<longrightarrow> r_autor_id r' = None))
              (recetas (store (recetas_put E ident body d)))"
    unfolding list_all_iff
  proof (intro ballI impI)
    fix r' assume "r' \<in> set (recetas (store (recetas_put E ident body d)))" "r_id_receta r' = k"
    from recetas_put_written [OF assms(1,2) ok this]
    show "text_col 150 ''titulo'' (field body ''titulo'') = Inr (Some (r_titulo r'))
              \<and> text_col 65535 ''descripcion'' (field body ''descripcion'') = Inr (r_descripcion r')
              \<and> int_col E ''tiempo_preparacion'' (field body ''tiempo_preparacion'') = Inr (r_tiempo_preparacion r')
              \<and> dec_col E ''costo'' (field body ''costo'') = Inr (r_costo r')
              \<and> bool_col E ''es_publica'' (field body ''es_publica'') = Inr (r_es_publica r')
              \<and> bool_col E ''es_premium'' (field body ''es_premium'') = Inr (r_es_premium r')
              \<and> int_col E ''categoria_id'' (field body ''categoria_id'') = Inr (r_categoria_id r')
              \<and> int_col E ''autor_id'' (field body ''autor_id'') = Inr (r_autor_id r')
              \<and> (field body ''descripcion'' = JUndefined \<longrightarrow> r_descripcion r' = None)
              \<and> (field body ''tiempo_preparacion'' = JUndefined \<longrightarrow> r_tiempo_preparacion r' = None)
              \<and> (field body ''costo'' = JUndefined \<longrightarrow> r_costo r' = None)
              \<and> (field body ''es_publica'' = JUndefined \<longrightarrow> r_es_publica r' = None)
              \<and> (field body ''es_premium'' = JUndefined \<longrightarrow> r_es_premium r' = None)
              \<and> (field body ''categoria_id'' = JUndefined \<longrightarrow> r_categoria_id r' = None)
              \<and> (field body ''autor_id'' = JUndefined \<longrightarrow> r_autor_id r' = None)"
      by (auto simp: text_col_def int_col_def dec_col_def bool_col_def num_col_def)
  qed
qed

text \<open>
  Witness of C10 as amended: renaming recipe 1 of the sample database with a body of
  the title alone is accepted; both recipes are still there, and recipe 1 has the new
  title and no author, category or description any more.
\<close>

theorem recetas_put_overwrites_witness:
  "status (response (recetas_put env_ejemplo ''1'' [(''titulo'', JStr ''Tacos'')] db_ejemplo)) = 200
   \<and> map r_id_receta (recetas (store (recetas_put env_ejemplo ''1'' [(''titulo'', JStr ''Tacos'')] db_ejemplo)))
     = [1, 2]
   \<and> list_all (\<lambda>r'. r_id_receta r' = 1 \<longrightarrow> r_titulo r' = ''Tacos'' \<and> r_autor_id r' = None
          \<and> r_categoria_id r' = None \<and> r_descripcion r' = None)
        (recetas (store (recetas_put env_ejemplo ''1'' [(''titulo'', JStr ''Tacos'')] db_ejemplo)))"
proof -
  have up: "link_down env_ejemplo = None" and key: "key_of_text env_ejemplo ''1'' = Some 1"
    and mem: "1 \<in> set (map r_id_receta (recetas db_ejemplo))"
    by (simp_all add: env_ejemplo_def decimal_def db_ejemplo_def)
  have ok: "status (response (recetas_put env_ejemplo ''1'' [(''titulo'', JStr ''Tacos'')] db_ejemplo)) = 200"
    using up key mem
    by (simp add: recetas_put_def update_receta_def query_def Let_def reply_def key_of_def
        andthen_def not_null_def text_col_def int_col_def dec_col_def bool_col_def num_col_def
        field_def refers_def)
  have f: "field [(''titulo'', JStr ''Tacos'')] ''descripcion'' = JUndefined"
    "field [(''titulo'', JStr ''Tacos'')] ''categoria_id'' = JUndefined"
    "field [(''titulo'', JStr ''Tacos'')] ''autor_id'' = JUndefined"
    "text_col 150 ''titulo'' (field [(''titulo'', JStr ''Tacos'')] ''titulo'') = Inr (Some ''Tacos'')"
    by (simp_all add: field_def text_col_def)
  have ids: "map r_id_receta (recetas db_ejemplo) = [1, 2]"
    by (simp add: db_ejemplo_def)
  note inst = recetas_put_overwrites [OF up key mem, of "[(''titulo'', JStr ''Tacos'')]"]
  have a: "map r_id_receta (recetas (store (recetas_put env_ejemplo ''1'' [(''titulo'', JStr ''Tacos'')] db_ejemplo)))
     = [1, 2]"
    using inst [THEN conjunct2, THEN conjunct2, THEN conjunct1] ok ids by simp
  have b: "list_all (\<lambda>r'. r_id_receta r' = 1 \<longrightarrow> r_titulo r' = ''Tacos'' \<and> r_autor_id r' = None
          \<and> r_categoria_id r' = None \<and> r_descripcion r' = None)
        (recetas (store (recetas_put env_ejemplo ''1'' [(''titulo'', JStr ''Tacos'')] db_ejemplo)))"
    unfolding list_all_iff
  proof (intro ballI impI)
    fix r'
    assume r': "r' \<in> set (recetas (store (recetas_put env_ejemplo ''1'' [(''titulo'', JStr ''Tacos'')] db_ejemplo)))"
      and i: "r_id_receta r' = 1"
    from inst [THEN conjunct2, THEN conjunct2, THEN conjunct2, rule_format, OF ok,
        unfolded list_all_iff, rule_format, OF r' i]
    have "text_col 150 ''titulo'' (field [(''titulo'', JStr ''Tacos'')] ''titulo'') = Inr (Some (r_titulo r'))"
      and "field [(''titulo'', JStr ''Tacos'')] ''descripcion'' = JUndefined \<longrightarrow> r_descripcion r' = None"
      and "field [(''titulo'', JStr ''Tacos'')] ''categoria_id'' = JUndefined \<longrightarrow> r_categoria_id r' = None"
      and "field [(''titulo'', JStr ''Tacos'')] ''autor_id'' = JUndefined \<longrightarrow> r_autor_id r' = None"
      by blast+
    with f show "r_titulo r' = ''Tacos'' \<and> r_autor_id r' = None
          \<and> r_categoria_id r' = None \<and> r_descripcion r' = None"
      by simp
  qed
  from ok a b show ?thesis by simp
qed

text \<open>
  Counterexample to C10 as stated: a partial update of recipe 1 that does not mention
  the title destroys nothing. The engine refuses NULL for \<open>titulo\<close>, the answer is 500
  and the recipe keeps its title, its author and every other column.
\<close>

theorem recetas_put_partial_counterexample:
  "response (recetas_put env_ejemplo ''1'' [(''descripcion'', JStr ''x'')] db_ejemplo)
     = \<lparr>status = 500, payload = error_body (cannot_be_null ''titulo'')\<rparr>
   \<and> store (recetas_put env_ejemplo ''1'' [(''descripcion'', JStr ''x'')] db_ejemplo) = db_ejemplo"
  by (simp add: recetas_put_def update_receta_def query_def Let_def reply_def key_of_def
      andthen_def not_null_def text_col_def field_def env_ejemplo_def decimal_def db_ejemplo_def)

end
